theory Spec2Isabelle
  imports Complex_Main
begin

section \<open>ModelRiver client: data model\<close>

text \<open>
  The repository holds two versions of the class \<open>ModelRiverClient\<close>:
  the channel-id version (\<open>connect({channelId, wsToken, ...})\<close>, with the
  \<open>isCompleted\<close> flag) and the JWT version (\<open>connect({wsToken})\<close>, which decodes
  the token itself). Both share \<open>utils.ts\<close> and \<open>types.ts\<close>.

  JavaScript strings are modelled as \<open>string\<close>, \<open>number\<close> fields that hold
  millisecond counts as \<open>int\<close>, optional fields as \<open>option\<close> (\<open>None\<close> is
  \<open>undefined\<close>). Object fields that no modelled function reads (\<open>content\<close>,
  \<open>model\<close>, \<open>data\<close>, \<open>usage\<close>, \<open>details\<close>) are left out of the records.
\<close>

datatype WorkflowStepStatus = Pending | Loading | Success | Error

record WorkflowStep =
  step_id :: string
  step_name :: string
  step_status :: WorkflowStepStatus
  step_duration :: "int option"
  step_errorMessage :: "string option"

text \<open>
  \<open>Partial<WorkflowStep>\<close>: \<open>None\<close> is an absent key. A key can be present with
  the value \<open>undefined\<close> (\<open>duration: payload.meta?.duration_ms\<close>), and the object
  spread in \<open>updateStep\<close> then overwrites the field with \<open>undefined\<close>: this is
  \<open>Some None\<close> in \<open>upd_duration\<close>.
\<close>

record StepUpdates =
  upd_id :: "string option"
  upd_name :: "string option"
  upd_status :: "WorkflowStepStatus option"
  upd_duration :: "int option option"
  upd_errorMessage :: "string option option"

definition no_updates :: StepUpdates where
  "no_updates = \<lparr>upd_id = None, upd_name = None, upd_status = None,
     upd_duration = None, upd_errorMessage = None\<rparr>"

record ResponseMeta =
  meta_workflow :: "string option"
  meta_status :: "string option"
  meta_duration_ms :: "int option"

record ResponseError =
  err_message :: string

record AIResponse =
  resp_status :: string
  resp_channel_id :: "string option"
  resp_meta :: "ResponseMeta option"
  resp_error :: "ResponseError option"

datatype ConnectionState = CS_disconnected | CS_connecting | CS_connected | CS_error

record ActiveRequest =
  ar_channelId :: string
  ar_wsToken :: string
  ar_timestamp :: int
  ar_websocketUrl :: "string option"
  ar_websocketChannel :: "string option"

record ConnectOptions =
  channelId :: string
  wsToken :: string
  websocketUrl :: "string option"
  websocketChannel :: "string option"

datatype ModelRiverEventType =
    E_connected | E_disconnected | E_response | E_error
  | E_step | E_connecting | E_channel_joined | E_channel_error

text \<open>An emitted event with the arguments of \<open>ModelRiverEventMap\<close>.\<close>

datatype event =
    Ev_connected
  | Ev_disconnected "string option"
  | Ev_response AIResponse
  | Ev_error string
  | Ev_step WorkflowStep
  | Ev_connecting
  | Ev_channel_joined
  | Ev_channel_error string

fun event_type :: "event \<Rightarrow> ModelRiverEventType" where
  "event_type Ev_connected = E_connected"
| "event_type (Ev_disconnected _) = E_disconnected"
| "event_type (Ev_response _) = E_response"
| "event_type (Ev_error _) = E_error"
| "event_type (Ev_step _) = E_step"
| "event_type Ev_connecting = E_connecting"
| "event_type Ev_channel_joined = E_channel_joined"
| "event_type (Ev_channel_error _) = E_channel_error"

fun event_name :: "ModelRiverEventType \<Rightarrow> string" where
  "event_name E_connected = ''connected''"
| "event_name E_disconnected = ''disconnected''"
| "event_name E_response = ''response''"
| "event_name E_error = ''error''"
| "event_name E_step = ''step''"
| "event_name E_connecting = ''connecting''"
| "event_name E_channel_joined = ''channel_joined''"
| "event_name E_channel_error = ''channel_error''"

subsection \<open>The environment: listeners, key-value storage, effects\<close>

text \<open>
  A registered callback is a JavaScript function: \<open>lid\<close> is its identity (the
  listener \<open>Set\<close> compares functions by identity) and \<open>behaviour\<close> says, for each
  event, whether the call returns (\<open>None\<close>) or throws (\<open>Some err\<close>). Listeners are
  observers: a callback that calls back into the client during \<open>emit\<close> is outside
  the model.
\<close>

record listener =
  lid :: nat
  behaviour :: "event \<Rightarrow> string option"

text \<open>
  What \<open>localStorage\<close> holds under a key, seen through
  \<open>JSON.parse(stored) as ActiveRequest\<close>: either the JSON text of an
  \<open>ActiveRequest\<close> (what \<open>saveActiveRequest\<close> writes, here the record itself), or
  a string on which \<open>JSON.parse\<close> throws or which is empty (\<open>Malformed\<close>).
  \<open>writable\<close> is false when \<open>setItem\<close> throws (storage disabled or full).
\<close>

datatype stored = Malformed | Request ActiveRequest

record storage =
  items :: "string \<Rightarrow> stored option"
  writable :: bool

text \<open>
  The effects a call has on the world outside the client object, in the order
  they happen. \<open>Emitted\<close> marks a call of \<open>emit\<close>, \<open>Called\<close> the invocation of one
  listener, \<open>ConsoleError\<close> a \<open>logger.error\<close> (always printed). The
  \<open>logger.log\<close> and \<open>logger.warn\<close> lines print only in debug mode and change
  nothing; they are not modelled.
\<close>

text \<open>
  The functions the client hands to a timer: the heartbeat push given to
  \<open>setInterval\<close>, and the deferred \<open>cleanupConnection\<close> given to \<open>setTimeout\<close>.
  A timer effect records the delay and the function.
\<close>

datatype timer_callback = HeartbeatCallback | CleanupCallback

datatype effect =
    Emitted event
  | Called nat event
  | ConsoleError string string
  | SetItem string
  | RemoveItem string
  | SocketCreated string string
  | SocketConnect
  | SocketDisconnect
  | ChannelCreated string
  | ChannelJoin
  | ChannelLeave
  | ChannelPush string
  | SetInterval int timer_callback
  | ClearInterval
  | SetTimeout int timer_callback
  | Fetch string string

record 'c world =
  client :: 'c
  localStorage :: storage
  trace :: "effect list"

section \<open>utils.ts\<close>

definition DEFAULT_BASE_URL :: string where
  "DEFAULT_BASE_URL = ''wss://api.modelriver.com/socket''"

definition DEFAULT_STORAGE_KEY_PREFIX :: string where
  "DEFAULT_STORAGE_KEY_PREFIX = ''modelriver_''"

definition DEFAULT_HEARTBEAT_INTERVAL :: int where
  "DEFAULT_HEARTBEAT_INTERVAL = 30000"

definition DEFAULT_REQUEST_TIMEOUT :: int where
  "DEFAULT_REQUEST_TIMEOUT = 300000"

definition ACTIVE_REQUEST_KEY :: string where
  "ACTIVE_REQUEST_KEY = ''active_request''"

definition TEST_KEY :: string where
  "TEST_KEY = ''__modelriver_test__''"

text \<open>
  \<open>isStorageAvailable\<close> writes and removes a throwaway key; when the write throws
  it returns false and nothing has changed.
\<close>

definition isStorageAvailable :: "'c world \<Rightarrow> bool \<times> 'c world" where
  "isStorageAvailable w =
     (if writable (localStorage w)
      then (True, w\<lparr>localStorage := (localStorage w)\<lparr>items := (items (localStorage w))(TEST_KEY := None)\<rparr>,
                    trace := trace w @ [SetItem TEST_KEY, RemoveItem TEST_KEY]\<rparr>)
      else (False, w))"

definition saveActiveRequest ::
  "int \<Rightarrow> string \<Rightarrow> string \<Rightarrow> string \<Rightarrow> string option \<Rightarrow> string option \<Rightarrow> 'c world \<Rightarrow> 'c world" where
  "saveActiveRequest now prefix cid tok url chan w =
     (case isStorageAvailable w of
        (False, w1) \<Rightarrow> w1
      | (True, w1) \<Rightarrow>
          (let request = \<lparr>ar_channelId = cid, ar_wsToken = tok, ar_timestamp = now,
                           ar_websocketUrl = url, ar_websocketChannel = chan\<rparr>;
               key = prefix @ ACTIVE_REQUEST_KEY
           in w1\<lparr>localStorage := (localStorage w1)\<lparr>items := (items (localStorage w1))(key \<mapsto> Request request)\<rparr>,
                  trace := trace w1 @ [SetItem key]\<rparr>))"

definition clearActiveRequest :: "string \<Rightarrow> 'c world \<Rightarrow> 'c world" where
  "clearActiveRequest prefix w =
     (case isStorageAvailable w of
        (False, w1) \<Rightarrow> w1
      | (True, w1) \<Rightarrow>
          (let key = prefix @ ACTIVE_REQUEST_KEY
           in w1\<lparr>localStorage := (localStorage w1)\<lparr>items := (items (localStorage w1))(key := None)\<rparr>,
                  trace := trace w1 @ [RemoveItem key]\<rparr>))"

text \<open>
  \<open>getActiveRequest\<close> compares the age of the record with the constant
  \<open>DEFAULT_REQUEST_TIMEOUT\<close>; it has no parameter for another window.
\<close>

definition getActiveRequest :: "int \<Rightarrow> string \<Rightarrow> 'c world \<Rightarrow> ActiveRequest option \<times> 'c world" where
  "getActiveRequest now prefix w =
     (case isStorageAvailable w of
        (False, w1) \<Rightarrow> (None, w1)
      | (True, w1) \<Rightarrow>
          (case items (localStorage w1) (prefix @ ACTIVE_REQUEST_KEY) of
             None \<Rightarrow> (None, w1)
           | Some Malformed \<Rightarrow> (None, w1)
           | Some (Request request) \<Rightarrow>
               (let age = now - ar_timestamp request
                in if age > DEFAULT_REQUEST_TIMEOUT
                   then (None, clearActiveRequest prefix w1)
                   else (Some request, w1))))"

definition createInitialSteps :: "WorkflowStep list" where
  "createInitialSteps =
     [\<lparr>step_id = ''queue'', step_name = ''Queueing request'', step_status = Pending,
       step_duration = None, step_errorMessage = None\<rparr>,
      \<lparr>step_id = ''process'', step_name = ''Processing AI request'', step_status = Pending,
       step_duration = None, step_errorMessage = None\<rparr>,
      \<lparr>step_id = ''receive'', step_name = ''Waiting for response'', step_status = Pending,
       step_duration = None, step_errorMessage = None\<rparr>,
      \<lparr>step_id = ''complete'', step_name = ''Response received'', step_status = Pending,
       step_duration = None, step_errorMessage = None\<rparr>]"

text \<open>The object spread \<open>{ ...step, ...updates }\<close>.\<close>

definition spread :: "WorkflowStep \<Rightarrow> StepUpdates \<Rightarrow> WorkflowStep" where
  "spread s u =
     \<lparr>step_id = (case upd_id u of None \<Rightarrow> step_id s | Some v \<Rightarrow> v),
      step_name = (case upd_name u of None \<Rightarrow> step_name s | Some v \<Rightarrow> v),
      step_status = (case upd_status u of None \<Rightarrow> step_status s | Some v \<Rightarrow> v),
      step_duration = (case upd_duration u of None \<Rightarrow> step_duration s | Some v \<Rightarrow> v),
      step_errorMessage = (case upd_errorMessage u of None \<Rightarrow> step_errorMessage s | Some v \<Rightarrow> v)\<rparr>"

definition updateStep :: "WorkflowStep list \<Rightarrow> string \<Rightarrow> StepUpdates \<Rightarrow> WorkflowStep list" where
  "updateStep steps i updates = map (\<lambda>s. if step_id s = i then spread s updates else s) steps"

section \<open>Event emission\<close>

text \<open>
  \<open>Set.prototype.forEach\<close> over the callbacks in insertion order. A callback
  that throws ends the loop and the exception leaves \<open>forEach\<close>: the second
  component of the result is the exception in flight.
\<close>

fun forEach :: "('a \<Rightarrow> 's \<Rightarrow> 's \<times> string option) \<Rightarrow> 'a list \<Rightarrow> 's \<Rightarrow> 's \<times> string option" where
  "forEach f [] s = (s, None)"
| "forEach f (x # xs) s =
     (case f x s of
        (s', Some err) \<Rightarrow> (s', Some err)
      | (s', None) \<Rightarrow> forEach f xs s')"

text \<open>\<open>(callback as Function)(...args)\<close>: the call is recorded, then it returns or throws.\<close>

definition call_listener :: "event \<Rightarrow> listener \<Rightarrow> effect list \<Rightarrow> effect list \<times> string option" where
  "call_listener ev l tr = (tr @ [Called (lid l) ev], behaviour l ev)"

text \<open>The body of the loop in \<open>emit\<close>: the call inside \<open>try\<close>, \<open>logger.error\<close> in \<open>catch\<close>.\<close>

definition emit_callback :: "event \<Rightarrow> listener \<Rightarrow> effect list \<Rightarrow> effect list \<times> string option" where
  "emit_callback ev l tr =
     (case call_listener ev l tr of
        (tr', Some err) \<Rightarrow>
          (tr' @ [ConsoleError (''Error in '' @ event_name (event_type ev) @ '' listener:'') err], None)
      | (tr', None) \<Rightarrow> (tr', None))"

definition emit_listeners :: "listener list \<Rightarrow> event \<Rightarrow> effect list \<Rightarrow> effect list \<times> string option" where
  "emit_listeners callbacks ev tr = forEach (emit_callback ev) callbacks (tr @ [Emitted ev])"

section \<open>The channel-id client\<close>

record ModelRiverClientOptions =
  in_baseUrl :: "string option"
  in_debug :: "bool option"
  in_persist :: "bool option"
  in_storageKeyPrefix :: "string option"
  in_heartbeatInterval :: "int option"
  in_requestTimeout :: "int option"
  in_apiBaseUrl :: "string option"

record Options =
  baseUrl :: string
  debug :: bool
  persist :: bool
  storageKeyPrefix :: string
  heartbeatInterval :: int
  requestTimeout :: int
  apiBaseUrl :: string

text \<open>The Phoenix objects the client holds: the socket with its endpoint and token, the channel with its topic.\<close>

datatype Socket = Socket (endPoint: string) (token: string)

datatype Channel = Channel (topic: string)

text \<open>
  The private fields of the class. \<open>heartbeatTimer\<close> is the field
  \<open>heartbeatInterval\<close> of the class (the handle of the running interval, here its
  period), renamed because the options have a field of that name.
\<close>

record ModelRiverClient =
  options :: Options
  socket :: "Socket option"
  channel :: "Channel option"
  heartbeatTimer :: "int option"
  connectionState :: ConnectionState
  steps :: "WorkflowStep list"
  response :: "AIResponse option"
  error :: "string option"
  currentWebsocketChannel :: "string option"
  isConnecting :: bool
  isCompleted :: bool
  listeners :: "ModelRiverEventType \<Rightarrow> listener list"

record ModelRiverState =
  st_connectionState :: ConnectionState
  st_isConnected :: bool
  st_isConnecting :: bool
  st_steps :: "WorkflowStep list"
  st_response :: "AIResponse option"
  st_error :: "string option"
  st_hasPendingRequest :: bool
  st_isCompleted :: bool

text \<open>The nullish default \<open>a ?? b\<close>.\<close>

definition nullish :: "'a option \<Rightarrow> 'a \<Rightarrow> 'a" where
  "nullish a b = (case a of None \<Rightarrow> b | Some v \<Rightarrow> v)"

text \<open>\<open>a || b\<close> on an optional string: the empty string is falsy too.\<close>

definition or_else :: "string option \<Rightarrow> string \<Rightarrow> string" where
  "or_else a b = (case a of None \<Rightarrow> b | Some v \<Rightarrow> if v = [] then b else v)"

definition endsWith :: "string \<Rightarrow> string \<Rightarrow> bool" where
  "endsWith s suf = (length suf \<le> length s \<and> drop (length s - length suf) s = suf)"

definition new_ModelRiverClient :: "ModelRiverClientOptions \<Rightarrow> ModelRiverClient" where
  "new_ModelRiverClient opts =
     \<lparr>options = \<lparr>baseUrl = nullish (in_baseUrl opts) DEFAULT_BASE_URL,
                  debug = nullish (in_debug opts) False,
                  persist = nullish (in_persist opts) True,
                  storageKeyPrefix = nullish (in_storageKeyPrefix opts) DEFAULT_STORAGE_KEY_PREFIX,
                  heartbeatInterval = nullish (in_heartbeatInterval opts) DEFAULT_HEARTBEAT_INTERVAL,
                  requestTimeout = nullish (in_requestTimeout opts) DEFAULT_REQUEST_TIMEOUT,
                  apiBaseUrl = nullish (in_apiBaseUrl opts) []\<rparr>,
      socket = None, channel = None, heartbeatTimer = None,
      connectionState = CS_disconnected, steps = [], response = None, error = None,
      currentWebsocketChannel = None, isConnecting = False, isCompleted = False,
      listeners = (\<lambda>_. [])\<rparr>"

definition hasPendingRequest :: "int \<Rightarrow> ModelRiverClient world \<Rightarrow> bool \<times> ModelRiverClient world" where
  "hasPendingRequest now w =
     (if \<not> persist (options (client w)) then (False, w)
      else (case getActiveRequest now (storageKeyPrefix (options (client w))) w of
              (request, w1) \<Rightarrow> (request \<noteq> None, w1)))"

definition getState :: "int \<Rightarrow> ModelRiverClient world \<Rightarrow> ModelRiverState \<times> ModelRiverClient world" where
  "getState now w =
     (case hasPendingRequest now w of
        (pending, w1) \<Rightarrow>
          (\<lparr>st_connectionState = connectionState (client w),
            st_isConnected = (connectionState (client w) = CS_connected),
            st_isConnecting = isConnecting (client w),
            st_steps = steps (client w),
            st_response = response (client w),
            st_error = error (client w),
            st_hasPendingRequest = pending,
            st_isCompleted = isCompleted (client w)\<rparr>, w1))"

text \<open>
  \<open>emit\<close> runs the listeners registered for the event. The loop never leaves
  with an exception (lemma \<open>emit_listeners_eq\<close> below), so \<open>emit\<close> returns
  the world after the loop.
\<close>

definition emit :: "event \<Rightarrow> ModelRiverClient world \<Rightarrow> ModelRiverClient world" where
  "emit ev w = w\<lparr>trace := fst (emit_listeners (listeners (client w) (event_type ev)) ev (trace w))\<rparr>"

definition on :: "ModelRiverEventType \<Rightarrow> listener \<Rightarrow> ModelRiverClient world \<Rightarrow> ModelRiverClient world" where
  "on ty cb w =
     (let ls = listeners (client w) ty
      in if lid cb \<in> set (map lid ls) then w
         else w\<lparr>client := (client w)\<lparr>listeners := (listeners (client w))(ty := ls @ [cb])\<rparr>\<rparr>)"

definition off :: "ModelRiverEventType \<Rightarrow> listener \<Rightarrow> ModelRiverClient world \<Rightarrow> ModelRiverClient world" where
  "off ty cb w =
     w\<lparr>client := (client w)\<lparr>listeners :=
        (listeners (client w))(ty := filter (\<lambda>l. lid l \<noteq> lid cb) (listeners (client w) ty))\<rparr>\<rparr>"

definition updateStepAndEmit :: "string \<Rightarrow> StepUpdates \<Rightarrow> ModelRiverClient world \<Rightarrow> ModelRiverClient world" where
  "updateStepAndEmit i updates w =
     (let w1 = w\<lparr>client := (client w)\<lparr>steps := updateStep (steps (client w)) i updates\<rparr>\<rparr>
      in case find (\<lambda>s. step_id s = i) (steps (client w1)) of
           Some step \<Rightarrow> emit (Ev_step step) w1
         | None \<Rightarrow> w1)"

definition setError :: "string \<Rightarrow> ModelRiverClient world \<Rightarrow> ModelRiverClient world" where
  "setError msg w = w\<lparr>client := (client w)\<lparr>error := Some msg\<rparr>\<rparr>"

definition stopHeartbeat :: "ModelRiverClient world \<Rightarrow> ModelRiverClient world" where
  "stopHeartbeat w =
     (case heartbeatTimer (client w) of
        None \<Rightarrow> w
      | Some _ \<Rightarrow> w\<lparr>client := (client w)\<lparr>heartbeatTimer := None\<rparr>, trace := trace w @ [ClearInterval]\<rparr>)"

definition startHeartbeat :: "ModelRiverClient world \<Rightarrow> ModelRiverClient world" where
  "startHeartbeat w =
     (let w1 = stopHeartbeat w;
          period = heartbeatInterval (options (client w1))
      in w1\<lparr>client := (client w1)\<lparr>heartbeatTimer := Some period\<rparr>, trace := trace w1 @ [SetInterval period HeartbeatCallback]\<rparr>)"

text \<open>The callback of the heartbeat interval.\<close>

definition heartbeat_tick :: "ModelRiverClient world \<Rightarrow> ModelRiverClient world" where
  "heartbeat_tick w =
     (case channel (client w) of
        None \<Rightarrow> w
      | Some _ \<Rightarrow> w\<lparr>trace := trace w @ [ChannelPush ''heartbeat'']\<rparr>)"

text \<open>
  \<open>cleanupConnection\<close>: \<open>channel.leave()\<close> and \<open>socket.disconnect()\<close> are called
  inside \<open>try\<close> with an empty \<open>catch\<close>; the field is cleared either way.
\<close>

definition cleanupConnection :: "ModelRiverClient world \<Rightarrow> ModelRiverClient world" where
  "cleanupConnection w =
     (let w1 = stopHeartbeat w;
          w2 = (case channel (client w1) of
                  None \<Rightarrow> w1
                | Some _ \<Rightarrow> w1\<lparr>client := (client w1)\<lparr>channel := None\<rparr>, trace := trace w1 @ [ChannelLeave]\<rparr>);
          w3 = (case socket (client w2) of
                  None \<Rightarrow> w2
                | Some _ \<Rightarrow> w2\<lparr>client := (client w2)\<lparr>socket := None\<rparr>, trace := trace w2 @ [SocketDisconnect]\<rparr>)
      in w3\<lparr>client := (client w3)\<lparr>connectionState := CS_disconnected\<rparr>\<rparr>)"

definition updates_status :: "WorkflowStepStatus \<Rightarrow> StepUpdates" where
  "updates_status st = no_updates\<lparr>upd_status := Some st\<rparr>"

definition connect :: "int \<Rightarrow> ConnectOptions \<Rightarrow> ModelRiverClient world \<Rightarrow> ModelRiverClient world" where
  "connect now opts w =
     (if isConnecting (client w) then w
      else if channelId opts = [] then
        emit (Ev_error ''channelId is required'') (setError ''channelId is required'' w)
      else if wsToken opts = [] then
        emit (Ev_error ''wsToken is required for WebSocket authentication'')
          (setError ''wsToken is required for WebSocket authentication'' w)
      else
        (let w1 = w\<lparr>client := (client w)\<lparr>isConnecting := True,
                      currentWebsocketChannel :=
                        Some (or_else (websocketChannel opts) (''ai_response:'' @ channelId opts))\<rparr>\<rparr>;
             w2 = emit Ev_connecting w1;
             w3 = cleanupConnection w2;
             w4 = w3\<lparr>client := (client w3)\<lparr>steps := createInitialSteps, error := None,
                      response := None, isCompleted := False\<rparr>\<rparr>;
             w5 = (if persist (options (client w4))
                   then saveActiveRequest now (storageKeyPrefix (options (client w4)))
                          (channelId opts) (wsToken opts) (websocketUrl opts) (websocketChannel opts) w4
                   else w4);
             w6 = updateStepAndEmit ''queue'' (updates_status Pending) w5;
             wsUrl = or_else (websocketUrl opts) (baseUrl (options (client w6)));
             socketUrl = (if endsWith wsUrl ''/socket'' then wsUrl else wsUrl @ ''/socket'')
         in w6\<lparr>client := (client w6)\<lparr>socket := Some (Socket socketUrl (wsToken opts))\<rparr>,
                trace := trace w6 @ [SocketCreated socketUrl (wsToken opts), SocketConnect]\<rparr>))"

text \<open>The callbacks \<open>connect\<close> registers on the socket, and \<open>joinChannel\<close> with the callbacks it registers.\<close>

definition joinChannel :: "string \<Rightarrow> ModelRiverClient world \<Rightarrow> ModelRiverClient world" where
  "joinChannel tp w =
     (case socket (client w) of
        None \<Rightarrow> w
      | Some _ \<Rightarrow> w\<lparr>client := (client w)\<lparr>channel := Some (Channel tp)\<rparr>,
                      trace := trace w @ [ChannelCreated tp, ChannelJoin]\<rparr>)"

definition socket_onOpen :: "ModelRiverClient world \<Rightarrow> ModelRiverClient world" where
  "socket_onOpen w =
     (let w1 = w\<lparr>client := (client w)\<lparr>connectionState := CS_connected, isConnecting := False\<rparr>\<rparr>;
          w2 = emit Ev_connected w1
      in joinChannel (nullish (currentWebsocketChannel (client w2)) []) w2)"

definition socket_onError :: "ModelRiverClient world \<Rightarrow> ModelRiverClient world" where
  "socket_onError w =
     (let w1 = w\<lparr>client := (client w)\<lparr>connectionState := CS_error, isConnecting := False\<rparr>,
                  trace := trace w @ [ConsoleError ''Socket error:'' []]\<rparr>;
          w2 = setError ''WebSocket connection error'' w1;
          w3 = updateStepAndEmit ''queue''
                 (no_updates\<lparr>upd_status := Some Error,
                             upd_errorMessage := Some (Some ''WebSocket connection error'')\<rparr>) w2
      in emit (Ev_error ''WebSocket connection error'') w3)"

definition socket_onClose :: "ModelRiverClient world \<Rightarrow> ModelRiverClient world" where
  "socket_onClose w =
     (let w1 = w\<lparr>client := (client w)\<lparr>connectionState := CS_disconnected, isConnecting := False\<rparr>\<rparr>;
          w2 = stopHeartbeat w1
      in emit (Ev_disconnected (Some ''Socket closed'')) w2)"

definition join_ok :: "ModelRiverClient world \<Rightarrow> ModelRiverClient world" where
  "join_ok w =
     (let w1 = updateStepAndEmit ''queue''
                 (no_updates\<lparr>upd_status := Some Success, upd_duration := Some (Some 100)\<rparr>) w;
          w2 = updateStepAndEmit ''process'' (updates_status Pending) w1;
          w3 = updateStepAndEmit ''receive'' (updates_status Pending) w2;
          w4 = emit Ev_channel_joined w3
      in startHeartbeat w4)"

definition join_error_message :: "string \<Rightarrow> string" where
  "join_error_message reason =
     (if reason = ''unauthorized_project_access'' then ''Unauthorized: You do not have access to this project''
      else if reason = ''invalid_channel_format'' then ''Invalid channel format''
      else if reason = ''invalid_project_uuid'' \<or> reason = ''invalid_channel_uuid''
        then ''Invalid project or channel ID''
      else if reason \<noteq> ''unknown'' then ''Channel join failed: '' @ reason
      else ''Failed to join channel'')"

definition join_error :: "string option \<Rightarrow> ModelRiverClient world \<Rightarrow> ModelRiverClient world" where
  "join_error r w =
     (let reason = or_else r ''unknown'';
          errorMsg = join_error_message reason;
          w1 = w\<lparr>trace := trace w @ [ConsoleError ''Channel join failed:'' reason]\<rparr>;
          w2 = setError errorMsg w1;
          w3 = updateStepAndEmit ''queue''
                 (no_updates\<lparr>upd_status := Some Error, upd_errorMessage := Some (Some errorMsg)\<rparr>) w2
      in emit (Ev_channel_error reason) w3)"

text \<open>
  \<open>handleResponse\<close>, branch by branch as in the source: the intermediate status
  \<open>ai_generated\<close>, the status \<open>completed\<close>, the success statuses, and everything
  else.
\<close>

definition meta_duration :: "AIResponse \<Rightarrow> int option" where
  "meta_duration payload = (case resp_meta payload of None \<Rightarrow> None | Some m \<Rightarrow> meta_duration_ms m)"

definition isSuccess :: "AIResponse \<Rightarrow> bool" where
  "isSuccess payload =
     (resp_status payload = ''success'' \<or>
      resp_status payload = ''SUCCESS'' \<or>
      (case resp_meta payload of None \<Rightarrow> False | Some m \<Rightarrow> meta_status m = Some ''success'') \<or>
      resp_status payload = ''ok'')"

text \<open>\<open>payload.error?.message || 'Unknown error'\<close>.\<close>

definition error_message_of :: "AIResponse \<Rightarrow> string" where
  "error_message_of payload =
     or_else (case resp_error payload of None \<Rightarrow> None | Some e \<Rightarrow> Some (err_message e)) ''Unknown error''"

definition hasBackendStep :: "ModelRiverClient world \<Rightarrow> bool" where
  "hasBackendStep w = list_ex (\<lambda>s. step_id s = ''backend'') (steps (client w))"

definition handleResponse :: "AIResponse \<Rightarrow> ModelRiverClient world \<Rightarrow> ModelRiverClient world" where
  "handleResponse payload w =
     (if resp_status payload = ''ai_generated'' then
        (let w1 = updateStepAndEmit ''process''
                    (no_updates\<lparr>upd_status := Some Success, upd_duration := Some (meta_duration payload)\<rparr>) w;
             w2 = (if \<not> hasBackendStep w1
                   then w1\<lparr>client := (client w1)\<lparr>steps := steps (client w1) @
                          [\<lparr>step_id = ''backend'', step_name = ''Backend processing...'',
                            step_status = Pending, step_duration = None, step_errorMessage = None\<rparr>]\<rparr>\<rparr>
                   else w1);
             w3 = updateStepAndEmit ''backend''
                    (no_updates\<lparr>upd_status := Some Pending,
                                upd_name := Some ''Waiting for backend callback...''\<rparr>) w2;
             w4 = w3\<lparr>client := (client w3)\<lparr>response := Some payload\<rparr>\<rparr>
         in emit (Ev_response payload) w4)
      else if resp_status payload = ''completed'' then
        (let w1 = updateStepAndEmit ''process'' (updates_status Success) w;
             w2 = updateStepAndEmit ''backend''
                    (no_updates\<lparr>upd_status := Some Success, upd_name := Some ''Backend processed''\<rparr>) w1;
             w3 = updateStepAndEmit ''receive''
                    (no_updates\<lparr>upd_status := Some Success, upd_duration := Some (Some 50)\<rparr>) w2;
             w4 = updateStepAndEmit ''complete'' (updates_status Success) w3;
             w5 = w4\<lparr>client := (client w4)\<lparr>response := Some payload, isCompleted := True\<rparr>\<rparr>;
             w6 = (if persist (options (client w5))
                   then clearActiveRequest (storageKeyPrefix (options (client w5))) w5
                   else w5);
             w7 = emit (Ev_response payload) w6
         in cleanupConnection w7)
      else
        (let w5 =
           (if isSuccess payload then
              (let w1 = w\<lparr>client := (client w)\<lparr>isCompleted := True\<rparr>\<rparr>;
                   w2 = (if hasBackendStep w1
                         then updateStepAndEmit ''backend''
                                (no_updates\<lparr>upd_status := Some Success,
                                            upd_name := Some ''No backend processing needed''\<rparr>) w1
                         else w1);
                   w3 = updateStepAndEmit ''process''
                          (no_updates\<lparr>upd_status := Some Success, upd_duration := Some (meta_duration payload)\<rparr>) w2;
                   w4 = updateStepAndEmit ''receive''
                          (no_updates\<lparr>upd_status := Some Success, upd_duration := Some (Some 50)\<rparr>) w3;
                   w5 = updateStepAndEmit ''complete'' (updates_status Success) w4
               in w5\<lparr>client := (client w5)\<lparr>response := Some payload\<rparr>\<rparr>)
            else
              (let errorMsg = error_message_of payload;
                   w1 = updateStepAndEmit ''process''
                          (no_updates\<lparr>upd_status := Some Error, upd_errorMessage := Some (Some errorMsg)\<rparr>) w;
                   w2 = updateStepAndEmit ''receive'' (updates_status Error) w1;
                   w3 = updateStepAndEmit ''complete'' (updates_status Error) w2
               in setError errorMsg w3));
             w6 = (if persist (options (client w5))
                   then clearActiveRequest (storageKeyPrefix (options (client w5))) w5
                   else w5);
             w7 = emit (Ev_response payload) w6
         in cleanupConnection w7))"

definition handleError :: "string \<Rightarrow> ModelRiverClient world \<Rightarrow> ModelRiverClient world" where
  "handleError errorMsg w =
     (let w1 = setError errorMsg w;
          w2 = updateStepAndEmit ''process''
                 (no_updates\<lparr>upd_status := Some Error, upd_errorMessage := Some (Some errorMsg)\<rparr>) w1;
          w3 = emit (Ev_error errorMsg) w2
      in if persist (options (client w3))
         then clearActiveRequest (storageKeyPrefix (options (client w3))) w3
         else w3)"

text \<open>The channel's \<open>error\<close> message: \<open>payload?.message || 'An error occurred'\<close>, logged, then \<open>handleError\<close>.\<close>

definition channel_on_error :: "string option \<Rightarrow> ModelRiverClient world \<Rightarrow> ModelRiverClient world" where
  "channel_on_error msg w =
     (let errorMsg = or_else msg ''An error occurred''
      in handleError errorMsg (w\<lparr>trace := trace w @ [ConsoleError ''Channel error:'' errorMsg]\<rparr>))"

definition disconnect :: "ModelRiverClient world \<Rightarrow> ModelRiverClient world" where
  "disconnect w =
     (let w1 = w\<lparr>client := (client w)\<lparr>isConnecting := False\<rparr>\<rparr>;
          w2 = cleanupConnection w1;
          w3 = (if persist (options (client w2))
                then clearActiveRequest (storageKeyPrefix (options (client w2))) w2
                else w2)
      in emit (Ev_disconnected (Some ''Manual disconnect'')) w3)"

definition reset :: "ModelRiverClient world \<Rightarrow> ModelRiverClient world" where
  "reset w =
     (let w1 = disconnect w
      in w1\<lparr>client := (client w1)\<lparr>steps := [], response := None, error := None,
               currentWebsocketChannel := None\<rparr>\<rparr>)"

definition destroy :: "ModelRiverClient world \<Rightarrow> ModelRiverClient world" where
  "destroy w =
     (let w1 = reset w
      in w1\<lparr>client := (client w1)\<lparr>listeners := (\<lambda>_. [])\<rparr>\<rparr>)"

definition reconnect :: "int \<Rightarrow> ModelRiverClient world \<Rightarrow> bool \<times> ModelRiverClient world" where
  "reconnect now w =
     (if \<not> persist (options (client w)) then (False, w)
      else if isCompleted (client w) then
        (False, clearActiveRequest (storageKeyPrefix (options (client w))) w)
      else if (case response (client w) of None \<Rightarrow> False | Some r \<Rightarrow> resp_status r = ''completed'') then
        (False, clearActiveRequest (storageKeyPrefix (options (client w)))
                  (w\<lparr>client := (client w)\<lparr>isCompleted := True\<rparr>\<rparr>))
      else
        (case getActiveRequest now (storageKeyPrefix (options (client w))) w of
           (None, w1) \<Rightarrow> (False, w1)
         | (Some activeRequest, w1) \<Rightarrow>
             if ar_wsToken activeRequest = [] then
               (False, clearActiveRequest (storageKeyPrefix (options (client w1))) w1)
             else
               (True, connect now
                        \<lparr>channelId = ar_channelId activeRequest,
                         wsToken = ar_wsToken activeRequest,
                         websocketUrl = ar_websocketUrl activeRequest,
                         websocketChannel = ar_websocketChannel activeRequest\<rparr> w1)))"

text \<open>
  \<open>reconnectWithBackend\<close> is asynchronous: it reads the stored request, awaits
  \<open>fetch\<close>, and continues with the answer. The answer is an argument of the model;
  \<open>now\<close> is the clock at the call and \<open>later\<close> the clock when the answer arrives.
\<close>

record ReconnectData =
  rd_channel_id :: "string option"
  rd_ws_token :: "string option"
  rd_websocket_url :: "string option"
  rd_websocket_channel :: "string option"

datatype fetch_result = FetchRejected | HttpNotOk | HttpOk "ReconnectData option"

text \<open>\<open>this.options.apiBaseUrl.replace(/\/+$/, '')\<close>.\<close>

definition strip_trailing_slashes :: "string \<Rightarrow> string" where
  "strip_trailing_slashes s = rev (dropWhile (\<lambda>c. c = CHR ''/'') (rev s))"

definition reconnectWithBackend ::
  "int \<Rightarrow> int \<Rightarrow> fetch_result \<Rightarrow> ModelRiverClient world \<Rightarrow> bool \<times> ModelRiverClient world" where
  "reconnectWithBackend now later answer w =
     (if \<not> persist (options (client w)) then (False, w)
      else if apiBaseUrl (options (client w)) = [] then (False, w)
      else
        (case getActiveRequest now (storageKeyPrefix (options (client w))) w of
           (None, w1) \<Rightarrow> (False, w1)
         | (Some activeRequest, w1) \<Rightarrow>
             (let url = strip_trailing_slashes (apiBaseUrl (options (client w1))) @ ''/api/v1/ai/reconnect'';
                  w2 = w1\<lparr>trace := trace w1 @ [Fetch url (ar_channelId activeRequest)]\<rparr>
              in case answer of
                   FetchRejected \<Rightarrow>
                     (False, w2\<lparr>trace := trace w2 @ [ConsoleError ''Backend reconnect request failed'' []]\<rparr>)
                 | HttpNotOk \<Rightarrow>
                     (False, w2\<lparr>trace := trace w2 @ [ConsoleError ''Backend reconnect failed with HTTP status'' []]\<rparr>)
                 | HttpOk d \<Rightarrow>
                     (let cid = or_else (case d of None \<Rightarrow> None | Some x \<Rightarrow> rd_channel_id x) [];
                          tok = or_else (case d of None \<Rightarrow> None | Some x \<Rightarrow> rd_ws_token x) []
                      in if cid = [] \<or> tok = [] then
                           (False, w2\<lparr>trace := trace w2 @
                              [ConsoleError ''Backend reconnect response missing channel_id or ws_token'' []]\<rparr>)
                         else
                           (let url' = (case d of None \<Rightarrow> None | Some x \<Rightarrow> rd_websocket_url x);
                                chan' = (case d of None \<Rightarrow> None | Some x \<Rightarrow> rd_websocket_channel x);
                                w3 = saveActiveRequest later (storageKeyPrefix (options (client w2)))
                                       cid tok url' chan' w2
                            in (True, connect later
                                  \<lparr>channelId = cid, wsToken = tok, websocketUrl = url',
                                   websocketChannel = chan'\<rparr> w3))))))"

section \<open>Event emission never throws (claim C8)\<close>

text \<open>What one listener call and one \<open>emit\<close> append to the trace.\<close>

definition listener_effects :: "event \<Rightarrow> listener \<Rightarrow> effect list" where
  "listener_effects ev l =
     Called (lid l) ev #
       (case behaviour l ev of
          None \<Rightarrow> []
        | Some err \<Rightarrow> [ConsoleError (''Error in '' @ event_name (event_type ev) @ '' listener:'') err])"

definition emit_effects :: "listener list \<Rightarrow> event \<Rightarrow> effect list" where
  "emit_effects callbacks ev = Emitted ev # concat (map (listener_effects ev) callbacks)"

definition called_ids :: "effect list \<Rightarrow> nat list" where
  "called_ids tr = concat (map (\<lambda>e. case e of Called i _ \<Rightarrow> [i] | _ \<Rightarrow> []) tr)"

definition logged_errors :: "effect list \<Rightarrow> string list" where
  "logged_errors tr = concat (map (\<lambda>e. case e of ConsoleError _ err \<Rightarrow> [err] | _ \<Rightarrow> []) tr)"

lemma emit_callback_eq: "emit_callback ev l tr = (tr @ listener_effects ev l, None)"
  by (simp add: emit_callback_def call_listener_def listener_effects_def split: option.splits)

lemma forEach_emit_callback:
  "forEach (emit_callback ev) callbacks tr = (tr @ concat (map (listener_effects ev) callbacks), None)"
  by (induction callbacks arbitrary: tr) (simp_all add: emit_callback_eq)

lemma emit_listeners_eq: "emit_listeners callbacks ev tr = (tr @ emit_effects callbacks ev, None)"
  by (simp add: emit_listeners_def emit_effects_def forEach_emit_callback)

lemma called_ids_append [simp]: "called_ids (xs @ ys) = called_ids xs @ called_ids ys"
  by (simp add: called_ids_def)

lemma logged_errors_append [simp]: "logged_errors (xs @ ys) = logged_errors xs @ logged_errors ys"
  by (simp add: logged_errors_def)

lemma called_ids_Nil [simp]: "called_ids [] = []"
  by (simp add: called_ids_def)

lemma called_ids_Cons [simp]:
  "called_ids (e # tr) = (case e of Called i _ \<Rightarrow> [i] | _ \<Rightarrow> []) @ called_ids tr"
  by (simp add: called_ids_def)

lemma logged_errors_Nil [simp]: "logged_errors [] = []"
  by (simp add: logged_errors_def)

lemma logged_errors_Cons [simp]:
  "logged_errors (e # tr) = (case e of ConsoleError _ err \<Rightarrow> [err] | _ \<Rightarrow> []) @ logged_errors tr"
  by (simp add: logged_errors_def)

lemma called_ids_concat: "called_ids (concat (map (listener_effects ev) callbacks)) = map lid callbacks"
  by (induction callbacks) (simp_all add: listener_effects_def split: option.splits)

lemma logged_errors_concat:
  "logged_errors (concat (map (listener_effects ev) callbacks)) =
     concat (map (\<lambda>l. case behaviour l ev of None \<Rightarrow> [] | Some err \<Rightarrow> [err]) callbacks)"
  by (induction callbacks) (simp_all add: listener_effects_def split: option.splits)

text \<open>
  Claim C8. \<open>emit\<close> calls every listener registered for the event, in registration
  order, also after a listener has thrown: the exception in flight after the loop
  is \<open>None\<close> (nothing propagates to the caller), the listeners called are exactly
  the registered ones, each thrown error is passed to \<open>logger.error\<close> and to
  nothing else, and the client's fields are untouched.
\<close>

theorem emit_isolates_throwing_listeners:
  "snd (emit_listeners callbacks ev tr) = None \<and>
   called_ids (fst (emit_listeners callbacks ev tr)) = called_ids tr @ map lid callbacks \<and>
   logged_errors (fst (emit_listeners callbacks ev tr)) =
     logged_errors tr @ concat (map (\<lambda>l. case behaviour l ev of None \<Rightarrow> [] | Some err \<Rightarrow> [err]) callbacks) \<and>
   client (emit ev w) = client w \<and>
   called_ids (trace (emit ev w)) = called_ids (trace w) @ map lid (listeners (client w) (event_type ev))"
  by (simp add: emit_listeners_eq emit_def emit_effects_def called_ids_concat logged_errors_concat)

theorem emit_isolates_throwing_listeners_witness:
  "snd (emit_listeners [\<lparr>lid = 1, behaviour = (\<lambda>_. Some ''boom'')\<rparr>, \<lparr>lid = 2, behaviour = (\<lambda>_. None)\<rparr>]
          Ev_connected []) = None \<and>
   called_ids (fst (emit_listeners [\<lparr>lid = 1, behaviour = (\<lambda>_. Some ''boom'')\<rparr>, \<lparr>lid = 2, behaviour = (\<lambda>_. None)\<rparr>]
          Ev_connected [])) = [1, 2] \<and>
   logged_errors (fst (emit_listeners [\<lparr>lid = 1, behaviour = (\<lambda>_. Some ''boom'')\<rparr>, \<lparr>lid = 2, behaviour = (\<lambda>_. None)\<rparr>]
          Ev_connected [])) = [''boom'']"
  using emit_isolates_throwing_listeners
    [of "[\<lparr>lid = 1, behaviour = (\<lambda>_. Some ''boom'')\<rparr>, \<lparr>lid = 2, behaviour = (\<lambda>_. None)\<rparr>]" Ev_connected "[]"]
  by simp

section \<open>Field-wise effect of the primitives\<close>

text \<open>
  Each primitive is characterised by what it does to the client, to the storage
  and to the trace; the proofs about \<open>connect\<close>, \<open>handleResponse\<close> and
  \<open>reconnect\<close> rewrite with these equations.
\<close>

named_theorems prim

lemma isStorageAvailable_fst [prim]: "fst (isStorageAvailable w) = writable (localStorage w)"
  by (simp add: isStorageAvailable_def)

definition probe :: "storage \<Rightarrow> storage" where
  "probe st = (if writable st then st\<lparr>items := (items st)(TEST_KEY := None)\<rparr> else st)"

definition probe_effects :: "storage \<Rightarrow> effect list" where
  "probe_effects st = (if writable st then [SetItem TEST_KEY, RemoveItem TEST_KEY] else [])"

lemma probe_writable [simp]: "writable (probe st) = writable st"
  by (simp add: probe_def)

lemma isStorageAvailable_snd [prim]:
  "snd (isStorageAvailable w) =
     w\<lparr>localStorage := probe (localStorage w), trace := trace w @ probe_effects (localStorage w)\<rparr>"
  by (simp add: isStorageAvailable_def probe_def probe_effects_def)

lemma clearActiveRequest_client [prim]: "client (clearActiveRequest prefix w) = client w"
  by (simp add: clearActiveRequest_def isStorageAvailable_def Let_def)

lemma clearActiveRequest_storage [prim]:
  "localStorage (clearActiveRequest prefix w) =
     (if writable (localStorage w)
      then (localStorage w)\<lparr>items := (items (localStorage w))(TEST_KEY := None, prefix @ ACTIVE_REQUEST_KEY := None)\<rparr>
      else localStorage w)"
  by (simp add: clearActiveRequest_def isStorageAvailable_def Let_def)

lemma clearActiveRequest_trace [prim]:
  "trace (clearActiveRequest prefix w) =
     trace w @ probe_effects (localStorage w) @
       (if writable (localStorage w) then [RemoveItem (prefix @ ACTIVE_REQUEST_KEY)] else [])"
  by (simp add: clearActiveRequest_def isStorageAvailable_def Let_def probe_effects_def)

lemma saveActiveRequest_client [prim]: "client (saveActiveRequest now prefix c t u ch w) = client w"
  by (simp add: saveActiveRequest_def isStorageAvailable_def Let_def)

lemma saveActiveRequest_trace [prim]:
  "trace (saveActiveRequest now prefix c t u ch w) =
     trace w @ probe_effects (localStorage w) @
       (if writable (localStorage w) then [SetItem (prefix @ ACTIVE_REQUEST_KEY)] else [])"
  by (simp add: saveActiveRequest_def isStorageAvailable_def Let_def probe_effects_def)

lemma saveActiveRequest_writable [prim]:
  "writable (localStorage (saveActiveRequest now prefix c t u ch w)) = writable (localStorage w)"
  by (simp add: saveActiveRequest_def isStorageAvailable_def Let_def)

lemma getActiveRequest_client [prim]: "client (snd (getActiveRequest now prefix w)) = client w"
  by (simp add: getActiveRequest_def isStorageAvailable_def Let_def clearActiveRequest_client
      split: option.splits stored.splits)

lemma emit_client [prim]: "client (emit ev w) = client w"
  by (simp add: emit_def)

lemma emit_storage [prim]: "localStorage (emit ev w) = localStorage w"
  by (simp add: emit_def)

lemma emit_trace [prim]:
  "trace (emit ev w) = trace w @ emit_effects (listeners (client w) (event_type ev)) ev"
  by (simp add: emit_def emit_listeners_eq)

definition step_effects :: "string \<Rightarrow> StepUpdates \<Rightarrow> ModelRiverClient \<Rightarrow> effect list" where
  "step_effects i u c =
     (case find (\<lambda>s. step_id s = i) (updateStep (steps c) i u) of
        Some step \<Rightarrow> emit_effects (listeners c E_step) (Ev_step step)
      | None \<Rightarrow> [])"

lemma updateStepAndEmit_client [prim]:
  "client (updateStepAndEmit i u w) = (client w)\<lparr>steps := updateStep (steps (client w)) i u\<rparr>"
  by (simp add: updateStepAndEmit_def Let_def emit_client split: option.splits)

lemma updateStepAndEmit_storage [prim]: "localStorage (updateStepAndEmit i u w) = localStorage w"
  by (simp add: updateStepAndEmit_def Let_def emit_storage split: option.splits)

lemma updateStepAndEmit_trace [prim]:
  "trace (updateStepAndEmit i u w) = trace w @ step_effects i u (client w)"
  by (simp add: updateStepAndEmit_def Let_def emit_trace step_effects_def split: option.splits)

lemma setError_client [prim]: "client (setError msg w) = (client w)\<lparr>error := Some msg\<rparr>"
  by (simp add: setError_def)

lemma setError_storage [prim]: "localStorage (setError msg w) = localStorage w"
  by (simp add: setError_def)

lemma setError_trace [prim]: "trace (setError msg w) = trace w"
  by (simp add: setError_def)

definition cleanup_effects :: "ModelRiverClient \<Rightarrow> effect list" where
  "cleanup_effects c =
     (if heartbeatTimer c \<noteq> None then [ClearInterval] else []) @
     (if channel c \<noteq> None then [ChannelLeave] else []) @
     (if socket c \<noteq> None then [SocketDisconnect] else [])"

lemma stopHeartbeat_client [prim]: "client (stopHeartbeat w) = (client w)\<lparr>heartbeatTimer := None\<rparr>"
  by (simp add: stopHeartbeat_def split: option.splits)

lemma stopHeartbeat_storage [prim]: "localStorage (stopHeartbeat w) = localStorage w"
  by (simp add: stopHeartbeat_def split: option.splits)

lemma stopHeartbeat_trace [prim]:
  "trace (stopHeartbeat w) = trace w @ (if heartbeatTimer (client w) \<noteq> None then [ClearInterval] else [])"
  by (simp add: stopHeartbeat_def split: option.splits)

lemma cleanupConnection_client [prim]:
  "client (cleanupConnection w) =
     (client w)\<lparr>heartbeatTimer := None, channel := None, socket := None, connectionState := CS_disconnected\<rparr>"
  by (simp add: cleanupConnection_def Let_def stopHeartbeat_client split: option.splits)

lemma cleanupConnection_storage [prim]: "localStorage (cleanupConnection w) = localStorage w"
  by (simp add: cleanupConnection_def Let_def stopHeartbeat_storage split: option.splits)

lemma cleanupConnection_trace [prim]:
  "trace (cleanupConnection w) = trace w @ cleanup_effects (client w)"
  by (auto simp add: cleanupConnection_def Let_def stopHeartbeat_client stopHeartbeat_trace cleanup_effects_def
      split: option.splits)

section \<open>Order of effects\<close>

text \<open>
  \<open>new_effects w w'\<close> is what a call that took the world from \<open>w\<close> to \<open>w'\<close> added
  to the trace. \<open>happens_before a b tr\<close>: \<open>b\<close> occurs in \<open>tr\<close> and \<open>a\<close> occurs
  before the first \<open>b\<close>.
\<close>

definition new_effects :: "'c world \<Rightarrow> 'c world \<Rightarrow> effect list" where
  "new_effects w w' = drop (length (trace w)) (trace w')"

definition happens_before :: "effect \<Rightarrow> effect \<Rightarrow> effect list \<Rightarrow> bool" where
  "happens_before a b tr = (b \<in> set tr \<and> a \<in> set (takeWhile (\<lambda>e. e \<noteq> b) tr))"

fun is_listener_effect :: "effect \<Rightarrow> bool" where
  "is_listener_effect (Emitted _) = True"
| "is_listener_effect (Called _ _) = True"
| "is_listener_effect (ConsoleError _ _) = True"
| "is_listener_effect _ = False"

lemma emit_effects_listener: "e \<in> set (emit_effects ls ev) \<Longrightarrow> is_listener_effect e"
  by (auto simp: emit_effects_def listener_effects_def split: option.splits)

lemma step_effects_listener: "e \<in> set (step_effects i u c) \<Longrightarrow> is_listener_effect e"
  by (auto simp: step_effects_def split: option.splits dest: emit_effects_listener)

lemma not_in_emit_effects [simp]: "\<not> is_listener_effect e \<Longrightarrow> e \<notin> set (emit_effects ls ev)"
  using emit_effects_listener by blast

lemma not_in_step_effects [simp]: "\<not> is_listener_effect e \<Longrightarrow> e \<notin> set (step_effects i u c)"
  using step_effects_listener by blast

lemma response_not_in_step_effects [simp]: "Emitted (Ev_response p) \<notin> set (step_effects i u c)"
  by (auto simp: step_effects_def emit_effects_def listener_effects_def split: option.splits)

lemma emitted_in_emit_effects [simp]: "Emitted ev \<in> set (emit_effects ls ev)"
  by (simp add: emit_effects_def)

lemma takeWhile_neq_append:
  "b \<notin> set xs \<Longrightarrow> takeWhile (\<lambda>e. e \<noteq> b) (xs @ ys) = xs @ takeWhile (\<lambda>e. e \<noteq> b) ys"
  by (induction xs) auto

lemma hb_append_skip: "b \<notin> set xs \<Longrightarrow> happens_before a b ys \<Longrightarrow> happens_before a b (xs @ ys)"
  by (simp add: happens_before_def takeWhile_neq_append)

lemma hb_Cons_skip: "b \<noteq> x \<Longrightarrow> happens_before a b ys \<Longrightarrow> happens_before a b (x # ys)"
  by (auto simp add: happens_before_def)

lemma hb_Cons_here: "a \<noteq> b \<Longrightarrow> b \<in> set ys \<Longrightarrow> happens_before a b (a # ys)"
  by (auto simp add: happens_before_def)

lemma new_effects_append [simp]: "trace w' = trace w @ d \<Longrightarrow> new_effects w w' = d"
  by (simp add: new_effects_def)

text \<open>
  \<open>calls_of ev tr\<close>: the listeners that \<open>tr\<close> records as called with the event \<open>ev\<close>,
  in the order of the calls.
\<close>

definition calls_of :: "event \<Rightarrow> effect list \<Rightarrow> nat list" where
  "calls_of ev tr = concat (map (\<lambda>e. case e of Called i ev' \<Rightarrow> (if ev' = ev then [i] else []) | _ \<Rightarrow> []) tr)"

text \<open>What \<open>updateStepAndEmit\<close> can add to the trace: the emission of a \<open>step\<close> event.\<close>

fun is_step_effect :: "effect \<Rightarrow> bool" where
  "is_step_effect (Emitted ev) = (event_type ev = E_step)"
| "is_step_effect (Called _ ev) = (event_type ev = E_step)"
| "is_step_effect (ConsoleError _ _) = True"
| "is_step_effect _ = False"

text \<open>What \<open>if (this.options.persist) clearActiveRequest(prefix)\<close> adds to the trace.\<close>

definition clear_effects :: "bool \<Rightarrow> storage \<Rightarrow> string \<Rightarrow> effect list" where
  "clear_effects p st prefix =
     (if p then probe_effects st @ (if writable st then [RemoveItem (prefix @ ACTIVE_REQUEST_KEY)] else [])
      else [])"

lemma calls_of_Nil [simp]: "calls_of ev [] = []"
  by (simp add: calls_of_def)

lemma calls_of_Cons [simp]:
  "calls_of ev (e # tr) =
     (case e of Called i ev' \<Rightarrow> (if ev' = ev then [i] else []) | _ \<Rightarrow> []) @ calls_of ev tr"
  by (simp add: calls_of_def)

lemma calls_of_append [simp]: "calls_of ev (xs @ ys) = calls_of ev xs @ calls_of ev ys"
  by (simp add: calls_of_def)

lemma calls_of_listener_effects: "calls_of ev (concat (map (listener_effects ev) ls)) = map lid ls"
  by (induction ls) (simp_all add: listener_effects_def split: option.splits)

lemma calls_of_emit_effects [simp]: "calls_of ev (emit_effects ls ev) = map lid ls"
  by (simp add: emit_effects_def calls_of_listener_effects)

lemma calls_of_none: "\<forall>e \<in> set tr. \<forall>i. e \<noteq> Called i ev \<Longrightarrow> calls_of ev tr = []"
  by (induction tr) (auto split: effect.splits)

lemma step_effects_is_step: "e \<in> set (step_effects i u c) \<Longrightarrow> is_step_effect e"
  by (auto simp: step_effects_def emit_effects_def listener_effects_def split: option.splits)

lemma calls_of_step_free:
  "\<forall>e \<in> set S. is_step_effect e \<Longrightarrow> event_type ev \<noteq> E_step \<Longrightarrow> calls_of ev S = []"
  by (rule calls_of_none) auto

lemma calls_of_clear_effects [simp]: "calls_of ev (clear_effects p st prefix) = []"
  by (simp add: clear_effects_def probe_effects_def)

lemma calls_of_cleanup_effects [simp]: "calls_of ev (cleanup_effects c) = []"
  by (simp add: cleanup_effects_def)

lemma hb_parts:
  "a \<in> set A \<Longrightarrow> b \<notin> set A \<Longrightarrow> b \<in> set B \<Longrightarrow> happens_before a b (A @ B)"
  by (simp add: happens_before_def takeWhile_neq_append)

lemma called_in_emit_effects: "l \<in> set ls \<Longrightarrow> Called (lid l) ev \<in> set (emit_effects ls ev)"
  by (auto simp: emit_effects_def listener_effects_def)

lemma step_free_not_called:
  "\<forall>e \<in> set S. is_step_effect e \<Longrightarrow> event_type ev \<noteq> E_step \<Longrightarrow> Called i ev \<notin> set S"
  by auto

lemma step_free_not_emitted:
  "\<forall>e \<in> set S. is_step_effect e \<Longrightarrow> event_type ev \<noteq> E_step \<Longrightarrow> Emitted ev \<notin> set S"
  by auto

lemma step_free_not_storage:
  "\<forall>e \<in> set S. is_step_effect e \<Longrightarrow>
   RemoveItem k \<notin> set S \<and> ChannelLeave \<notin> set S \<and> SocketDisconnect \<notin> set S \<and> ClearInterval \<notin> set S"
  by auto


section \<open>A \<open>completed\<close> payload ends the session (claim C1)\<close>

lemma handleResponse_completed_client:
  "resp_status payload = ''completed'' \<Longrightarrow>
   client (handleResponse payload w) =
     (client w)\<lparr>steps :=
        updateStep (updateStep (updateStep (updateStep (steps (client w))
          ''process'' (updates_status Success))
          ''backend'' (no_updates\<lparr>upd_status := Some Success, upd_name := Some ''Backend processed''\<rparr>))
          ''receive'' (no_updates\<lparr>upd_status := Some Success, upd_duration := Some (Some 50)\<rparr>))
          ''complete'' (updates_status Success),
        response := Some payload, isCompleted := True,
        heartbeatTimer := None, channel := None, socket := None,
        connectionState := CS_disconnected\<rparr>"
  by (simp add: handleResponse_def Let_def prim)

lemma handleResponse_completed_storage:
  "resp_status payload = ''completed'' \<Longrightarrow>
   localStorage (handleResponse payload w) =
     (if persist (options (client w))
      then localStorage (clearActiveRequest (storageKeyPrefix (options (client w))) w)
      else localStorage w)"
  by (simp add: handleResponse_def Let_def prim)

lemma handleResponse_completed_trace:
  "resp_status payload = ''completed'' \<Longrightarrow>
   \<exists>S2 S3 S4. 
     trace (handleResponse payload w) =
       trace w @ step_effects ''process'' (updates_status Success) (client w) @ 
       step_effects ''backend'' (no_updates\<lparr>upd_status := Some Success, upd_name := Some ''Backend processed''\<rparr>) S2 @
       step_effects ''receive'' (no_updates\<lparr>upd_status := Some Success, upd_duration := Some (Some 50)\<rparr>) S3 @
       step_effects ''complete'' (updates_status Success) S4 @
       (if persist (options (client w))
        then probe_effects (localStorage w) @
             (if writable (localStorage w)
              then [RemoveItem (storageKeyPrefix (options (client w)) @ ACTIVE_REQUEST_KEY)] else [])
        else []) @
       emit_effects (listeners (client w) E_response) (Ev_response payload) @
       cleanup_effects (client w)"
  by (auto simp add: handleResponse_def Let_def prim cleanup_effects_def)

lemma handleResponse_completed_effects:
  "resp_status payload = ''completed'' \<Longrightarrow>
   \<exists>S. (\<forall>e \<in> set S. is_step_effect e) \<and>
     new_effects w (handleResponse payload w) =
       S @ clear_effects (persist (options (client w))) (localStorage w) (storageKeyPrefix (options (client w))) @
       emit_effects (listeners (client w) E_response) (Ev_response payload) @
       cleanup_effects (client w)"
proof -
  assume a: "resp_status payload = ''completed''"
  from handleResponse_completed_trace [OF a, of w]
  obtain S2 S3 S4 where tr: "trace (handleResponse payload w) =
       trace w @ step_effects ''process'' (updates_status Success) (client w) @ 
       step_effects ''backend'' (no_updates\<lparr>upd_status := Some Success, upd_name := Some ''Backend processed''\<rparr>) S2 @
       step_effects ''receive'' (no_updates\<lparr>upd_status := Some Success, upd_duration := Some (Some 50)\<rparr>) S3 @
       step_effects ''complete'' (updates_status Success) S4 @
       (if persist (options (client w))
        then probe_effects (localStorage w) @
             (if writable (localStorage w)
              then [RemoveItem (storageKeyPrefix (options (client w)) @ ACTIVE_REQUEST_KEY)] else [])
        else []) @
       emit_effects (listeners (client w) E_response) (Ev_response payload) @
       cleanup_effects (client w)"
    by blast
  let ?S = "step_effects ''process'' (updates_status Success) (client w) @ 
       step_effects ''backend'' (no_updates\<lparr>upd_status := Some Success, upd_name := Some ''Backend processed''\<rparr>) S2 @
       step_effects ''receive'' (no_updates\<lparr>upd_status := Some Success, upd_duration := Some (Some 50)\<rparr>) S3 @
       step_effects ''complete'' (updates_status Success) S4"
  have s: "\<forall>e \<in> set ?S. is_step_effect e"
    by (auto dest: step_effects_is_step)
  have "new_effects w (handleResponse payload w) =
       ?S @ clear_effects (persist (options (client w))) (localStorage w) (storageKeyPrefix (options (client w))) @
       emit_effects (listeners (client w) E_response) (Ev_response payload) @
       cleanup_effects (client w)"
    by (simp add: new_effects_append [OF tr] clear_effects_def)
  with s show ?thesis by blast
qed

text \<open>\<open>reconnect()\<close> called once for each clock reading of the list, one call after the other.\<close>

fun reconnect_many :: "int list \<Rightarrow> ModelRiverClient world \<Rightarrow> bool list \<times> ModelRiverClient world" where
  "reconnect_many [] w = ([], w)"
| "reconnect_many (now # nows) w =
     (case reconnect now w of
        (r, w1) \<Rightarrow> (case reconnect_many nows w1 of (rs, w2) \<Rightarrow> (r # rs, w2)))"

lemma reconnect_completed:
  "isCompleted (client w) \<Longrightarrow>
   reconnect now w =
     (False, if persist (options (client w))
             then clearActiveRequest (storageKeyPrefix (options (client w))) w else w)"
  by (simp add: reconnect_def)

definition clear_effect_set :: "string \<Rightarrow> effect set" where
  "clear_effect_set prefix = {SetItem TEST_KEY, RemoveItem TEST_KEY, RemoveItem (prefix @ ACTIVE_REQUEST_KEY)}"

lemma reconnect_many_completed:
  "isCompleted (client w) \<Longrightarrow>
   fst (reconnect_many nows w) = replicate (length nows) False \<and>
   client (snd (reconnect_many nows w)) = client w \<and>
   (\<exists>d. trace (snd (reconnect_many nows w)) = trace w @ d \<and>
        set d \<subseteq> clear_effect_set (storageKeyPrefix (options (client w))))"
proof (induction nows arbitrary: w)
  case Nil
  then show ?case by simp
next
  case (Cons now nows)
  let ?w1 = "if persist (options (client w))
             then clearActiveRequest (storageKeyPrefix (options (client w))) w else w"
  have r: "reconnect now w = (False, ?w1)"
    using Cons.prems by (rule reconnect_completed)
  have c1: "client ?w1 = client w"
    by (simp add: clearActiveRequest_client)
  obtain d1 where d1: "trace ?w1 = trace w @ d1"
      "set d1 \<subseteq> clear_effect_set (storageKeyPrefix (options (client w)))"
    by (cases "persist (options (client w))")
       (auto simp: clearActiveRequest_trace probe_effects_def clear_effect_set_def)
  from Cons.prems c1 have "isCompleted (client ?w1)" by simp
  from Cons.IH [OF this] c1 obtain d2 where
      f: "fst (reconnect_many nows ?w1) = replicate (length nows) False"
      and c: "client (snd (reconnect_many nows ?w1)) = client w"
      and d2: "trace (snd (reconnect_many nows ?w1)) = trace ?w1 @ d2"
        "set d2 \<subseteq> clear_effect_set (storageKeyPrefix (options (client w)))"
    by auto
  have "trace (snd (reconnect_many (now # nows) w)) = trace w @ (d1 @ d2)"
    using r d1 d2 by (simp add: split_beta)
  moreover have "set (d1 @ d2) \<subseteq> clear_effect_set (storageKeyPrefix (options (client w)))"
    using d1 d2 by simp
  ultimately show ?case
    using r f c by (auto simp: split_beta)
qed

lemma getActiveRequest_cleared:
  "items (localStorage w) (prefix @ ACTIVE_REQUEST_KEY) = None \<Longrightarrow> fst (getActiveRequest now prefix w) = None"
  by (simp add: getActiveRequest_def isStorageAvailable_def TEST_KEY_def ACTIVE_REQUEST_KEY_def
      split: option.splits stored.splits)

lemma getActiveRequest_unwritable:
  "\<not> writable (localStorage w) \<Longrightarrow> fst (getActiveRequest now prefix w) = None"
  by (simp add: getActiveRequest_def isStorageAvailable_def)

text \<open>
  Claim C1, as amended. When \<open>handleResponse\<close> processes a payload with status
  \<open>completed\<close>: the completed flag is set and the payload is the latest response.
  With persistence on and a storage that accepts writes, the stored request is
  removed, and removed before any \<open>response\<close> listener is called; when the storage
  refuses the probe write of \<open>isStorageAvailable\<close>, \<open>clearActiveRequest\<close> returns
  early and the storage is left as it was. \<open>hasPendingRequest()\<close> is false afterwards
  in both cases. Every \<open>response\<close> listener is called once with the payload, in
  registration order. What the call adds to the trace is exactly: emissions of
  \<open>step\<close> events, the clearing of the record, the emission of \<open>response\<close>, and the
  teardown (\<open>clearInterval\<close> of a running heartbeat, \<open>channel.leave()\<close> of an open
  channel, \<open>socket.disconnect()\<close> of an open socket), the teardown after every
  listener call; socket, channel and heartbeat fields are null and the phase is
  \<open>disconnected\<close>. After that, any number of \<open>reconnect()\<close> calls all return false,
  leave the client exactly as it was (no \<open>connect\<close>, no socket), and touch nothing
  but the storage keys they clear.
\<close>

theorem completed_response_is_terminal:
  fixes payload :: AIResponse and w :: "ModelRiverClient world"
  assumes "resp_status payload = ''completed''"
  defines "w' \<equiv> handleResponse payload w"
  defines "key \<equiv> storageKeyPrefix (options (client w)) @ ACTIVE_REQUEST_KEY"
  shows "isCompleted (client w') \<and>
         response (client w') = Some payload \<and>
         (persist (options (client w)) \<and> writable (localStorage w) \<longrightarrow>
            items (localStorage w') key = None \<and>
            happens_before (RemoveItem key) (Emitted (Ev_response payload)) (new_effects w w') \<and>
            (\<forall>l \<in> set (listeners (client w) E_response).
               happens_before (RemoveItem key) (Called (lid l) (Ev_response payload)) (new_effects w w'))) \<and>
         (\<not> writable (localStorage w) \<longrightarrow> localStorage w' = localStorage w) \<and>
         fst (hasPendingRequest now w') = False \<and>
         Emitted (Ev_response payload) \<in> set (new_effects w w') \<and>
         calls_of (Ev_response payload) (new_effects w w') = map lid (listeners (client w) E_response) \<and>
         (\<exists>S. (\<forall>e \<in> set S. is_step_effect e) \<and>
            new_effects w w' =
              S @ clear_effects (persist (options (client w))) (localStorage w)
                    (storageKeyPrefix (options (client w))) @
              emit_effects (listeners (client w) E_response) (Ev_response payload) @
              cleanup_effects (client w)) \<and>
         socket (client w') = None \<and> channel (client w') = None \<and>
         heartbeatTimer (client w') = None \<and> connectionState (client w') = CS_disconnected \<and>
         (heartbeatTimer (client w) \<noteq> None \<longrightarrow>
            happens_before (Emitted (Ev_response payload)) ClearInterval (new_effects w w')) \<and>
         (channel (client w) \<noteq> None \<longrightarrow>
            happens_before (Emitted (Ev_response payload)) ChannelLeave (new_effects w w') \<and>
            (\<forall>l \<in> set (listeners (client w) E_response).
               happens_before (Called (lid l) (Ev_response payload)) ChannelLeave (new_effects w w'))) \<and>
         (socket (client w) \<noteq> None \<longrightarrow>
            happens_before (Emitted (Ev_response payload)) SocketDisconnect (new_effects w w') \<and>
            (\<forall>l \<in> set (listeners (client w) E_response).
               happens_before (Called (lid l) (Ev_response payload)) SocketDisconnect (new_effects w w'))) \<and>
         fst (reconnect_many nows w') = replicate (length nows) False \<and>
         client (snd (reconnect_many nows w')) = client w' \<and>
         set (new_effects w' (snd (reconnect_many nows w'))) \<subseteq>
           {SetItem TEST_KEY, RemoveItem TEST_KEY, RemoveItem key}"
proof -
  let ?ev = "Ev_response payload"
  let ?C = "clear_effects (persist (options (client w))) (localStorage w) (storageKeyPrefix (options (client w)))"
  let ?E = "emit_effects (listeners (client w) E_response) ?ev"
  let ?T = "cleanup_effects (client w)"
  note cl = handleResponse_completed_client [OF assms(1), of w, folded w'_def]
  note st = handleResponse_completed_storage [OF assms(1), of w, folded w'_def]
  from handleResponse_completed_effects [OF assms(1), of w, folded w'_def]
  obtain S where S: "\<forall>e \<in> set S. is_step_effect e" and ne: "new_effects w w' = S @ ?C @ ?E @ ?T"
    by blast
  have ty: "event_type ?ev \<noteq> E_step" by simp
  note nS = step_free_not_storage [OF S]
  have nC: "Emitted ?ev \<notin> set ?C" "\<And>i. Called i ?ev \<notin> set ?C" "ChannelLeave \<notin> set ?C"
      "SocketDisconnect \<notin> set ?C" "ClearInterval \<notin> set ?C"
    by (simp_all add: clear_effects_def probe_effects_def)
  have nE: "ChannelLeave \<notin> set ?E" "SocketDisconnect \<notin> set ?E" "ClearInterval \<notin> set ?E"
    by simp_all
  have inE: "Emitted ?ev \<in> set ?E" by simp
  have fin: "isCompleted (client w')" by (simp add: cl)
  have a: "response (client w') = Some payload" by (simp add: cl)
  have b: "persist (options (client w)) \<and> writable (localStorage w) \<longrightarrow>
            items (localStorage w') key = None \<and>
            happens_before (RemoveItem key) (Emitted ?ev) (new_effects w w') \<and>
            (\<forall>l \<in> set (listeners (client w) E_response).
               happens_before (RemoveItem key) (Called (lid l) ?ev) (new_effects w w'))"
  proof (intro impI conjI ballI)
    assume pw: "persist (options (client w)) \<and> writable (localStorage w)"
    then show "items (localStorage w') key = None"
      by (simp add: st key_def clearActiveRequest_storage)
    have inA: "RemoveItem key \<in> set (S @ ?C)"
      using pw by (simp add: clear_effects_def key_def)
    have "happens_before (RemoveItem key) (Emitted ?ev) ((S @ ?C) @ (?E @ ?T))"
      using inA step_free_not_emitted [OF S ty] nC(1) inE by (intro hb_parts) simp_all
    then show "happens_before (RemoveItem key) (Emitted ?ev) (new_effects w w')"
      by (simp add: ne)
    fix l assume l: "l \<in> set (listeners (client w) E_response)"
    have "happens_before (RemoveItem key) (Called (lid l) ?ev) ((S @ ?C) @ (?E @ ?T))"
      using inA step_free_not_called [OF S ty] nC(2) called_in_emit_effects [OF l]
      by (intro hb_parts) simp_all
    then show "happens_before (RemoveItem key) (Called (lid l) ?ev) (new_effects w w')"
      by (simp add: ne)
  qed
  have b': "\<not> writable (localStorage w) \<longrightarrow> localStorage w' = localStorage w"
    by (simp add: st clearActiveRequest_storage)
  have c: "fst (hasPendingRequest now w') = False"
  proof (cases "persist (options (client w)) \<and> writable (localStorage w)")
    case True
    with b have "items (localStorage w') key = None" by simp
    then show ?thesis
      by (simp add: hasPendingRequest_def cl key_def getActiveRequest_cleared split_beta)
  next
    case False
    then show ?thesis
      by (auto simp add: hasPendingRequest_def cl st split_beta clearActiveRequest_storage
          getActiveRequest_unwritable)
  qed
  have d: "Emitted ?ev \<in> set (new_effects w w')"
    by (simp add: ne)
  have d': "calls_of ?ev (new_effects w w') = map lid (listeners (client w) E_response)"
    by (simp add: ne calls_of_step_free [OF S ty])
  have d'': "\<exists>S. (\<forall>e \<in> set S. is_step_effect e) \<and> new_effects w w' = S @ ?C @ ?E @ ?T"
    using S ne by blast
  have e: "socket (client w') = None \<and> channel (client w') = None \<and>
         heartbeatTimer (client w') = None \<and> connectionState (client w') = CS_disconnected"
    by (simp add: cl)
  have after: "\<And>b. b \<in> set ?T \<Longrightarrow> b \<notin> set S \<Longrightarrow> b \<notin> set ?C \<Longrightarrow> b \<notin> set ?E \<Longrightarrow>
      happens_before (Emitted ?ev) b (new_effects w w') \<and>
      (\<forall>l \<in> set (listeners (client w) E_response).
         happens_before (Called (lid l) ?ev) b (new_effects w w'))"
  proof (intro conjI ballI)
    fix b assume bs: "b \<in> set ?T" "b \<notin> set S" "b \<notin> set ?C" "b \<notin> set ?E"
    have "happens_before (Emitted ?ev) b ((S @ ?C @ ?E) @ ?T)"
      using bs inE by (intro hb_parts) simp_all
    then show "happens_before (Emitted ?ev) b (new_effects w w')"
      by (simp add: ne)
    fix l assume l: "l \<in> set (listeners (client w) E_response)"
    have "happens_before (Called (lid l) ?ev) b ((S @ ?C @ ?E) @ ?T)"
      using bs called_in_emit_effects [OF l] by (intro hb_parts) simp_all
    then show "happens_before (Called (lid l) ?ev) b (new_effects w w')"
      by (simp add: ne)
  qed
  have f0: "heartbeatTimer (client w) \<noteq> None \<longrightarrow>
            happens_before (Emitted ?ev) ClearInterval (new_effects w w')"
    using after [of ClearInterval] nS nC nE by (simp add: cleanup_effects_def)
  have f: "channel (client w) \<noteq> None \<longrightarrow>
            happens_before (Emitted ?ev) ChannelLeave (new_effects w w') \<and>
            (\<forall>l \<in> set (listeners (client w) E_response).
               happens_before (Called (lid l) ?ev) ChannelLeave (new_effects w w'))"
    using after [of ChannelLeave] nS nC nE by (simp add: cleanup_effects_def)
  have g: "socket (client w) \<noteq> None \<longrightarrow>
            happens_before (Emitted ?ev) SocketDisconnect (new_effects w w') \<and>
            (\<forall>l \<in> set (listeners (client w) E_response).
               happens_before (Called (lid l) ?ev) SocketDisconnect (new_effects w w'))"
    using after [of SocketDisconnect] nS nC nE by (simp add: cleanup_effects_def)
  from reconnect_many_completed [OF fin, of nows] obtain dd where
      h1: "fst (reconnect_many nows w') = replicate (length nows) False"
      and h2: "client (snd (reconnect_many nows w')) = client w'"
      and h3: "trace (snd (reconnect_many nows w')) = trace w' @ dd"
      and h4: "set dd \<subseteq> clear_effect_set (storageKeyPrefix (options (client w')))"
    by blast
  have h: "set (new_effects w' (snd (reconnect_many nows w'))) \<subseteq>
           {SetItem TEST_KEY, RemoveItem TEST_KEY, RemoveItem key}"
    using h4 by (simp add: new_effects_append [OF h3] clear_effect_set_def key_def cl)
  show ?thesis
    by (intro conjI fin a b b' c d d' d'' e [THEN conjunct1] e [THEN conjunct2, THEN conjunct1]
        e [THEN conjunct2, THEN conjunct2, THEN conjunct1]
        e [THEN conjunct2, THEN conjunct2, THEN conjunct2] f0 f g h1 h2 h)
qed

subsection \<open>A sample session\<close>

text \<open>
  A client with persistence on and prefix \<open>t_\<close>, an open socket and channel, a request
  stored, and two \<open>response\<close> listeners of which the first throws.
\<close>

definition sample_request :: ActiveRequest where
  "sample_request = \<lparr>ar_channelId = ''chan-1'', ar_wsToken = ''tok-1'', ar_timestamp = 1000,
     ar_websocketUrl = None, ar_websocketChannel = None\<rparr>"

definition sample_storage :: storage where
  "sample_storage = \<lparr>items = [''t_active_request'' \<mapsto> Request sample_request], writable = True\<rparr>"

definition sample_listeners :: "ModelRiverEventType \<Rightarrow> listener list" where
  "sample_listeners = (\<lambda>_. [])(E_response := [\<lparr>lid = 1, behaviour = (\<lambda>_. Some ''boom'')\<rparr>,
                                             \<lparr>lid = 2, behaviour = (\<lambda>_. None)\<rparr>])"

definition sample_client :: ModelRiverClient where
  "sample_client =
     (new_ModelRiverClient \<lparr>in_baseUrl = None, in_debug = None, in_persist = None,
        in_storageKeyPrefix = Some ''t_'', in_heartbeatInterval = None,
        in_requestTimeout = None, in_apiBaseUrl = None\<rparr>)
     \<lparr>socket := Some (Socket ''wss://api.modelriver.com/socket'' ''tok-1''),
      channel := Some (Channel ''ai_response:chan-1''),
      heartbeatTimer := Some 30000,
      connectionState := CS_connected,
      steps := createInitialSteps,
      currentWebsocketChannel := Some ''ai_response:chan-1'',
      listeners := sample_listeners\<rparr>"

definition sample_world :: "ModelRiverClient world" where
  "sample_world = \<lparr>client = sample_client, localStorage = sample_storage, trace = []\<rparr>"

definition sample_payload :: "string \<Rightarrow> AIResponse" where
  "sample_payload st = \<lparr>resp_status = st, resp_channel_id = Some ''chan-1'',
     resp_meta = None, resp_error = None\<rparr>"

theorem completed_response_is_terminal_witness:
  "resp_status (sample_payload ''completed'') = ''completed'' \<and>
   persist (options (client sample_world)) \<and> writable (localStorage sample_world) \<and>
   channel (client sample_world) \<noteq> None \<and> socket (client sample_world) \<noteq> None \<and>
   heartbeatTimer (client sample_world) \<noteq> None \<and>
   map lid (listeners (client sample_world) E_response) = [1, 2] \<and>
   isCompleted (client (handleResponse (sample_payload ''completed'') sample_world)) \<and>
   items (localStorage (handleResponse (sample_payload ''completed'') sample_world)) ''t_active_request'' = None \<and>
   calls_of (Ev_response (sample_payload ''completed''))
     (new_effects sample_world (handleResponse (sample_payload ''completed'') sample_world)) = [1, 2] \<and>
   happens_before (RemoveItem ''t_active_request'') (Called 1 (Ev_response (sample_payload ''completed'')))
     (new_effects sample_world (handleResponse (sample_payload ''completed'') sample_world)) \<and>
   happens_before (Called 2 (Ev_response (sample_payload ''completed''))) ChannelLeave
     (new_effects sample_world (handleResponse (sample_payload ''completed'') sample_world)) \<and>
   happens_before (Called 2 (Ev_response (sample_payload ''completed''))) SocketDisconnect
     (new_effects sample_world (handleResponse (sample_payload ''completed'') sample_world)) \<and>
   happens_before (Emitted (Ev_response (sample_payload ''completed''))) ClearInterval
     (new_effects sample_world (handleResponse (sample_payload ''completed'') sample_world)) \<and>
   fst (reconnect_many [2000, 3000, 4000] (handleResponse (sample_payload ''completed'') sample_world)) =
     [False, False, False]"
  using completed_response_is_terminal
    [of "sample_payload ''completed''" sample_world 2000 "[2000, 3000, 4000]"]
  by (simp add: sample_payload_def sample_world_def sample_client_def sample_storage_def
      sample_listeners_def new_ModelRiverClient_def nullish_def ACTIVE_REQUEST_KEY_def)

definition full_storage_world :: "ModelRiverClient world" where
  "full_storage_world = sample_world\<lparr>localStorage := sample_storage\<lparr>writable := False\<rparr>\<rparr>"

text \<open>
  The claim as stated fails when the storage refuses writes (it is full, or disabled
  after the record was written): persistence is enabled, the \<open>completed\<close> payload is
  processed, both listeners are called, and the record is still stored.
\<close>

theorem completed_record_survives_counterexample:
  "resp_status (sample_payload ''completed'') = ''completed'' \<and>
   persist (options (client full_storage_world)) \<and>
   items (localStorage full_storage_world) ''t_active_request'' = Some (Request sample_request) \<and>
   items (localStorage (handleResponse (sample_payload ''completed'') full_storage_world)) ''t_active_request'' =
     Some (Request sample_request) \<and>
   calls_of (Ev_response (sample_payload ''completed''))
     (new_effects full_storage_world (handleResponse (sample_payload ''completed'') full_storage_world)) = [1, 2] \<and>
   RemoveItem ''t_active_request'' \<notin>
     set (new_effects full_storage_world (handleResponse (sample_payload ''completed'') full_storage_world))"
  by (simp add: handleResponse_def Let_def prim full_storage_world_def sample_payload_def sample_world_def
      sample_client_def sample_storage_def sample_listeners_def new_ModelRiverClient_def nullish_def
      clearActiveRequest_storage new_effects_def step_effects_def emit_effects_def listener_effects_def
      probe_effects_def cleanup_effects_def updateStep_def updates_status_def no_updates_def
      createInitialSteps_def spread_def)

section \<open>An \<open>ai_generated\<close> payload keeps the session open (claim C3)\<close>

text \<open>
  The step list after the \<open>ai_generated\<close> branch, as a function of the list before:
  \<open>process\<close> marked, \<open>backend\<close> appended when missing, \<open>backend\<close> marked.
\<close>

definition backend_step :: WorkflowStep where
  "backend_step = \<lparr>step_id = ''backend'', step_name = ''Backend processing...'',
     step_status = Pending, step_duration = None, step_errorMessage = None\<rparr>"

definition ai_generated_steps :: "AIResponse \<Rightarrow> WorkflowStep list \<Rightarrow> WorkflowStep list" where
  "ai_generated_steps payload ss =
     (let s1 = updateStep ss ''process''
                 (no_updates\<lparr>upd_status := Some Success, upd_duration := Some (meta_duration payload)\<rparr>);
          s2 = (if list_ex (\<lambda>s. step_id s = ''backend'') s1 then s1 else s1 @ [backend_step])
      in updateStep s2 ''backend''
           (no_updates\<lparr>upd_status := Some Pending, upd_name := Some ''Waiting for backend callback...''\<rparr>))"

lemma handleResponse_ai_generated_client:
  "resp_status payload = ''ai_generated'' \<Longrightarrow>
   client (handleResponse payload w) =
     (client w)\<lparr>steps := ai_generated_steps payload (steps (client w)), response := Some payload\<rparr>"
  by (simp add: handleResponse_def Let_def prim hasBackendStep_def ai_generated_steps_def backend_step_def)

lemma handleResponse_ai_generated_storage:
  "resp_status payload = ''ai_generated'' \<Longrightarrow> localStorage (handleResponse payload w) = localStorage w"
  by (simp add: handleResponse_def Let_def prim)

lemma handleResponse_ai_generated_trace:
  "resp_status payload = ''ai_generated'' \<Longrightarrow>
   \<exists>c1 c2. trace (handleResponse payload w) =
       trace w @ step_effects ''process''
          (no_updates\<lparr>upd_status := Some Success, upd_duration := Some (meta_duration payload)\<rparr>) c1 @
       step_effects ''backend''
          (no_updates\<lparr>upd_status := Some Pending, upd_name := Some ''Waiting for backend callback...''\<rparr>) c2 @
       emit_effects (listeners (client w) E_response) (Ev_response payload)"
  by (auto simp add: handleResponse_def Let_def prim)

lemma updateStep_ids [simp]: "upd_id u = None \<Longrightarrow> map step_id (updateStep ss i u) = map step_id ss"
  by (induction ss) (simp_all add: updateStep_def spread_def)

lemma updateStep_other:
  "upd_id u = None \<Longrightarrow>
   filter (\<lambda>s. step_id s \<noteq> i \<and> P s) (updateStep ss i u) = filter (\<lambda>s. step_id s \<noteq> i \<and> P s) ss"
  by (induction ss) (simp_all add: updateStep_def spread_def)

lemma list_ex_step_id: "list_ex (\<lambda>s. step_id s = i) ss \<longleftrightarrow> i \<in> set (map step_id ss)"
  by (induction ss) auto

lemma ai_generated_steps_has_backend:
  "list_ex (\<lambda>s. step_id s = ''backend'') (ai_generated_steps payload ss)"
  by (simp add: ai_generated_steps_def Let_def list_ex_step_id no_updates_def backend_step_def)

lemma ai_generated_steps_backend:
  "s \<in> set (ai_generated_steps payload ss) \<Longrightarrow> step_id s = ''backend'' \<Longrightarrow>
   step_status s = Pending \<and> step_name s = ''Waiting for backend callback...''"
  by (auto simp add: ai_generated_steps_def Let_def updateStep_def spread_def no_updates_def split: if_splits)

lemma ai_generated_steps_process:
  "s \<in> set (ai_generated_steps payload ss) \<Longrightarrow> step_id s = ''process'' \<Longrightarrow>
   step_status s = Success \<and> step_duration s = meta_duration payload"
  by (auto simp add: ai_generated_steps_def Let_def updateStep_def spread_def no_updates_def backend_step_def
      split: if_splits)

lemma ai_generated_steps_others:
  "filter (\<lambda>s. step_id s \<noteq> ''process'' \<and> step_id s \<noteq> ''backend'') (ai_generated_steps payload ss) =
   filter (\<lambda>s. step_id s \<noteq> ''process'' \<and> step_id s \<noteq> ''backend'') ss"
proof -
  have a: "\<And>xs u. upd_id u = None \<Longrightarrow> filter (\<lambda>s. step_id s \<noteq> ''process'' \<and> step_id s \<noteq> ''backend'') (updateStep xs ''process'' u)
      = filter (\<lambda>s. step_id s \<noteq> ''process'' \<and> step_id s \<noteq> ''backend'') xs"
    by (rule updateStep_other)
  have b: "\<And>xs u. upd_id u = None \<Longrightarrow> filter (\<lambda>s. step_id s \<noteq> ''process'' \<and> step_id s \<noteq> ''backend'') (updateStep xs ''backend'' u)
      = filter (\<lambda>s. step_id s \<noteq> ''process'' \<and> step_id s \<noteq> ''backend'') xs"
    using updateStep_other [where i = "''backend''" and P = "\<lambda>s. step_id s \<noteq> ''process''"]
    by (simp add: conj_commute)
  show ?thesis
    by (simp add: ai_generated_steps_def Let_def a b backend_step_def no_updates_def)
qed

lemma handleResponse_ai_generated_effects:
  "resp_status payload = ''ai_generated'' \<Longrightarrow>
   \<exists>S. (\<forall>e \<in> set S. is_step_effect e) \<and>
     new_effects w (handleResponse payload w) =
       S @ emit_effects (listeners (client w) E_response) (Ev_response payload)"
proof -
  assume a: "resp_status payload = ''ai_generated''"
  from handleResponse_ai_generated_trace [OF a, of w]
  obtain c1 c2 where tr: "trace (handleResponse payload w) =
       trace w @ step_effects ''process''
          (no_updates\<lparr>upd_status := Some Success, upd_duration := Some (meta_duration payload)\<rparr>) c1 @
       step_effects ''backend''
          (no_updates\<lparr>upd_status := Some Pending, upd_name := Some ''Waiting for backend callback...''\<rparr>) c2 @
       emit_effects (listeners (client w) E_response) (Ev_response payload)"
    by blast
  let ?S = "step_effects ''process''
          (no_updates\<lparr>upd_status := Some Success, upd_duration := Some (meta_duration payload)\<rparr>) c1 @
       step_effects ''backend''
          (no_updates\<lparr>upd_status := Some Pending, upd_name := Some ''Waiting for backend callback...''\<rparr>) c2"
  have s: "\<forall>e \<in> set ?S. is_step_effect e"
    by (auto dest: step_effects_is_step)
  have "new_effects w (handleResponse payload w) =
       ?S @ emit_effects (listeners (client w) E_response) (Ev_response payload)"
    by (simp add: new_effects_append [OF tr])
  with s show ?thesis by blast
qed

lemma updateStep_id_set: "upd_id u = None \<Longrightarrow> step_id ` set (updateStep ss i u) = step_id ` set ss"
  using updateStep_ids [of u ss i] by (metis set_map)

lemma step_effect_is_listener_effect: "is_step_effect e \<Longrightarrow> is_listener_effect e"
  by (cases e) simp_all

text \<open>
  Claim C3, as amended. When \<open>handleResponse\<close> processes a payload with status
  \<open>ai_generated\<close>: the payload is the latest response; a \<open>backend\<close> step exists
  afterwards (appended at the end when there was none, the list of ids being the
  same otherwise), and every \<open>backend\<close> step has the status \<open>pending\<close> and the label
  \<open>Waiting for backend callback...\<close>: the code writes \<open>pending\<close>, not an in-progress
  status. The \<open>process\<close> step is marked success, and every other step is as before.
  Every \<open>response\<close> listener is called once with the payload, in registration
  order. Nothing else changes: what the call adds to the trace is emissions of
  \<open>step\<close> events followed by the emission of \<open>response\<close> (no storage write, no
  channel leave, no socket close), the client differs from the old one in \<open>steps\<close>
  and \<open>response\<close> only, so the completed flag keeps its value, and the storage, the
  socket, the channel, the heartbeat and the phase are the same.
\<close>

theorem ai_generated_keeps_session_open:
  fixes payload :: AIResponse and w :: "ModelRiverClient world"
  assumes "resp_status payload = ''ai_generated''"
  defines "w' \<equiv> handleResponse payload w"
  shows "response (client w') = Some payload \<and>
         hasBackendStep w' \<and>
         (\<not> hasBackendStep w \<longrightarrow>
            map step_id (steps (client w')) = map step_id (steps (client w)) @ [''backend'']) \<and>
         (hasBackendStep w \<longrightarrow> map step_id (steps (client w')) = map step_id (steps (client w))) \<and>
         (\<forall>s \<in> set (steps (client w')). step_id s = ''backend'' \<longrightarrow>
            step_status s = Pending \<and> step_name s = ''Waiting for backend callback...'') \<and>
         (\<forall>s \<in> set (steps (client w')). step_id s = ''process'' \<longrightarrow> step_status s = Success) \<and>
         filter (\<lambda>s. step_id s \<noteq> ''process'' \<and> step_id s \<noteq> ''backend'') (steps (client w')) =
           filter (\<lambda>s. step_id s \<noteq> ''process'' \<and> step_id s \<noteq> ''backend'') (steps (client w)) \<and>
         Emitted (Ev_response payload) \<in> set (new_effects w w') \<and>
         calls_of (Ev_response payload) (new_effects w w') = map lid (listeners (client w) E_response) \<and>
         (\<exists>S. (\<forall>e \<in> set S. is_step_effect e) \<and>
            new_effects w w' = S @ emit_effects (listeners (client w) E_response) (Ev_response payload)) \<and>
         (\<forall>e \<in> set (new_effects w w'). is_listener_effect e) \<and>
         client w' = (client w)\<lparr>steps := steps (client w'), response := Some payload\<rparr> \<and>
         isCompleted (client w') = isCompleted (client w) \<and>
         localStorage w' = localStorage w \<and>
         socket (client w') = socket (client w) \<and>
         channel (client w') = channel (client w) \<and>
         heartbeatTimer (client w') = heartbeatTimer (client w) \<and>
         connectionState (client w') = connectionState (client w)"
proof -
  note cl = handleResponse_ai_generated_client [OF assms(1), of w, folded w'_def]
  note st = handleResponse_ai_generated_storage [OF assms(1), of w, folded w'_def]
  from handleResponse_ai_generated_effects [OF assms(1), of w, folded w'_def]
  obtain S where S: "\<forall>e \<in> set S. is_step_effect e"
    and ne: "new_effects w w' = S @ emit_effects (listeners (client w) E_response) (Ev_response payload)"
    by blast
  have ty: "event_type (Ev_response payload) \<noteq> E_step" by simp
  have a: "response (client w') = Some payload" by (simp add: cl)
  have b: "hasBackendStep w'"
    by (simp add: hasBackendStep_def cl ai_generated_steps_has_backend)
  have b1: "\<not> hasBackendStep w \<longrightarrow>
            map step_id (steps (client w')) = map step_id (steps (client w)) @ [''backend'']"
    by (simp add: cl hasBackendStep_def ai_generated_steps_def Let_def list_ex_step_id no_updates_def
        backend_step_def updateStep_id_set)
  have b2: "hasBackendStep w \<longrightarrow> map step_id (steps (client w')) = map step_id (steps (client w))"
    by (simp add: cl hasBackendStep_def ai_generated_steps_def Let_def list_ex_step_id no_updates_def
        backend_step_def updateStep_id_set)
  have c: "\<forall>s \<in> set (steps (client w')). step_id s = ''backend'' \<longrightarrow>
            step_status s = Pending \<and> step_name s = ''Waiting for backend callback...''"
    using ai_generated_steps_backend by (simp add: cl)
  have d: "\<forall>s \<in> set (steps (client w')). step_id s = ''process'' \<longrightarrow> step_status s = Success"
    using ai_generated_steps_process by (simp add: cl)
  have e: "filter (\<lambda>s. step_id s \<noteq> ''process'' \<and> step_id s \<noteq> ''backend'') (steps (client w')) =
           filter (\<lambda>s. step_id s \<noteq> ''process'' \<and> step_id s \<noteq> ''backend'') (steps (client w))"
    by (simp add: cl ai_generated_steps_others)
  have f: "Emitted (Ev_response payload) \<in> set (new_effects w w')"
    by (simp add: ne)
  have f1: "calls_of (Ev_response payload) (new_effects w w') = map lid (listeners (client w) E_response)"
    by (simp add: ne calls_of_step_free [OF S ty])
  have f2: "\<exists>S. (\<forall>e \<in> set S. is_step_effect e) \<and>
            new_effects w w' = S @ emit_effects (listeners (client w) E_response) (Ev_response payload)"
    using S ne by blast
  have g: "\<forall>e \<in> set (new_effects w w'). is_listener_effect e"
    using S by (auto simp add: ne dest: emit_effects_listener step_effect_is_listener_effect)
  have h: "client w' = (client w)\<lparr>steps := steps (client w'), response := Some payload\<rparr>"
    by (simp add: cl)
  have i: "isCompleted (client w') = isCompleted (client w) \<and>
         socket (client w') = socket (client w) \<and>
         channel (client w') = channel (client w) \<and>
         heartbeatTimer (client w') = heartbeatTimer (client w) \<and>
         connectionState (client w') = connectionState (client w)"
    by (simp add: cl)
  show ?thesis
    by (intro conjI a b b1 b2 c d e f f1 f2 g h i [THEN conjunct1] st
        i [THEN conjunct2, THEN conjunct1] i [THEN conjunct2, THEN conjunct2, THEN conjunct1]
        i [THEN conjunct2, THEN conjunct2, THEN conjunct2, THEN conjunct1]
        i [THEN conjunct2, THEN conjunct2, THEN conjunct2, THEN conjunct2])
qed

theorem ai_generated_keeps_session_open_witness:
  "resp_status (sample_payload ''ai_generated'') = ''ai_generated'' \<and>
   \<not> hasBackendStep sample_world \<and>
   response (client (handleResponse (sample_payload ''ai_generated'') sample_world)) =
     Some (sample_payload ''ai_generated'') \<and>
   map step_id (steps (client (handleResponse (sample_payload ''ai_generated'') sample_world))) =
     [''queue'', ''process'', ''receive'', ''complete'', ''backend''] \<and>
   calls_of (Ev_response (sample_payload ''ai_generated''))
     (new_effects sample_world (handleResponse (sample_payload ''ai_generated'') sample_world)) = [1, 2] \<and>
   isCompleted (client (handleResponse (sample_payload ''ai_generated'') sample_world)) = False \<and>
   items (localStorage (handleResponse (sample_payload ''ai_generated'') sample_world)) ''t_active_request'' =
     Some (Request sample_request) \<and>
   socket (client (handleResponse (sample_payload ''ai_generated'') sample_world)) =
     Some (Socket ''wss://api.modelriver.com/socket'' ''tok-1'') \<and>
   hasBackendStep (handleResponse (sample_payload ''ai_generated'') sample_world) \<and>
   map step_id (steps (client (handleResponse (sample_payload ''ai_generated'')
      (handleResponse (sample_payload ''ai_generated'') sample_world)))) =
     [''queue'', ''process'', ''receive'', ''complete'', ''backend''] \<and>
   isCompleted (client (handleResponse (sample_payload ''completed'')
      (handleResponse (sample_payload ''ai_generated'') sample_world)))"
  using ai_generated_keeps_session_open [of "sample_payload ''ai_generated''" sample_world]
  by (simp add: sample_payload_def sample_world_def sample_client_def sample_storage_def
      sample_listeners_def
      new_ModelRiverClient_def nullish_def handleResponse_def Let_def prim createInitialSteps_def
      hasBackendStep_def updateStep_def spread_def no_updates_def updates_status_def)

text \<open>
  The claim as stated fails on the sample session: after the \<open>ai_generated\<close> payload
  the \<open>backend\<close> step has the status \<open>pending\<close>, the status of the steps \<open>receive\<close> and
  \<open>complete\<close> that have not started; only its label says that it is waiting.
\<close>

theorem backend_step_pending_counterexample:
  "resp_status (sample_payload ''ai_generated'') = ''ai_generated'' \<and>
   map step_id (steps (client (handleResponse (sample_payload ''ai_generated'') sample_world))) =
     [''queue'', ''process'', ''receive'', ''complete'', ''backend''] \<and>
   map step_status (steps (client (handleResponse (sample_payload ''ai_generated'') sample_world))) =
     [Pending, Success, Pending, Pending, Pending] \<and>
   step_status (last (steps (client (handleResponse (sample_payload ''ai_generated'') sample_world)))) \<noteq> Loading"
  by (simp add: sample_payload_def sample_world_def sample_client_def sample_storage_def
      new_ModelRiverClient_def nullish_def handleResponse_def Let_def prim createInitialSteps_def
      hasBackendStep_def updateStep_def spread_def no_updates_def updates_status_def)

section \<open>Platform functions used by the JWT client\<close>

text \<open>
  \<open>atob\<close> and \<open>JSON.parse\<close> are functions of the browser, not of the repository.
  They are modelled on strings of 8-bit characters, which is what \<open>atob\<close> returns;
  \<open>atob\<close> follows the forgiving-base64 decoding of the HTML standard and
  \<open>JSON.parse\<close> the JSON grammar. A result the model cannot represent is
  \<open>Unsupported\<close>, never a wrong value: a \<open>\u\<close> escape above \<open>00FF\<close>, or the fuel of the
  recursive descent running out.
\<close>

subsection \<open>Numbers\<close>

text \<open>
  A number literal denotes a rational, and \<open>JSON.parse\<close> returns the double nearest
  to it (round to nearest, ties to even), or an infinity when the literal is too
  large. A \<open>number\<close> is such a result: a rational that is a double, or an infinity.
  The sign of zero is not kept: no function modelled here tells \<open>-0\<close> from \<open>0\<close>.
\<close>

datatype number = Finite rat | PosInfinity | NegInfinity

definition pow2 :: "int \<Rightarrow> rat" where
  "pow2 k = (if 0 \<le> k then 2 ^ nat k else 1 / 2 ^ nat (- k))"

text \<open>The number of binary digits of a positive integer.\<close>

function bit_length :: "int \<Rightarrow> int" where
  "bit_length n = (if n \<le> 0 then 0 else 1 + bit_length (n div 2))"
  by pat_completeness auto

termination bit_length
  by (relation "measure nat") auto

declare bit_length.simps [simp del]

text \<open>
  The binary exponent \<open>e\<close> of a positive rational \<open>x\<close>, with \<open>2\<^sup>e \<le> x < 2\<^sup>e\<^sup>+\<^sup>1\<close>: the
  difference of the bit lengths of numerator and denominator, or one less.
\<close>

definition binary_exponent :: "rat \<Rightarrow> int" where
  "binary_exponent x =
     (let e = bit_length (fst (quotient_of x)) - bit_length (snd (quotient_of x))
      in if pow2 e \<le> x then e else e - 1)"

definition round_half_even :: "rat \<Rightarrow> int" where
  "round_half_even x =
     (let f = \<lfloor>x\<rfloor>; d = x - of_int f
      in if d < 1 / 2 then f else if 1 / 2 < d then f + 1 else if even f then f else f + 1)"

text \<open>
  Rounding to a double: 53 significant bits, the exponent at least \<open>-1022\<close> (below
  it the spacing stays \<open>2\<^sup>-\<^sup>1\<^sup>0\<^sup>7\<^sup>4\<close>), and an infinity from \<open>2\<^sup>1\<^sup>0\<^sup>2\<^sup>4\<close> on.
\<close>

definition to_double :: "rat \<Rightarrow> number" where
  "to_double x =
     (if x = 0 then Finite 0
      else
        (let a = \<bar>x\<bar>;
             e = max (binary_exponent a) (- 1022);
             ulp = pow2 (e - 52);
             r = of_int (round_half_even (a / ulp)) * ulp
         in if pow2 1024 \<le> r then (if x < 0 then NegInfinity else PosInfinity)
            else Finite (if x < 0 then - r else r)))"

subsection \<open>\<open>JSON.parse\<close>\<close>

datatype json =
    JNull
  | JBool bool
  | JNumber number
  | JString string
  | JArray "json list"
  | JObject "(string \<times> json) list"

datatype 'a parsed = SyntaxError | Unsupported | Parsed 'a

definition is_ws :: "char \<Rightarrow> bool" where
  "is_ws c = (c = CHR '' '' \<or> c = CHR 0x09 \<or> c = CHR 0x0A \<or> c = CHR 0x0D)"

definition is_digit :: "char \<Rightarrow> bool" where
  "is_digit c = (48 \<le> (of_char c :: nat) \<and> (of_char c :: nat) \<le> 57)"

definition digit_val :: "char \<Rightarrow> int" where
  "digit_val c = of_char c - 48"

definition digits_val :: "string \<Rightarrow> int" where
  "digits_val ds = foldl (\<lambda>a c. 10 * a + digit_val c) 0 ds"

definition hex_val :: "char \<Rightarrow> nat option" where
  "hex_val c =
     (if is_digit c then Some (of_char c - 48)
      else if 97 \<le> (of_char c :: nat) \<and> (of_char c :: nat) \<le> 102 then Some (of_char c - 87)
      else if 65 \<le> (of_char c :: nat) \<and> (of_char c :: nat) \<le> 70 then Some (of_char c - 55)
      else None)"

text \<open>The characters of a string literal after the opening quote, up to the closing one.\<close>

fun parse_string :: "string \<Rightarrow> string \<Rightarrow> (string \<times> string) parsed" where
  "parse_string [] acc = SyntaxError"
| "parse_string (c # r) acc =
     (if c = CHR 0x22 then Parsed (rev acc, r)
      else if c = CHR 0x5C then
        (case r of
           [] \<Rightarrow> SyntaxError
         | e # r' \<Rightarrow>
             if e = CHR 0x22 \<or> e = CHR 0x5C \<or> e = CHR ''/'' then parse_string r' (e # acc)
             else if e = CHR ''b'' then parse_string r' (CHR 0x08 # acc)
             else if e = CHR ''f'' then parse_string r' (CHR 0x0C # acc)
             else if e = CHR ''n'' then parse_string r' (CHR 0x0A # acc)
             else if e = CHR ''r'' then parse_string r' (CHR 0x0D # acc)
             else if e = CHR ''t'' then parse_string r' (CHR 0x09 # acc)
             else if e = CHR ''u'' then
               (case r' of
                  h1 # h2 # h3 # h4 # r'' \<Rightarrow>
                    (case (hex_val h1, hex_val h2, hex_val h3, hex_val h4) of
                       (Some a, Some b, Some c', Some d) \<Rightarrow>
                         if a = 0 \<and> b = 0 then parse_string r'' (char_of (16 * c' + d) # acc)
                         else Unsupported
                     | _ \<Rightarrow> SyntaxError)
                | _ \<Rightarrow> SyntaxError)
             else SyntaxError)
      else if of_char c < (32 :: nat) then SyntaxError
      else parse_string r (c # acc))"

text \<open>
  A number literal \<open>-? (0 | [1-9][0-9]*) (. [0-9]+)? ([eE] [+-]? [0-9]+)?\<close> and the
  rational it denotes.
\<close>

definition parse_number :: "string \<Rightarrow> (rat \<times> string) parsed" where
  "parse_number s =
     (let neg = (s \<noteq> [] \<and> hd s = CHR ''-'');
          s1 = (if neg then tl s else s);
          ds = takeWhile is_digit s1
      in if ds = [] then SyntaxError
         else
           (let ip = (if hd ds = CHR ''0'' then [CHR ''0''] else ds);
                s2 = drop (length ip) s1;
                hasFrac = (s2 \<noteq> [] \<and> hd s2 = CHR ''.'');
                fd = (if hasFrac then takeWhile is_digit (tl s2) else []);
                s3 = (if hasFrac then drop (length fd) (tl s2) else s2);
                hasExp = (s3 \<noteq> [] \<and> (hd s3 = CHR ''e'' \<or> hd s3 = CHR ''E''));
                s4 = (if hasExp then tl s3 else s3);
                eneg = (hasExp \<and> s4 \<noteq> [] \<and> hd s4 = CHR ''-'');
                s5 = (if hasExp \<and> s4 \<noteq> [] \<and> (hd s4 = CHR ''-'' \<or> hd s4 = CHR ''+'') then tl s4 else s4);
                ed = (if hasExp then takeWhile is_digit s5 else []);
                s6 = drop (length ed) s5;
                mant = (of_int (digits_val ip) :: rat) + of_int (digits_val fd) / 10 ^ length fd;
                scaled = (if eneg then mant / 10 ^ nat (digits_val ed) else mant * 10 ^ nat (digits_val ed))
            in if hasFrac \<and> fd = [] then SyntaxError
               else if hasExp \<and> ed = [] then SyntaxError
               else Parsed (if neg then - scaled else scaled, s6)))"

definition skip_ws :: "string \<Rightarrow> string" where
  "skip_ws s = dropWhile is_ws s"

text \<open>
  The recursive descent. The first argument is fuel, one unit for each value,
  element and member; \<open>JSON_parse\<close> starts with more units than the text has
  characters, and running out of fuel is \<open>Unsupported\<close>.
\<close>

fun parse_value :: "nat \<Rightarrow> string \<Rightarrow> (json \<times> string) parsed"
  and parse_elements :: "nat \<Rightarrow> string \<Rightarrow> json list \<Rightarrow> (json \<times> string) parsed"
  and parse_members :: "nat \<Rightarrow> string \<Rightarrow> (string \<times> json) list \<Rightarrow> (json \<times> string) parsed" where
  "parse_value 0 s = Unsupported"
| "parse_value (Suc n) [] = SyntaxError"
| "parse_value (Suc n) (c # r) =
     (if c = CHR ''{'' then
        (case skip_ws r of
           [] \<Rightarrow> SyntaxError
         | c' # r' \<Rightarrow> if c' = CHR ''}'' then Parsed (JObject [], r') else parse_members n (c' # r') [])
      else if c = CHR ''['' then
        (case skip_ws r of
           [] \<Rightarrow> SyntaxError
         | c' # r' \<Rightarrow> if c' = CHR '']'' then Parsed (JArray [], r') else parse_elements n (c' # r') [])
      else if c = CHR 0x22 then
        (case parse_string r [] of
           Parsed (str, r') \<Rightarrow> Parsed (JString str, r')
         | SyntaxError \<Rightarrow> SyntaxError
         | Unsupported \<Rightarrow> Unsupported)
      else if take 4 (c # r) = ''true'' then Parsed (JBool True, drop 4 (c # r))
      else if take 5 (c # r) = ''false'' then Parsed (JBool False, drop 5 (c # r))
      else if take 4 (c # r) = ''null'' then Parsed (JNull, drop 4 (c # r))
      else if c = CHR ''-'' \<or> is_digit c then
        (case parse_number (c # r) of
           Parsed (x, r') \<Rightarrow> Parsed (JNumber (to_double x), r')
         | SyntaxError \<Rightarrow> SyntaxError
         | Unsupported \<Rightarrow> Unsupported)
      else SyntaxError)"
| "parse_elements 0 s acc = Unsupported"
| "parse_elements (Suc n) s acc =
     (case parse_value n s of
        Parsed (v, r) \<Rightarrow>
          (case skip_ws r of
             [] \<Rightarrow> SyntaxError
           | c # r' \<Rightarrow>
               if c = CHR '','' then parse_elements n (skip_ws r') (acc @ [v])
               else if c = CHR '']'' then Parsed (JArray (acc @ [v]), r')
               else SyntaxError)
      | SyntaxError \<Rightarrow> SyntaxError
      | Unsupported \<Rightarrow> Unsupported)"
| "parse_members 0 s acc = Unsupported"
| "parse_members (Suc n) s acc =
     (case s of
        [] \<Rightarrow> SyntaxError
      | q # r0 \<Rightarrow>
          if q \<noteq> CHR 0x22 then SyntaxError
          else
            (case parse_string r0 [] of
               SyntaxError \<Rightarrow> SyntaxError
             | Unsupported \<Rightarrow> Unsupported
             | Parsed (k, r1) \<Rightarrow>
                 (case skip_ws r1 of
                    [] \<Rightarrow> SyntaxError
                  | c # r2 \<Rightarrow>
                      if c \<noteq> CHR '':'' then SyntaxError
                      else
                        (case parse_value n (skip_ws r2) of
                           SyntaxError \<Rightarrow> SyntaxError
                         | Unsupported \<Rightarrow> Unsupported
                         | Parsed (v, r3) \<Rightarrow>
                             (case skip_ws r3 of
                                [] \<Rightarrow> SyntaxError
                              | c' # r4 \<Rightarrow>
                                  if c' = CHR '','' then parse_members n (skip_ws r4) (acc @ [(k, v)])
                                  else if c' = CHR ''}'' then Parsed (JObject (acc @ [(k, v)]), r4)
                                  else SyntaxError)))))"

definition JSON_parse :: "string \<Rightarrow> json parsed" where
  "JSON_parse s =
     (case parse_value (Suc (length s)) (skip_ws s) of
        Parsed (v, r) \<Rightarrow> if skip_ws r = [] then Parsed v else SyntaxError
      | SyntaxError \<Rightarrow> SyntaxError
      | Unsupported \<Rightarrow> Unsupported)"

subsection \<open>\<open>atob\<close>\<close>

text \<open>
  \<open>atob\<close>: ASCII whitespace is removed; when the length is a multiple of four, one
  or two trailing \<open>=\<close> are removed; a length of 1 modulo 4, or a character outside
  the base64 alphabet, is a failure; the sextets are decoded and the incomplete
  bits at the end are dropped.
\<close>

definition b64_val :: "char \<Rightarrow> nat option" where
  "b64_val c =
     (let n = (of_char c :: nat)
      in if 65 \<le> n \<and> n \<le> 90 then Some (n - 65)
         else if 97 \<le> n \<and> n \<le> 122 then Some (n - 71)
         else if 48 \<le> n \<and> n \<le> 57 then Some (n + 4)
         else if c = CHR ''+'' then Some 62
         else if c = CHR ''/'' then Some 63
         else None)"

fun decode_sextets :: "nat list \<Rightarrow> string" where
  "decode_sextets (a # b # c # d # r) =
     char_of (a * 4 + b div 16) # char_of ((b mod 16) * 16 + c div 4) # char_of ((c mod 4) * 64 + d) #
     decode_sextets r"
| "decode_sextets [a, b, c] = [char_of (a * 4 + b div 16), char_of ((b mod 16) * 16 + c div 4)]"
| "decode_sextets [a, b] = [char_of (a * 4 + b div 16)]"
| "decode_sextets _ = []"

definition is_ascii_ws :: "char \<Rightarrow> bool" where
  "is_ascii_ws c = (c = CHR '' '' \<or> c = CHR 0x09 \<or> c = CHR 0x0A \<or> c = CHR 0x0C \<or> c = CHR 0x0D)"

definition strip_padding :: "string \<Rightarrow> string" where
  "strip_padding s =
     (if length s mod 4 = 0 \<and> s \<noteq> [] \<and> last s = CHR ''=''
      then (if butlast s \<noteq> [] \<and> last (butlast s) = CHR ''='' then butlast (butlast s) else butlast s)
      else s)"

definition atob :: "string \<Rightarrow> string option" where
  "atob s =
     (let d = strip_padding (filter (\<lambda>c. \<not> is_ascii_ws c) s)
      in if length d mod 4 = 1 then None
         else if list_ex (\<lambda>c. b64_val c = None) d then None
         else Some (decode_sextets (map (\<lambda>c. the (b64_val c)) d)))"

section \<open>utils.ts: the credential\<close>

text \<open>
  The object \<open>decodeToken\<close> returns. \<open>types.ts\<close> declares \<open>project_id\<close>,
  \<open>channel_id\<close> and \<open>topic\<close> as strings and \<open>exp\<close> as an optional number, but
  \<open>decodeToken\<close> copies the fields of the parsed object unchecked. The two ids go
  into the topic template and into \<open>saveActiveRequest\<close>, and the model keeps them
  strings: a token whose \<open>project_id\<close> or \<open>channel_id\<close> is truthy but not a string is
  outside the model (\<open>Untyped\<close>), as is a text the JSON model does not support.
  \<open>topic\<close> and \<open>exp\<close> are held as parsed, whatever their type.
\<close>

record TokenPayload =
  project_id :: string
  channel_id :: string
  topic :: json
  tp_exp :: "json option"

datatype decoded = Throws string | Returns TokenPayload | Untyped

definition base64UrlDecode :: "string \<Rightarrow> string option" where
  "base64UrlDecode str =
     (let base64 = map (\<lambda>c. if c = CHR ''-'' then CHR ''+'' else if c = CHR ''_'' then CHR ''/'' else c) str;
          padding = length base64 mod 4;
          padded = (if padding \<noteq> 0 then base64 @ replicate (4 - padding) CHR ''='' else base64)
      in atob padded)"

text \<open>\<open>token.split('.')\<close>.\<close>

fun split_dot :: "string \<Rightarrow> string list" where
  "split_dot [] = [[]]"
| "split_dot (c # r) =
     (if c = CHR ''.'' then [] # split_dot r
      else (case split_dot r of p # ps \<Rightarrow> (c # p) # ps | [] \<Rightarrow> [[c]]))"

text \<open>Property access on a parsed value: the last binding of a key wins; \<open>None\<close> is \<open>undefined\<close>.\<close>

definition get_prop :: "json \<Rightarrow> string \<Rightarrow> json option" where
  "get_prop v k = (case v of JObject kvs \<Rightarrow> map_of (rev kvs) k | _ \<Rightarrow> None)"

fun truthy :: "json option \<Rightarrow> bool" where
  "truthy None = False"
| "truthy (Some JNull) = False"
| "truthy (Some (JBool b)) = b"
| "truthy (Some (JNumber x)) = (x \<noteq> Finite 0)"
| "truthy (Some (JString s)) = (s \<noteq> [])"
| "truthy (Some (JArray _)) = True"
| "truthy (Some (JObject _)) = True"

text \<open>\<open>payload.topic || `ai_response:${payload.project_id}:${payload.channel_id}`\<close>.\<close>

definition topic_of :: "json option \<Rightarrow> string \<Rightarrow> string \<Rightarrow> json" where
  "topic_of tp pid cid =
     (case tp of
        Some v \<Rightarrow> if truthy (Some v) then v else JString (''ai_response:'' @ pid @ '':'' @ cid)
      | None \<Rightarrow> JString (''ai_response:'' @ pid @ '':'' @ cid))"

text \<open>
  \<open>decodeToken\<close>. A property access on \<open>null\<close> throws inside the \<open>try\<close>, which
  turns it into \<open>failed to decode payload\<close>; on any other value that is no object
  it yields \<open>undefined\<close>.
\<close>

definition decodeToken :: "string \<Rightarrow> decoded" where
  "decodeToken tok =
     (if tok = [] then Throws ''Invalid token: token must be a non-empty string''
      else
        (let parts = split_dot tok
         in if length parts \<noteq> 3 then Throws ''Invalid token: JWT must have 3 parts''
            else
              (case base64UrlDecode (parts ! 1) of
                 None \<Rightarrow> Throws ''Invalid token: failed to decode payload''
               | Some text \<Rightarrow>
                   (case JSON_parse text of
                      SyntaxError \<Rightarrow> Throws ''Invalid token: failed to decode payload''
                    | Unsupported \<Rightarrow> Untyped
                    | Parsed payload \<Rightarrow>
                        if payload = JNull then Throws ''Invalid token: failed to decode payload''
                        else if \<not> truthy (get_prop payload ''project_id'') \<or>
                                \<not> truthy (get_prop payload ''channel_id'')
                        then Throws ''Invalid token: missing required fields (project_id, channel_id)''
                        else
                          (case (get_prop payload ''project_id'', get_prop payload ''channel_id'') of
                             (Some (JString pid), Some (JString cid)) \<Rightarrow>
                               Returns
                                 \<lparr>project_id = pid, channel_id = cid,
                                  topic = topic_of (get_prop payload ''topic'') pid cid,
                                  tp_exp = get_prop payload ''exp''\<rparr>
                           | _ \<Rightarrow> Untyped)))))"

text \<open>
  \<open>isTokenExpired\<close>: \<open>Date.now() >= payload.exp * 1000\<close> when \<open>exp\<close> is truthy.
  The product is a double again; \<open>Date.now()\<close> is an integer. \<open>true\<close> counts as 1 and
  an object as \<open>NaN\<close>, with which every comparison is false. The conversion of a
  string or an array to a number is not modelled: the result is \<open>None\<close> then.
\<close>

definition times_1000 :: "number \<Rightarrow> number" where
  "times_1000 n = (case n of Finite d \<Rightarrow> to_double (d * 1000) | PosInfinity \<Rightarrow> PosInfinity
                   | NegInfinity \<Rightarrow> NegInfinity)"

definition at_least :: "int \<Rightarrow> number \<Rightarrow> bool" where
  "at_least now n = (case n of Finite r \<Rightarrow> r \<le> of_int now | PosInfinity \<Rightarrow> False
                     | NegInfinity \<Rightarrow> True)"

definition isTokenExpired :: "int \<Rightarrow> TokenPayload \<Rightarrow> bool option" where
  "isTokenExpired now payload =
     (if \<not> truthy (tp_exp payload) then Some False
      else
        (case tp_exp payload of
           Some (JNumber n) \<Rightarrow> Some (at_least now (times_1000 n))
         | Some (JBool _) \<Rightarrow> Some (at_least now (Finite 1000))
         | Some (JObject _) \<Rightarrow> Some False
         | _ \<Rightarrow> None))"

section \<open>Decoding a credential (claim C9)\<close>

text \<open>
  Two credentials in the shape the tests build (\<open>header.payload.signature\<close>, each
  part base64url without padding). The payload of \<open>sample_token\<close> is the JSON
  object with \<open>project_id\<close> \<open>proj-123\<close> and \<open>channel_id\<close> \<open>chan-456\<close>; the payload of
  \<open>empty_id_token\<close> has the empty string as \<open>project_id\<close>.
\<close>

definition sample_token :: string where
  "sample_token = ''eyJhbGciOiJIUzI1NiIsInR5cCI6IkpXVCJ9.eyJwcm9qZWN0X2lkIjoicHJvai0xMjMiLCJjaGFubmVsX2lkIjoiY2hhbi00NTYifQ.sig''"

definition empty_id_token :: string where
  "empty_id_token = ''eyJhbGciOiJIUzI1NiIsInR5cCI6IkpXVCJ9.eyJwcm9qZWN0X2lkIjoiIiwiY2hhbm5lbF9pZCI6ImNoYW4tNDU2In0.sig''"





text \<open>
  The claim as stated fails on \<open>empty_id_token\<close>: it has three segments, its middle
  segment decodes to an object that contains both routing fields, and
  \<open>decodeToken\<close> throws.
\<close>

theorem decodeToken_empty_id_counterexample:
  "split_dot empty_id_token =
     [''eyJhbGciOiJIUzI1NiIsInR5cCI6IkpXVCJ9'',
      ''eyJwcm9qZWN0X2lkIjoiIiwiY2hhbm5lbF9pZCI6ImNoYW4tNDU2In0'', ''sig''] \<and>
   JSON_parse (the (base64UrlDecode ''eyJwcm9qZWN0X2lkIjoiIiwiY2hhbm5lbF9pZCI6ImNoYW4tNDU2In0'')) =
     Parsed (JObject [(''project_id'', JString []), (''channel_id'', JString ''chan-456'')]) \<and>
   decodeToken empty_id_token =
     Throws ''Invalid token: missing required fields (project_id, channel_id)''"
  by code_simp

section \<open>The JWT client\<close>

text \<open>
  The second version of the class. Its fields and methods carry the suffix or
  prefix \<open>jwt\<close>. It has no \<open>isCompleted\<close> flag and no \<open>apiBaseUrl\<close> option (the
  field of \<open>Options\<close> is unused here); it keeps the decoded token instead of the
  channel name.
\<close>

record ModelRiverClientJWT =
  jwt_options :: Options
  jwt_socket :: "Socket option"
  jwt_channel :: "Channel option"
  jwt_heartbeatTimer :: "int option"
  jwt_connectionState :: ConnectionState
  jwt_steps :: "WorkflowStep list"
  jwt_response :: "AIResponse option"
  jwt_error :: "string option"
  jwt_currentToken :: "TokenPayload option"
  jwt_currentWsToken :: "string option"
  jwt_isConnecting :: bool
  jwt_listeners :: "ModelRiverEventType \<Rightarrow> listener list"

record ModelRiverStateJWT =
  jst_connectionState :: ConnectionState
  jst_isConnected :: bool
  jst_isConnecting :: bool
  jst_steps :: "WorkflowStep list"
  jst_response :: "AIResponse option"
  jst_error :: "string option"
  jst_hasPendingRequest :: bool

definition new_ModelRiverClient_jwt :: "ModelRiverClientOptions \<Rightarrow> ModelRiverClientJWT" where
  "new_ModelRiverClient_jwt opts =
     \<lparr>jwt_options = \<lparr>baseUrl = nullish (in_baseUrl opts) DEFAULT_BASE_URL,
                      debug = nullish (in_debug opts) False,
                      persist = nullish (in_persist opts) True,
                      storageKeyPrefix = nullish (in_storageKeyPrefix opts) DEFAULT_STORAGE_KEY_PREFIX,
                      heartbeatInterval = nullish (in_heartbeatInterval opts) DEFAULT_HEARTBEAT_INTERVAL,
                      requestTimeout = nullish (in_requestTimeout opts) DEFAULT_REQUEST_TIMEOUT,
                      apiBaseUrl = []\<rparr>,
      jwt_socket = None, jwt_channel = None, jwt_heartbeatTimer = None,
      jwt_connectionState = CS_disconnected, jwt_steps = [], jwt_response = None, jwt_error = None,
      jwt_currentToken = None, jwt_currentWsToken = None, jwt_isConnecting = False,
      jwt_listeners = (\<lambda>_. [])\<rparr>"

definition hasPendingRequest_jwt :: "int \<Rightarrow> ModelRiverClientJWT world \<Rightarrow> bool \<times> ModelRiverClientJWT world" where
  "hasPendingRequest_jwt now w =
     (if \<not> persist (jwt_options (client w)) then (False, w)
      else (case getActiveRequest now (storageKeyPrefix (jwt_options (client w))) w of
              (request, w1) \<Rightarrow> (request \<noteq> None, w1)))"

definition getState_jwt :: "int \<Rightarrow> ModelRiverClientJWT world \<Rightarrow> ModelRiverStateJWT \<times> ModelRiverClientJWT world" where
  "getState_jwt now w =
     (case hasPendingRequest_jwt now w of
        (pending, w1) \<Rightarrow>
          (\<lparr>jst_connectionState = jwt_connectionState (client w),
            jst_isConnected = (jwt_connectionState (client w) = CS_connected),
            jst_isConnecting = jwt_isConnecting (client w),
            jst_steps = jwt_steps (client w),
            jst_response = jwt_response (client w),
            jst_error = jwt_error (client w),
            jst_hasPendingRequest = pending\<rparr>, w1))"

definition emit_jwt :: "event \<Rightarrow> ModelRiverClientJWT world \<Rightarrow> ModelRiverClientJWT world" where
  "emit_jwt ev w = w\<lparr>trace := fst (emit_listeners (jwt_listeners (client w) (event_type ev)) ev (trace w))\<rparr>"

definition on_jwt :: "ModelRiverEventType \<Rightarrow> listener \<Rightarrow> ModelRiverClientJWT world \<Rightarrow> ModelRiverClientJWT world" where
  "on_jwt ty cb w =
     (let ls = jwt_listeners (client w) ty
      in if lid cb \<in> set (map lid ls) then w
         else w\<lparr>client := (client w)\<lparr>jwt_listeners := (jwt_listeners (client w))(ty := ls @ [cb])\<rparr>\<rparr>)"

definition off_jwt :: "ModelRiverEventType \<Rightarrow> listener \<Rightarrow> ModelRiverClientJWT world \<Rightarrow> ModelRiverClientJWT world" where
  "off_jwt ty cb w =
     w\<lparr>client := (client w)\<lparr>jwt_listeners :=
        (jwt_listeners (client w))(ty := filter (\<lambda>l. lid l \<noteq> lid cb) (jwt_listeners (client w) ty))\<rparr>\<rparr>"

definition updateStepAndEmit_jwt ::
  "string \<Rightarrow> StepUpdates \<Rightarrow> ModelRiverClientJWT world \<Rightarrow> ModelRiverClientJWT world" where
  "updateStepAndEmit_jwt i updates w =
     (let w1 = w\<lparr>client := (client w)\<lparr>jwt_steps := updateStep (jwt_steps (client w)) i updates\<rparr>\<rparr>
      in case find (\<lambda>s. step_id s = i) (jwt_steps (client w1)) of
           Some step \<Rightarrow> emit_jwt (Ev_step step) w1
         | None \<Rightarrow> w1)"

definition setError_jwt :: "string \<Rightarrow> ModelRiverClientJWT world \<Rightarrow> ModelRiverClientJWT world" where
  "setError_jwt msg w = w\<lparr>client := (client w)\<lparr>jwt_error := Some msg\<rparr>\<rparr>"

definition stopHeartbeat_jwt :: "ModelRiverClientJWT world \<Rightarrow> ModelRiverClientJWT world" where
  "stopHeartbeat_jwt w =
     (case jwt_heartbeatTimer (client w) of
        None \<Rightarrow> w
      | Some _ \<Rightarrow> w\<lparr>client := (client w)\<lparr>jwt_heartbeatTimer := None\<rparr>, trace := trace w @ [ClearInterval]\<rparr>)"

definition startHeartbeat_jwt :: "ModelRiverClientJWT world \<Rightarrow> ModelRiverClientJWT world" where
  "startHeartbeat_jwt w =
     (let w1 = stopHeartbeat_jwt w;
          period = heartbeatInterval (jwt_options (client w1))
      in w1\<lparr>client := (client w1)\<lparr>jwt_heartbeatTimer := Some period\<rparr>, trace := trace w1 @ [SetInterval period HeartbeatCallback]\<rparr>)"

definition heartbeat_tick_jwt :: "ModelRiverClientJWT world \<Rightarrow> ModelRiverClientJWT world" where
  "heartbeat_tick_jwt w =
     (case jwt_channel (client w) of
        None \<Rightarrow> w
      | Some _ \<Rightarrow> w\<lparr>trace := trace w @ [ChannelPush ''heartbeat'']\<rparr>)"

definition cleanupConnection_jwt :: "ModelRiverClientJWT world \<Rightarrow> ModelRiverClientJWT world" where
  "cleanupConnection_jwt w =
     (let w1 = stopHeartbeat_jwt w;
          w2 = (case jwt_channel (client w1) of
                  None \<Rightarrow> w1
                | Some _ \<Rightarrow> w1\<lparr>client := (client w1)\<lparr>jwt_channel := None\<rparr>, trace := trace w1 @ [ChannelLeave]\<rparr>);
          w3 = (case jwt_socket (client w2) of
                  None \<Rightarrow> w2
                | Some _ \<Rightarrow> w2\<lparr>client := (client w2)\<lparr>jwt_socket := None\<rparr>, trace := trace w2 @ [SocketDisconnect]\<rparr>)
      in w3\<lparr>client := (client w3)\<lparr>jwt_connectionState := CS_disconnected\<rparr>\<rparr>)"

text \<open>What a timer of this client runs when it fires.\<close>

fun run_timer_jwt :: "timer_callback \<Rightarrow> ModelRiverClientJWT world \<Rightarrow> ModelRiverClientJWT world" where
  "run_timer_jwt HeartbeatCallback w = heartbeat_tick_jwt w"
| "run_timer_jwt CleanupCallback w = cleanupConnection_jwt w"

text \<open>
  \<open>connect\<close> of the JWT version. The result is \<open>None\<close> exactly when the token is
  outside the model (\<open>decodeToken\<close> gives \<open>Untyped\<close>, or \<open>isTokenExpired\<close> gives
  \<open>None\<close>). The call
  \<open>saveActiveRequest(prefix, project_id, channel_id, wsToken)\<close> passes its
  arguments by position: the token lands in the parameter \<open>websocketUrl\<close>. The URL
  that \<open>buildWebSocketUrl\<close> computes is only logged; the socket is created on
  \<open>options.baseUrl\<close>.
\<close>

definition connect_jwt :: "int \<Rightarrow> string \<Rightarrow> ModelRiverClientJWT world \<Rightarrow> ModelRiverClientJWT world option" where
  "connect_jwt now tok w =
     (if jwt_isConnecting (client w) then Some w
      else
        (case decodeToken tok of
           Untyped \<Rightarrow> None
         | Throws errorMsg \<Rightarrow> Some (emit_jwt (Ev_error errorMsg) (setError_jwt errorMsg w))
         | Returns tokenPayload \<Rightarrow>
             (case isTokenExpired now tokenPayload of
                None \<Rightarrow> None
              | Some True \<Rightarrow>
                  Some (emit_jwt (Ev_error ''Token has expired'') (setError_jwt ''Token has expired'' w))
              | Some False \<Rightarrow>
                  (let w1 = w\<lparr>client := (client w)\<lparr>jwt_isConnecting := True,
                                jwt_currentToken := Some tokenPayload,
                                jwt_currentWsToken := Some tok\<rparr>\<rparr>;
                       w2 = emit_jwt Ev_connecting w1;
                       w3 = cleanupConnection_jwt w2;
                       w4 = w3\<lparr>client := (client w3)\<lparr>jwt_steps := createInitialSteps, jwt_error := None,
                                jwt_response := None\<rparr>\<rparr>;
                       w5 = (if persist (jwt_options (client w4))
                             then saveActiveRequest now (storageKeyPrefix (jwt_options (client w4)))
                                    (project_id tokenPayload) (channel_id tokenPayload) (Some tok) None w4
                             else w4);
                       w6 = updateStepAndEmit_jwt ''queue'' (updates_status Loading) w5
                   in Some (w6\<lparr>client := (client w6)\<lparr>jwt_socket :=
                                      Some (Socket (baseUrl (jwt_options (client w6))) tok)\<rparr>,
                                 trace := trace w6 @
                                   [SocketCreated (baseUrl (jwt_options (client w6))) tok, SocketConnect]\<rparr>)))))"

definition joinChannel_jwt :: "string \<Rightarrow> ModelRiverClientJWT world \<Rightarrow> ModelRiverClientJWT world" where
  "joinChannel_jwt tp w =
     (case jwt_socket (client w) of
        None \<Rightarrow> w
      | Some _ \<Rightarrow> w\<lparr>client := (client w)\<lparr>jwt_channel := Some (Channel tp)\<rparr>,
                      trace := trace w @ [ChannelCreated tp, ChannelJoin]\<rparr>)"

text \<open>The socket callbacks; \<open>onOpen\<close> joins the topic of the token its \<open>connect\<close> call decoded.\<close>

definition socket_onOpen_jwt :: "string \<Rightarrow> ModelRiverClientJWT world \<Rightarrow> ModelRiverClientJWT world" where
  "socket_onOpen_jwt tp w =
     (let w1 = w\<lparr>client := (client w)\<lparr>jwt_connectionState := CS_connected, jwt_isConnecting := False\<rparr>\<rparr>;
          w2 = emit_jwt Ev_connected w1
      in joinChannel_jwt tp w2)"

definition socket_onError_jwt :: "ModelRiverClientJWT world \<Rightarrow> ModelRiverClientJWT world" where
  "socket_onError_jwt w =
     (let w1 = w\<lparr>client := (client w)\<lparr>jwt_connectionState := CS_error, jwt_isConnecting := False\<rparr>,
                  trace := trace w @ [ConsoleError ''Socket error:'' []]\<rparr>;
          w2 = setError_jwt ''WebSocket connection error'' w1;
          w3 = updateStepAndEmit_jwt ''queue''
                 (no_updates\<lparr>upd_status := Some Error,
                             upd_errorMessage := Some (Some ''WebSocket connection error'')\<rparr>) w2
      in emit_jwt (Ev_error ''WebSocket connection error'') w3)"

definition socket_onClose_jwt :: "ModelRiverClientJWT world \<Rightarrow> ModelRiverClientJWT world" where
  "socket_onClose_jwt w =
     (let w1 = w\<lparr>client := (client w)\<lparr>jwt_connectionState := CS_disconnected, jwt_isConnecting := False\<rparr>\<rparr>;
          w2 = stopHeartbeat_jwt w1
      in emit_jwt (Ev_disconnected (Some ''Socket closed'')) w2)"

definition join_ok_jwt :: "ModelRiverClientJWT world \<Rightarrow> ModelRiverClientJWT world" where
  "join_ok_jwt w =
     (let w1 = updateStepAndEmit_jwt ''queue''
                 (no_updates\<lparr>upd_status := Some Success, upd_duration := Some (Some 100)\<rparr>) w;
          w2 = updateStepAndEmit_jwt ''process'' (updates_status Loading) w1;
          w3 = updateStepAndEmit_jwt ''receive'' (updates_status Loading) w2;
          w4 = emit_jwt Ev_channel_joined w3
      in startHeartbeat_jwt w4)"

definition join_error_jwt :: "string option \<Rightarrow> ModelRiverClientJWT world \<Rightarrow> ModelRiverClientJWT world" where
  "join_error_jwt r w =
     (let reason = or_else r ''unknown'';
          errorMsg = join_error_message reason;
          w1 = w\<lparr>trace := trace w @ [ConsoleError ''Channel join failed:'' reason]\<rparr>;
          w2 = setError_jwt errorMsg w1;
          w3 = updateStepAndEmit_jwt ''queue''
                 (no_updates\<lparr>upd_status := Some Error, upd_errorMessage := Some (Some errorMsg)\<rparr>) w2
      in emit_jwt (Ev_channel_error reason) w3)"

text \<open>
  \<open>handleResponse\<close> of the JWT version knows the success statuses only. It
  ends with \<open>setTimeout(() => { this.cleanupConnection(); }, 1000)\<close>: nothing is
  torn down in the call itself, the timer holds the function.
\<close>

definition handleResponse_jwt :: "AIResponse \<Rightarrow> ModelRiverClientJWT world \<Rightarrow> ModelRiverClientJWT world" where
  "handleResponse_jwt payload w =
     (let w4 =
        (if isSuccess payload then
           (let w1 = updateStepAndEmit_jwt ''process''
                       (no_updates\<lparr>upd_status := Some Success, upd_duration := Some (meta_duration payload)\<rparr>) w;
                w2 = updateStepAndEmit_jwt ''receive''
                       (no_updates\<lparr>upd_status := Some Success, upd_duration := Some (Some 50)\<rparr>) w1;
                w3 = updateStepAndEmit_jwt ''complete'' (updates_status Success) w2
            in w3\<lparr>client := (client w3)\<lparr>jwt_response := Some payload\<rparr>\<rparr>)
         else
           (let errorMsg = error_message_of payload;
                w1 = updateStepAndEmit_jwt ''process''
                       (no_updates\<lparr>upd_status := Some Error, upd_errorMessage := Some (Some errorMsg)\<rparr>) w;
                w2 = updateStepAndEmit_jwt ''receive'' (updates_status Error) w1;
                w3 = updateStepAndEmit_jwt ''complete'' (updates_status Error) w2
            in setError_jwt errorMsg w3));
          w5 = (if persist (jwt_options (client w4))
                then clearActiveRequest (storageKeyPrefix (jwt_options (client w4))) w4
                else w4);
          w6 = emit_jwt (Ev_response payload) w5
      in w6\<lparr>trace := trace w6 @ [SetTimeout 1000 CleanupCallback]\<rparr>)"

definition handleError_jwt :: "string \<Rightarrow> ModelRiverClientJWT world \<Rightarrow> ModelRiverClientJWT world" where
  "handleError_jwt errorMsg w =
     (let w1 = setError_jwt errorMsg w;
          w2 = updateStepAndEmit_jwt ''process''
                 (no_updates\<lparr>upd_status := Some Error, upd_errorMessage := Some (Some errorMsg)\<rparr>) w1;
          w3 = emit_jwt (Ev_error errorMsg) w2
      in if persist (jwt_options (client w3))
         then clearActiveRequest (storageKeyPrefix (jwt_options (client w3))) w3
         else w3)"

definition channel_on_error_jwt :: "string option \<Rightarrow> ModelRiverClientJWT world \<Rightarrow> ModelRiverClientJWT world" where
  "channel_on_error_jwt msg w =
     (let errorMsg = or_else msg ''An error occurred''
      in handleError_jwt errorMsg (w\<lparr>trace := trace w @ [ConsoleError ''Channel error:'' errorMsg]\<rparr>))"

definition disconnect_jwt :: "ModelRiverClientJWT world \<Rightarrow> ModelRiverClientJWT world" where
  "disconnect_jwt w =
     (let w1 = w\<lparr>client := (client w)\<lparr>jwt_isConnecting := False\<rparr>\<rparr>;
          w2 = cleanupConnection_jwt w1;
          w3 = (if persist (jwt_options (client w2))
                then clearActiveRequest (storageKeyPrefix (jwt_options (client w2))) w2
                else w2)
      in emit_jwt (Ev_disconnected (Some ''Manual disconnect'')) w3)"

definition reset_jwt :: "ModelRiverClientJWT world \<Rightarrow> ModelRiverClientJWT world" where
  "reset_jwt w =
     (let w1 = disconnect_jwt w
      in w1\<lparr>client := (client w1)\<lparr>jwt_steps := [], jwt_response := None, jwt_error := None,
               jwt_currentToken := None, jwt_currentWsToken := None\<rparr>\<rparr>)"

definition destroy_jwt :: "ModelRiverClientJWT world \<Rightarrow> ModelRiverClientJWT world" where
  "destroy_jwt w =
     (let w1 = reset_jwt w
      in w1\<lparr>client := (client w1)\<lparr>jwt_listeners := (\<lambda>_. [])\<rparr>\<rparr>)"

definition reconnect_jwt ::
  "int \<Rightarrow> ModelRiverClientJWT world \<Rightarrow> (bool \<times> ModelRiverClientJWT world) option" where
  "reconnect_jwt now w =
     (if \<not> persist (jwt_options (client w)) then Some (False, w)
      else
        (case getActiveRequest now (storageKeyPrefix (jwt_options (client w))) w of
           (None, w1) \<Rightarrow> Some (False, w1)
         | (Some activeRequest, w1) \<Rightarrow>
             (case connect_jwt now (ar_wsToken activeRequest) w1 of
                None \<Rightarrow> None
              | Some w2 \<Rightarrow> Some (True, w2))))"

section \<open>Field-wise effect of the primitives of the JWT client\<close>

lemma emit_jwt_client [prim]: "client (emit_jwt ev w) = client w"
  by (simp add: emit_jwt_def)

lemma emit_jwt_storage [prim]: "localStorage (emit_jwt ev w) = localStorage w"
  by (simp add: emit_jwt_def)

lemma emit_jwt_trace [prim]:
  "trace (emit_jwt ev w) = trace w @ emit_effects (jwt_listeners (client w) (event_type ev)) ev"
  by (simp add: emit_jwt_def emit_listeners_eq)

definition step_effects_jwt :: "string \<Rightarrow> StepUpdates \<Rightarrow> ModelRiverClientJWT \<Rightarrow> effect list" where
  "step_effects_jwt i u c =
     (case find (\<lambda>s. step_id s = i) (updateStep (jwt_steps c) i u) of
        Some step \<Rightarrow> emit_effects (jwt_listeners c E_step) (Ev_step step)
      | None \<Rightarrow> [])"

lemma updateStepAndEmit_jwt_client [prim]:
  "client (updateStepAndEmit_jwt i u w) = (client w)\<lparr>jwt_steps := updateStep (jwt_steps (client w)) i u\<rparr>"
  by (simp add: updateStepAndEmit_jwt_def Let_def emit_jwt_client split: option.splits)

lemma updateStepAndEmit_jwt_storage [prim]: "localStorage (updateStepAndEmit_jwt i u w) = localStorage w"
  by (simp add: updateStepAndEmit_jwt_def Let_def emit_jwt_storage split: option.splits)

lemma updateStepAndEmit_jwt_trace [prim]:
  "trace (updateStepAndEmit_jwt i u w) = trace w @ step_effects_jwt i u (client w)"
  by (simp add: updateStepAndEmit_jwt_def Let_def emit_jwt_trace step_effects_jwt_def split: option.splits)

lemma setError_jwt_client [prim]: "client (setError_jwt msg w) = (client w)\<lparr>jwt_error := Some msg\<rparr>"
  by (simp add: setError_jwt_def)

lemma setError_jwt_storage [prim]: "localStorage (setError_jwt msg w) = localStorage w"
  by (simp add: setError_jwt_def)

lemma setError_jwt_trace [prim]: "trace (setError_jwt msg w) = trace w"
  by (simp add: setError_jwt_def)

definition cleanup_effects_jwt :: "ModelRiverClientJWT \<Rightarrow> effect list" where
  "cleanup_effects_jwt c =
     (if jwt_heartbeatTimer c \<noteq> None then [ClearInterval] else []) @
     (if jwt_channel c \<noteq> None then [ChannelLeave] else []) @
     (if jwt_socket c \<noteq> None then [SocketDisconnect] else [])"

lemma stopHeartbeat_jwt_client [prim]:
  "client (stopHeartbeat_jwt w) = (client w)\<lparr>jwt_heartbeatTimer := None\<rparr>"
  by (simp add: stopHeartbeat_jwt_def split: option.splits)

lemma stopHeartbeat_jwt_storage [prim]: "localStorage (stopHeartbeat_jwt w) = localStorage w"
  by (simp add: stopHeartbeat_jwt_def split: option.splits)

lemma stopHeartbeat_jwt_trace [prim]:
  "trace (stopHeartbeat_jwt w) =
     trace w @ (if jwt_heartbeatTimer (client w) \<noteq> None then [ClearInterval] else [])"
  by (simp add: stopHeartbeat_jwt_def split: option.splits)

lemma cleanupConnection_jwt_client [prim]:
  "client (cleanupConnection_jwt w) =
     (client w)\<lparr>jwt_heartbeatTimer := None, jwt_channel := None, jwt_socket := None,
                jwt_connectionState := CS_disconnected\<rparr>"
  by (simp add: cleanupConnection_jwt_def Let_def stopHeartbeat_jwt_client split: option.splits)

lemma cleanupConnection_jwt_storage [prim]: "localStorage (cleanupConnection_jwt w) = localStorage w"
  by (simp add: cleanupConnection_jwt_def Let_def stopHeartbeat_jwt_storage split: option.splits)

lemma cleanupConnection_jwt_trace [prim]:
  "trace (cleanupConnection_jwt w) = trace w @ cleanup_effects_jwt (client w)"
  by (auto simp add: cleanupConnection_jwt_def Let_def stopHeartbeat_jwt_client stopHeartbeat_jwt_trace
      cleanup_effects_jwt_def split: option.splits)

lemma step_effects_jwt_listener: "e \<in> set (step_effects_jwt i u c) \<Longrightarrow> is_listener_effect e"
  by (auto simp: step_effects_jwt_def split: option.splits dest: emit_effects_listener)

lemma not_in_step_effects_jwt [simp]: "\<not> is_listener_effect e \<Longrightarrow> e \<notin> set (step_effects_jwt i u c)"
  using step_effects_jwt_listener by blast

lemma response_not_in_step_effects_jwt [simp]: "Emitted (Ev_response p) \<notin> set (step_effects_jwt i u c)"
  by (auto simp: step_effects_jwt_def emit_effects_def listener_effects_def split: option.splits)

section \<open>\<open>connect\<close>: the reentrancy guard and the step template (claims C2 and C6)\<close>

definition socketUrl_of :: "ConnectOptions \<Rightarrow> ModelRiverClient \<Rightarrow> string" where
  "socketUrl_of opts c =
     (let wsUrl = or_else (websocketUrl opts) (baseUrl (options c))
      in if endsWith wsUrl ''/socket'' then wsUrl else wsUrl @ ''/socket'')"

lemma connect_guard: "isConnecting (client w) \<Longrightarrow> connect now opts w = w"
  by (simp add: connect_def)

lemma connect_jwt_guard: "jwt_isConnecting (client w) \<Longrightarrow> connect_jwt now tok w = Some w"
  by (simp add: connect_jwt_def)

lemma connect_valid_client:
  "\<not> isConnecting (client w) \<Longrightarrow> channelId opts \<noteq> [] \<Longrightarrow> wsToken opts \<noteq> [] \<Longrightarrow>
   client (connect now opts w) =
     (client w)\<lparr>isConnecting := True,
       currentWebsocketChannel := Some (or_else (websocketChannel opts) (''ai_response:'' @ channelId opts)),
       heartbeatTimer := None, channel := None,
       socket := Some (Socket (socketUrl_of opts (client w)) (wsToken opts)),
       connectionState := CS_disconnected,
       steps := updateStep createInitialSteps ''queue'' (updates_status Pending),
       error := None, response := None, isCompleted := False\<rparr>"
  by (simp add: connect_def Let_def prim socketUrl_of_def)

lemma connect_valid_trace:
  "\<not> isConnecting (client w) \<Longrightarrow> channelId opts \<noteq> [] \<Longrightarrow> wsToken opts \<noteq> [] \<Longrightarrow>
   \<exists>c. trace (connect now opts w) =
     trace w @ emit_effects (listeners (client w) E_connecting) Ev_connecting @
     cleanup_effects (client w) @
     (if persist (options (client w))
      then probe_effects (localStorage w) @
           (if writable (localStorage w)
            then [SetItem (storageKeyPrefix (options (client w)) @ ACTIVE_REQUEST_KEY)] else [])
      else []) @
     step_effects ''queue'' (updates_status Pending) c @
     [SocketCreated (socketUrl_of opts (client w)) (wsToken opts), SocketConnect]"
  by (auto simp add: connect_def Let_def prim socketUrl_of_def cleanup_effects_def)

lemma connect_jwt_valid_client:
  "\<not> jwt_isConnecting (client w) \<Longrightarrow> decodeToken tok = Returns tp \<Longrightarrow> isTokenExpired now tp = Some False \<Longrightarrow>
   \<exists>w'. connect_jwt now tok w = Some w' \<and>
     client w' =
       (client w)\<lparr>jwt_isConnecting := True, jwt_currentToken := Some tp, jwt_currentWsToken := Some tok,
         jwt_heartbeatTimer := None, jwt_channel := None,
         jwt_socket := Some (Socket (baseUrl (jwt_options (client w))) tok),
         jwt_connectionState := CS_disconnected,
         jwt_steps := updateStep createInitialSteps ''queue'' (updates_status Loading),
         jwt_error := None, jwt_response := None\<rparr>"
  by (simp add: connect_jwt_def Let_def prim)

lemma connect_jwt_valid_trace:
  "\<not> jwt_isConnecting (client w) \<Longrightarrow> decodeToken tok = Returns tp \<Longrightarrow> isTokenExpired now tp = Some False \<Longrightarrow>
   \<exists>w' c. connect_jwt now tok w = Some w' \<and> trace w' =
     trace w @ emit_effects (jwt_listeners (client w) E_connecting) Ev_connecting @
     cleanup_effects_jwt (client w) @
     (if persist (jwt_options (client w))
      then probe_effects (localStorage w) @
           (if writable (localStorage w)
            then [SetItem (storageKeyPrefix (jwt_options (client w)) @ ACTIVE_REQUEST_KEY)] else [])
      else []) @
     step_effects_jwt ''queue'' (updates_status Loading) c @
     [SocketCreated (baseUrl (jwt_options (client w))) tok, SocketConnect]"
  by (auto simp add: connect_jwt_def Let_def prim cleanup_effects_jwt_def)

lemma count_SocketConnect_emit [simp]: "count_list (emit_effects ls ev) SocketConnect = 0"
  by (simp add: count_list_0_iff)

lemma count_SocketConnect_step [simp]: "count_list (step_effects i u c) SocketConnect = 0"
  by (simp add: count_list_0_iff)

lemma count_SocketConnect_step_jwt [simp]: "count_list (step_effects_jwt i u c) SocketConnect = 0"
  by (simp add: count_list_0_iff)

lemma count_SocketConnect_misc [simp]:
  "count_list (cleanup_effects c) SocketConnect = 0"
  "count_list (cleanup_effects_jwt cj) SocketConnect = 0"
  "count_list (probe_effects st) SocketConnect = 0"
  by (simp_all add: cleanup_effects_def cleanup_effects_jwt_def probe_effects_def)

subsection \<open>Fresh clients and a valid request\<close>

definition default_options :: ModelRiverClientOptions where
  "default_options = \<lparr>in_baseUrl = None, in_debug = None, in_persist = None,
     in_storageKeyPrefix = None, in_heartbeatInterval = None, in_requestTimeout = None,
     in_apiBaseUrl = None\<rparr>"

definition empty_storage :: storage where
  "empty_storage = \<lparr>items = Map.empty, writable = True\<rparr>"

definition fresh_world :: "ModelRiverClient world" where
  "fresh_world = \<lparr>client = new_ModelRiverClient default_options, localStorage = empty_storage, trace = []\<rparr>"

definition fresh_world_jwt :: "ModelRiverClientJWT world" where
  "fresh_world_jwt = \<lparr>client = new_ModelRiverClient_jwt default_options, localStorage = empty_storage, trace = []\<rparr>"

definition sample_connect :: ConnectOptions where
  "sample_connect = \<lparr>channelId = ''chan-1'', wsToken = ''tok-1'', websocketUrl = None, websocketChannel = None\<rparr>"

definition sample_token_payload :: TokenPayload where
  "sample_token_payload = \<lparr>project_id = ''proj-123'', channel_id = ''chan-456'',
     topic = JString ''ai_response:proj-123:chan-456'', tp_exp = None\<rparr>"

lemma sample_token_decodes: "decodeToken sample_token = Returns sample_token_payload"
  by code_simp

lemma sample_token_not_expired: "isTokenExpired now sample_token_payload = Some False"
  by (simp add: isTokenExpired_def sample_token_payload_def)

lemma fresh_world_idle: "\<not> isConnecting (client fresh_world)"
  by (simp add: fresh_world_def new_ModelRiverClient_def)

lemma fresh_world_jwt_idle: "\<not> jwt_isConnecting (client fresh_world_jwt)"
  by (simp add: fresh_world_jwt_def new_ModelRiverClient_jwt_def)

lemma sample_connect_valid: "channelId sample_connect \<noteq> [] \<and> wsToken sample_connect \<noteq> []"
  by (simp add: sample_connect_def)

text \<open>
  Claim C2. While a connect is in progress, \<open>connect\<close> returns the world it was
  given: no field of the client, no storage entry and no effect is added, in both
  versions of the client. So of two calls back to back, the first one valid and made
  on an idle client, the second changes nothing, and the two together call
  \<open>socket.connect()\<close> exactly once.
\<close>

theorem connect_reentrancy_guard:
  "(isConnecting (client w) \<longrightarrow> connect now opts w = w) \<and>
   (jwt_isConnecting (client wj) \<longrightarrow> connect_jwt now tok wj = Some wj) \<and>
   (\<not> isConnecting (client w) \<and> channelId opts \<noteq> [] \<and> wsToken opts \<noteq> [] \<longrightarrow>
      connect now' opts' (connect now opts w) = connect now opts w \<and>
      count_list (new_effects w (connect now' opts' (connect now opts w))) SocketConnect = 1) \<and>
   (\<not> jwt_isConnecting (client wj) \<and> decodeToken tok = Returns tp \<and> isTokenExpired now tp = Some False \<longrightarrow>
      (\<exists>w1. connect_jwt now tok wj = Some w1 \<and> connect_jwt now' tok' w1 = Some w1 \<and>
         count_list (new_effects wj w1) SocketConnect = 1))"
proof (intro conjI impI)
  assume "isConnecting (client w)"
  then show "connect now opts w = w" by (rule connect_guard)
next
  assume "jwt_isConnecting (client wj)"
  then show "connect_jwt now tok wj = Some wj" by (rule connect_jwt_guard)
next
  assume a: "\<not> isConnecting (client w) \<and> channelId opts \<noteq> [] \<and> wsToken opts \<noteq> []"
  then have busy: "isConnecting (client (connect now opts w))"
    by (simp add: connect_valid_client)
  then show g: "connect now' opts' (connect now opts w) = connect now opts w"
    by (rule connect_guard)
  from a connect_valid_trace [of w opts now] obtain c where
    "trace (connect now opts w) =
     trace w @ emit_effects (listeners (client w) E_connecting) Ev_connecting @
     cleanup_effects (client w) @
     (if persist (options (client w))
      then probe_effects (localStorage w) @
           (if writable (localStorage w)
            then [SetItem (storageKeyPrefix (options (client w)) @ ACTIVE_REQUEST_KEY)] else [])
      else []) @
     step_effects ''queue'' (updates_status Pending) c @
     [SocketCreated (socketUrl_of opts (client w)) (wsToken opts), SocketConnect]"
    by blast
  note ne = new_effects_append [OF this]
  show "count_list (new_effects w (connect now' opts' (connect now opts w))) SocketConnect = 1"
    by (simp add: g ne)
next
  assume a: "\<not> jwt_isConnecting (client wj) \<and> decodeToken tok = Returns tp \<and> isTokenExpired now tp = Some False"
  with connect_jwt_valid_trace [of wj tok tp now] obtain w1 c where
    w1: "connect_jwt now tok wj = Some w1" and
    tr: "trace w1 =
     trace wj @ emit_effects (jwt_listeners (client wj) E_connecting) Ev_connecting @
     cleanup_effects_jwt (client wj) @
     (if persist (jwt_options (client wj))
      then probe_effects (localStorage wj) @
           (if writable (localStorage wj)
            then [SetItem (storageKeyPrefix (jwt_options (client wj)) @ ACTIVE_REQUEST_KEY)] else [])
      else []) @
     step_effects_jwt ''queue'' (updates_status Loading) c @
     [SocketCreated (baseUrl (jwt_options (client wj))) tok, SocketConnect]"
    by blast
  from a connect_jwt_valid_client [of wj tok tp now] w1 have "jwt_isConnecting (client w1)"
    by auto
  then have "connect_jwt now' tok' w1 = Some w1" by (rule connect_jwt_guard)
  moreover have "count_list (new_effects wj w1) SocketConnect = 1"
    by (simp add: new_effects_append [OF tr])
  ultimately show "\<exists>w1. connect_jwt now tok wj = Some w1 \<and> connect_jwt now' tok' w1 = Some w1 \<and>
         count_list (new_effects wj w1) SocketConnect = 1"
    using w1 by blast
qed

theorem connect_reentrancy_guard_witness:
  "\<not> isConnecting (client fresh_world) \<and> channelId sample_connect \<noteq> [] \<and> wsToken sample_connect \<noteq> [] \<and>
   connect 1 sample_connect (connect 0 sample_connect fresh_world) = connect 0 sample_connect fresh_world \<and>
   count_list (new_effects fresh_world (connect 1 sample_connect (connect 0 sample_connect fresh_world)))
     SocketConnect = 1 \<and>
   \<not> jwt_isConnecting (client fresh_world_jwt) \<and> decodeToken sample_token = Returns sample_token_payload \<and>
   (\<exists>w1. connect_jwt 0 sample_token fresh_world_jwt = Some w1 \<and> connect_jwt 1 sample_token w1 = Some w1 \<and>
      count_list (new_effects fresh_world_jwt w1) SocketConnect = 1)"
  using connect_reentrancy_guard
    [of fresh_world 0 sample_connect fresh_world_jwt sample_token 1 sample_connect sample_token_payload sample_token]
    fresh_world_idle fresh_world_jwt_idle sample_connect_valid sample_token_decodes
    sample_token_not_expired [of 0]
  by blast

lemma getState_steps: "st_steps (fst (getState now w)) = steps (client w)"
  by (simp add: getState_def split_beta)

lemma getState_jwt_steps: "jst_steps (fst (getState_jwt now w)) = jwt_steps (client w)"
  by (simp add: getState_jwt_def split_beta)

lemma initial_steps_queue:
  "map step_id (updateStep createInitialSteps ''queue'' (updates_status st)) =
     [''queue'', ''process'', ''receive'', ''complete''] \<and>
   map step_status (updateStep createInitialSteps ''queue'' (updates_status st)) =
     [st, Pending, Pending, Pending]"
  by (simp add: updateStep_def createInitialSteps_def spread_def updates_status_def no_updates_def)

text \<open>
  Claim C6, as amended. After \<open>connect\<close> with a valid request on a client that is
  not already connecting, \<open>getState().steps\<close> read in the same turn has exactly the
  four template entries \<open>queue\<close>, \<open>process\<close>, \<open>receive\<close>, \<open>complete\<close>. In the JWT version
  the \<open>queue\<close> step is \<open>loading\<close> and the others \<open>pending\<close>; in the channel-id version,
  whose status type has no \<open>loading\<close>, \<open>connect\<close> writes \<open>pending\<close> to the \<open>queue\<close> step,
  so all four are \<open>pending\<close>.
\<close>

theorem connect_initialises_steps:
  "(\<not> isConnecting (client w) \<and> channelId opts \<noteq> [] \<and> wsToken opts \<noteq> [] \<longrightarrow>
      length (st_steps (fst (getState now' (connect now opts w)))) = 4 \<and>
      map step_id (st_steps (fst (getState now' (connect now opts w)))) =
        [''queue'', ''process'', ''receive'', ''complete''] \<and>
      map step_status (st_steps (fst (getState now' (connect now opts w)))) =
        [Pending, Pending, Pending, Pending]) \<and>
   (\<not> jwt_isConnecting (client wj) \<and> decodeToken tok = Returns tp \<and> isTokenExpired now tp = Some False \<longrightarrow>
      (\<exists>w1. connect_jwt now tok wj = Some w1 \<and>
         length (jst_steps (fst (getState_jwt now' w1))) = 4 \<and>
         map step_id (jst_steps (fst (getState_jwt now' w1))) =
           [''queue'', ''process'', ''receive'', ''complete''] \<and>
         map step_status (jst_steps (fst (getState_jwt now' w1))) =
           [Loading, Pending, Pending, Pending]))"
proof (intro conjI impI)
  assume a: "\<not> isConnecting (client w) \<and> channelId opts \<noteq> [] \<and> wsToken opts \<noteq> []"
  then have s: "steps (client (connect now opts w)) =
      updateStep createInitialSteps ''queue'' (updates_status Pending)"
    by (simp add: connect_valid_client)
  show "map step_id (st_steps (fst (getState now' (connect now opts w)))) =
        [''queue'', ''process'', ''receive'', ''complete'']"
    by (simp add: getState_steps s initial_steps_queue)
  then show "length (st_steps (fst (getState now' (connect now opts w)))) = 4"
    using length_map [of step_id "st_steps (fst (getState now' (connect now opts w)))"] by simp
  show "map step_status (st_steps (fst (getState now' (connect now opts w)))) =
        [Pending, Pending, Pending, Pending]"
    by (simp add: getState_steps s initial_steps_queue)
next
  assume a: "\<not> jwt_isConnecting (client wj) \<and> decodeToken tok = Returns tp \<and> isTokenExpired now tp = Some False"
  with connect_jwt_valid_client [of wj tok tp now] obtain w1 where
    w1: "connect_jwt now tok wj = Some w1" and
    s: "jwt_steps (client w1) = updateStep createInitialSteps ''queue'' (updates_status Loading)"
    by auto
  have i: "map step_id (jst_steps (fst (getState_jwt now' w1))) =
           [''queue'', ''process'', ''receive'', ''complete'']"
    by (simp add: getState_jwt_steps s initial_steps_queue)
  then have l: "length (jst_steps (fst (getState_jwt now' w1))) = 4"
    using length_map [of step_id "jst_steps (fst (getState_jwt now' w1))"] by simp
  have t: "map step_status (jst_steps (fst (getState_jwt now' w1))) =
           [Loading, Pending, Pending, Pending]"
    by (simp add: getState_jwt_steps s initial_steps_queue)
  from w1 i l t show "\<exists>w1. connect_jwt now tok wj = Some w1 \<and>
         length (jst_steps (fst (getState_jwt now' w1))) = 4 \<and>
         map step_id (jst_steps (fst (getState_jwt now' w1))) =
           [''queue'', ''process'', ''receive'', ''complete''] \<and>
         map step_status (jst_steps (fst (getState_jwt now' w1))) =
           [Loading, Pending, Pending, Pending]"
    by - (rule exI [of _ w1], intro conjI, assumption+)
qed

theorem connect_initialises_steps_witness:
  "\<not> isConnecting (client fresh_world) \<and> channelId sample_connect \<noteq> [] \<and> wsToken sample_connect \<noteq> [] \<and>
   length (st_steps (fst (getState 0 (connect 0 sample_connect fresh_world)))) = 4 \<and>
   \<not> jwt_isConnecting (client fresh_world_jwt) \<and> decodeToken sample_token = Returns sample_token_payload \<and>
   (\<exists>w1. connect_jwt 0 sample_token fresh_world_jwt = Some w1 \<and>
      map step_status (jst_steps (fst (getState_jwt 0 w1))) = [Loading, Pending, Pending, Pending])"
proof -
  note t = connect_initialises_steps
    [of fresh_world sample_connect 0 0 fresh_world_jwt sample_token sample_token_payload]
  have p1: "\<not> isConnecting (client fresh_world) \<and> channelId sample_connect \<noteq> [] \<and> wsToken sample_connect \<noteq> []"
    using fresh_world_idle sample_connect_valid by (intro conjI) simp_all
  have p2: "\<not> jwt_isConnecting (client fresh_world_jwt) \<and>
      decodeToken sample_token = Returns sample_token_payload \<and> isTokenExpired 0 sample_token_payload = Some False"
    using fresh_world_jwt_idle sample_token_decodes sample_token_not_expired [of 0]
    by (intro conjI)
  note q1 = t [THEN conjunct1, THEN mp, OF p1]
  note q2 = t [THEN conjunct2, THEN mp, OF p2]
  from q2 obtain w1 where
    a: "connect_jwt 0 sample_token fresh_world_jwt = Some w1" and
    b: "map step_status (jst_steps (fst (getState_jwt 0 w1))) = [Loading, Pending, Pending, Pending]"
    by (elim exE conjE)
  from a b have e: "\<exists>w1. connect_jwt 0 sample_token fresh_world_jwt = Some w1 \<and>
      map step_status (jst_steps (fst (getState_jwt 0 w1))) = [Loading, Pending, Pending, Pending]"
    by - (rule exI [of _ w1], intro conjI, assumption+)
  have i1: "\<not> isConnecting (client fresh_world)" by (rule fresh_world_idle)
  have i2: "channelId sample_connect \<noteq> []" using sample_connect_valid by (rule conjunct1)
  have i3: "wsToken sample_connect \<noteq> []" using sample_connect_valid by (rule conjunct2)
  show ?thesis
    by (intro conjI i1 i2 i3 q1 [THEN conjunct1] fresh_world_jwt_idle sample_token_decodes e)
qed

text \<open>
  The claim as stated fails in the channel-id version: after a valid \<open>connect\<close> on
  a fresh client the first step is \<open>queue\<close> and its status is \<open>pending\<close>.
\<close>

theorem connect_queue_pending_counterexample:
  "\<not> isConnecting (client fresh_world) \<and> channelId sample_connect \<noteq> [] \<and> wsToken sample_connect \<noteq> [] \<and>
   step_id (hd (st_steps (fst (getState 0 (connect 0 sample_connect fresh_world))))) = ''queue'' \<and>
   step_status (hd (st_steps (fst (getState 0 (connect 0 sample_connect fresh_world))))) = Pending"
  using fresh_world_idle sample_connect_valid
  by (simp add: getState_steps connect_valid_client updateStep_def createInitialSteps_def spread_def
      updates_status_def no_updates_def)

section \<open>A failure payload (claim C4)\<close>

text \<open>The step list after the failure branch, as a function of the list before.\<close>

definition failure_steps :: "AIResponse \<Rightarrow> WorkflowStep list \<Rightarrow> WorkflowStep list" where
  "failure_steps payload ss =
     updateStep (updateStep (updateStep ss
       ''process'' (no_updates\<lparr>upd_status := Some Error,
                               upd_errorMessage := Some (Some (error_message_of payload))\<rparr>))
       ''receive'' (updates_status Error))
       ''complete'' (updates_status Error)"

lemma failure_steps_error:
  "s \<in> set (failure_steps payload ss) \<Longrightarrow>
   step_id s = ''process'' \<or> step_id s = ''receive'' \<or> step_id s = ''complete'' \<Longrightarrow>
   step_status s = Error"
  by (auto simp add: failure_steps_def updateStep_def spread_def no_updates_def updates_status_def
      split: if_splits)

lemma handleResponse_failure_client:
  "resp_status payload \<noteq> ''ai_generated'' \<Longrightarrow> resp_status payload \<noteq> ''completed'' \<Longrightarrow>
   \<not> isSuccess payload \<Longrightarrow>
   client (handleResponse payload w) =
     (client w)\<lparr>steps := failure_steps payload (steps (client w)),
                error := Some (error_message_of payload),
                heartbeatTimer := None, channel := None, socket := None,
                connectionState := CS_disconnected\<rparr>"
  by (simp add: handleResponse_def Let_def prim failure_steps_def)

lemma handleResponse_failure_storage:
  "resp_status payload \<noteq> ''ai_generated'' \<Longrightarrow> resp_status payload \<noteq> ''completed'' \<Longrightarrow>
   \<not> isSuccess payload \<Longrightarrow>
   localStorage (handleResponse payload w) =
     (if persist (options (client w))
      then localStorage (clearActiveRequest (storageKeyPrefix (options (client w))) w)
      else localStorage w)"
  by (simp add: handleResponse_def Let_def prim)

lemma handleResponse_failure_trace:
  "resp_status payload \<noteq> ''ai_generated'' \<Longrightarrow> resp_status payload \<noteq> ''completed'' \<Longrightarrow>
   \<not> isSuccess payload \<Longrightarrow>
   \<exists>c2 c3.
     trace (handleResponse payload w) =
       trace w @
       step_effects ''process'' (no_updates\<lparr>upd_status := Some Error,
          upd_errorMessage := Some (Some (error_message_of payload))\<rparr>) (client w) @
       step_effects ''receive'' (updates_status Error) c2 @
       step_effects ''complete'' (updates_status Error) c3 @
       (if persist (options (client w))
        then probe_effects (localStorage w) @
             (if writable (localStorage w)
              then [RemoveItem (storageKeyPrefix (options (client w)) @ ACTIVE_REQUEST_KEY)] else [])
        else []) @
       emit_effects (listeners (client w) E_response) (Ev_response payload) @
       cleanup_effects (client w)"
  by (auto simp add: handleResponse_def Let_def prim cleanup_effects_def)

lemma handleResponse_jwt_failure_client:
  "\<not> isSuccess payload \<Longrightarrow>
   client (handleResponse_jwt payload w) =
     (client w)\<lparr>jwt_steps := failure_steps payload (jwt_steps (client w)),
                jwt_error := Some (error_message_of payload)\<rparr>"
  by (simp add: handleResponse_jwt_def Let_def prim failure_steps_def)

lemma handleResponse_jwt_failure_storage:
  "\<not> isSuccess payload \<Longrightarrow>
   localStorage (handleResponse_jwt payload w) =
     (if persist (jwt_options (client w))
      then localStorage (clearActiveRequest (storageKeyPrefix (jwt_options (client w))) w)
      else localStorage w)"
  by (simp add: handleResponse_jwt_def Let_def prim)

lemma handleResponse_jwt_failure_trace:
  "\<not> isSuccess payload \<Longrightarrow>
   \<exists>c2 c3.
     trace (handleResponse_jwt payload w) =
       trace w @
       step_effects_jwt ''process'' (no_updates\<lparr>upd_status := Some Error,
          upd_errorMessage := Some (Some (error_message_of payload))\<rparr>) (client w) @
       step_effects_jwt ''receive'' (updates_status Error) c2 @
       step_effects_jwt ''complete'' (updates_status Error) c3 @
       (if persist (jwt_options (client w))
        then probe_effects (localStorage w) @
             (if writable (localStorage w)
              then [RemoveItem (storageKeyPrefix (jwt_options (client w)) @ ACTIVE_REQUEST_KEY)] else [])
        else []) @
       emit_effects (jwt_listeners (client w) E_response) (Ev_response payload) @
       [SetTimeout 1000 CleanupCallback]"
  by (auto simp add: handleResponse_jwt_def Let_def prim)

lemma teardown_after_listeners:
  assumes S: "\<forall>e \<in> set S. is_step_effect e"
    and tr: "tr = S @ clear_effects p st prefix @ emit_effects ls ev @ T"
    and b: "b \<in> set T" "b = ClearInterval \<or> b = ChannelLeave \<or> b = SocketDisconnect"
  shows "happens_before (Emitted ev) b tr \<and> (\<forall>l \<in> set ls. happens_before (Called (lid l) ev) b tr)"
proof (intro conjI ballI)
  let ?A = "S @ clear_effects p st prefix @ emit_effects ls ev"
  have nb: "b \<notin> set ?A"
    using b(2) step_free_not_storage [OF S, of undefined]
    by (auto simp add: clear_effects_def probe_effects_def)
  have "happens_before (Emitted ev) b (?A @ T)"
    using nb b(1) by (intro hb_parts) simp_all
  then show "happens_before (Emitted ev) b tr" by (simp add: tr)
  fix l assume l: "l \<in> set ls"
  have "happens_before (Called (lid l) ev) b (?A @ T)"
    using nb b(1) called_in_emit_effects [OF l] by (intro hb_parts) simp_all
  then show "happens_before (Called (lid l) ev) b tr" by (simp add: tr)
qed

lemma clearing_before_listeners:
  assumes S: "\<forall>e \<in> set S. is_step_effect e" and ty: "event_type ev \<noteq> E_step"
    and tr: "tr = S @ clear_effects p st prefix @ emit_effects ls ev @ T"
    and pw: "p" "writable st"
  shows "happens_before (RemoveItem (prefix @ ACTIVE_REQUEST_KEY)) (Emitted ev) tr \<and>
         (\<forall>l \<in> set ls. happens_before (RemoveItem (prefix @ ACTIVE_REQUEST_KEY)) (Called (lid l) ev) tr)"
proof (intro conjI ballI)
  let ?C = "clear_effects p st prefix"
  let ?k = "RemoveItem (prefix @ ACTIVE_REQUEST_KEY)"
  have inA: "?k \<in> set (S @ ?C)"
    using pw by (simp add: clear_effects_def)
  have nC: "Emitted ev \<notin> set ?C" "\<And>i. Called i ev \<notin> set ?C"
    by (simp_all add: clear_effects_def probe_effects_def)
  have "happens_before ?k (Emitted ev) ((S @ ?C) @ (emit_effects ls ev @ T))"
    using inA step_free_not_emitted [OF S ty] nC(1) by (intro hb_parts) simp_all
  then show "happens_before ?k (Emitted ev) tr" by (simp add: tr)
  fix l assume l: "l \<in> set ls"
  have "happens_before ?k (Called (lid l) ev) ((S @ ?C) @ (emit_effects ls ev @ T))"
    using inA step_free_not_called [OF S ty] nC(2) called_in_emit_effects [OF l]
    by (intro hb_parts) simp_all
  then show "happens_before ?k (Called (lid l) ev) tr" by (simp add: tr)
qed

lemma step_effects_jwt_is_step: "e \<in> set (step_effects_jwt i u c) \<Longrightarrow> is_step_effect e"
  by (auto simp: step_effects_jwt_def emit_effects_def listener_effects_def split: option.splits)

lemma calls_of_cleanup_effects_jwt [simp]: "calls_of ev (cleanup_effects_jwt c) = []"
  by (simp add: cleanup_effects_jwt_def)

lemma handleResponse_failure_effects:
  assumes "resp_status payload \<noteq> ''ai_generated''" "resp_status payload \<noteq> ''completed''"
    "\<not> isSuccess payload"
  shows "\<exists>S. (\<forall>e \<in> set S. is_step_effect e) \<and>
     new_effects w (handleResponse payload w) =
       S @ clear_effects (persist (options (client w))) (localStorage w) (storageKeyPrefix (options (client w))) @
       emit_effects (listeners (client w) E_response) (Ev_response payload) @
       cleanup_effects (client w)"
proof -
  from handleResponse_failure_trace [OF assms, of w]
  obtain c2 c3 where tr: "trace (handleResponse payload w) =
       trace w @
       step_effects ''process'' (no_updates\<lparr>upd_status := Some Error,
          upd_errorMessage := Some (Some (error_message_of payload))\<rparr>) (client w) @
       step_effects ''receive'' (updates_status Error) c2 @
       step_effects ''complete'' (updates_status Error) c3 @
       (if persist (options (client w))
        then probe_effects (localStorage w) @
             (if writable (localStorage w)
              then [RemoveItem (storageKeyPrefix (options (client w)) @ ACTIVE_REQUEST_KEY)] else [])
        else []) @
       emit_effects (listeners (client w) E_response) (Ev_response payload) @
       cleanup_effects (client w)"
    by blast
  let ?S = "step_effects ''process'' (no_updates\<lparr>upd_status := Some Error,
          upd_errorMessage := Some (Some (error_message_of payload))\<rparr>) (client w) @
       step_effects ''receive'' (updates_status Error) c2 @
       step_effects ''complete'' (updates_status Error) c3"
  have s: "\<forall>e \<in> set ?S. is_step_effect e"
    by (auto dest: step_effects_is_step)
  have "new_effects w (handleResponse payload w) =
       ?S @ clear_effects (persist (options (client w))) (localStorage w) (storageKeyPrefix (options (client w))) @
       emit_effects (listeners (client w) E_response) (Ev_response payload) @
       cleanup_effects (client w)"
    by (simp add: new_effects_append [OF tr] clear_effects_def)
  with s show ?thesis by blast
qed

lemma handleResponse_jwt_failure_effects:
  assumes "\<not> isSuccess payload"
  shows "\<exists>S. (\<forall>e \<in> set S. is_step_effect e) \<and>
     new_effects w (handleResponse_jwt payload w) =
       S @ clear_effects (persist (jwt_options (client w))) (localStorage w)
             (storageKeyPrefix (jwt_options (client w))) @
       emit_effects (jwt_listeners (client w) E_response) (Ev_response payload) @
       [SetTimeout 1000 CleanupCallback]"
proof -
  from handleResponse_jwt_failure_trace [OF assms, of w]
  obtain c2 c3 where tr: "trace (handleResponse_jwt payload w) =
       trace w @
       step_effects_jwt ''process'' (no_updates\<lparr>upd_status := Some Error,
          upd_errorMessage := Some (Some (error_message_of payload))\<rparr>) (client w) @
       step_effects_jwt ''receive'' (updates_status Error) c2 @
       step_effects_jwt ''complete'' (updates_status Error) c3 @
       (if persist (jwt_options (client w))
        then probe_effects (localStorage w) @
             (if writable (localStorage w)
              then [RemoveItem (storageKeyPrefix (jwt_options (client w)) @ ACTIVE_REQUEST_KEY)] else [])
        else []) @
       emit_effects (jwt_listeners (client w) E_response) (Ev_response payload) @
       [SetTimeout 1000 CleanupCallback]"
    by blast
  let ?S = "step_effects_jwt ''process'' (no_updates\<lparr>upd_status := Some Error,
          upd_errorMessage := Some (Some (error_message_of payload))\<rparr>) (client w) @
       step_effects_jwt ''receive'' (updates_status Error) c2 @
       step_effects_jwt ''complete'' (updates_status Error) c3"
  have s: "\<forall>e \<in> set ?S. is_step_effect e"
    by (auto dest: step_effects_jwt_is_step)
  have "new_effects w (handleResponse_jwt payload w) =
       ?S @ clear_effects (persist (jwt_options (client w))) (localStorage w)
             (storageKeyPrefix (jwt_options (client w))) @
       emit_effects (jwt_listeners (client w) E_response) (Ev_response payload) @
       [SetTimeout 1000 CleanupCallback]"
    by (simp add: new_effects_append [OF tr] clear_effects_def)
  with s show ?thesis by blast
qed

lemma handleResponse_jwt_failure_keeps_connection:
  "\<not> isSuccess payload \<Longrightarrow>
   jwt_socket (client (handleResponse_jwt payload w)) = jwt_socket (client w) \<and>
   jwt_channel (client (handleResponse_jwt payload w)) = jwt_channel (client w) \<and>
   jwt_heartbeatTimer (client (handleResponse_jwt payload w)) = jwt_heartbeatTimer (client w) \<and>
   jwt_connectionState (client (handleResponse_jwt payload w)) = jwt_connectionState (client w)"
  by (simp add: handleResponse_jwt_failure_client)

text \<open>
  Claim C4, as amended. For a payload whose status is none of the recognised
  markers, \<open>handleResponse\<close> takes the failure path, in both versions of the client.
  The last-error field becomes the nested error message, or \<open>Unknown error\<close> when
  there is none or it is empty; every \<open>process\<close>, \<open>receive\<close> and \<open>complete\<close> step is
  marked \<open>error\<close>. The latest-response field is not written: it keeps the value it
  had. With persistence on and a storage that accepts writes the stored request is
  removed, before any \<open>response\<close> listener is called; when the storage refuses the
  probe write it is left as it was. Every \<open>response\<close> listener is called once with
  the payload, in registration order.

  The channel-id version then tears the connection down in the same call: what the
  call adds to the trace ends with \<open>clearInterval\<close> of a running heartbeat,
  \<open>channel.leave()\<close> of an open channel and \<open>socket.disconnect()\<close> of an open socket,
  all after the last listener call, and the fields are null and the phase
  \<open>disconnected\<close>.

  The JWT version tears nothing down in the call: socket, channel, heartbeat and
  phase are as before, no \<open>leave\<close> and no \<open>disconnect\<close> is among its effects, and its
  last effect is \<open>setTimeout\<close> of 1000 ms holding the function that calls
  \<open>cleanupConnection\<close>. When that timer fires on the state the call left, its effects
  are \<open>clearInterval\<close>, \<open>channel.leave()\<close>, \<open>socket.disconnect()\<close> for exactly what was
  open before the response arrived, and the fields are null and the phase
  \<open>disconnected\<close> afterwards.
\<close>

theorem failure_response_is_terminal:
  fixes payload :: AIResponse and w :: "ModelRiverClient world" and wj :: "ModelRiverClientJWT world"
  assumes "resp_status payload \<noteq> ''ai_generated''" and "resp_status payload \<noteq> ''completed''"
    and "\<not> isSuccess payload"
  defines "w' \<equiv> handleResponse payload w"
  defines "wj' \<equiv> handleResponse_jwt payload wj"
  defines "wj'' \<equiv> run_timer_jwt CleanupCallback (handleResponse_jwt payload wj)"
  defines "msg \<equiv> (case resp_error payload of
                     None \<Rightarrow> ''Unknown error''
                   | Some e \<Rightarrow> if err_message e = [] then ''Unknown error'' else err_message e)"
  defines "key \<equiv> storageKeyPrefix (options (client w)) @ ACTIVE_REQUEST_KEY"
  defines "keyj \<equiv> storageKeyPrefix (jwt_options (client wj)) @ ACTIVE_REQUEST_KEY"
  shows "error (client w') = Some msg \<and>
         (\<forall>s \<in> set (steps (client w')).
            step_id s = ''process'' \<or> step_id s = ''receive'' \<or> step_id s = ''complete'' \<longrightarrow>
            step_status s = Error) \<and>
         response (client w') = response (client w) \<and>
         (persist (options (client w)) \<and> writable (localStorage w) \<longrightarrow>
            items (localStorage w') key = None \<and>
            (\<forall>l \<in> set (listeners (client w) E_response).
               happens_before (RemoveItem key) (Called (lid l) (Ev_response payload)) (new_effects w w'))) \<and>
         (\<not> writable (localStorage w) \<longrightarrow> localStorage w' = localStorage w) \<and>
         Emitted (Ev_response payload) \<in> set (new_effects w w') \<and>
         calls_of (Ev_response payload) (new_effects w w') = map lid (listeners (client w) E_response) \<and>
         (\<exists>S. (\<forall>e \<in> set S. is_step_effect e) \<and>
            new_effects w w' =
              S @ clear_effects (persist (options (client w))) (localStorage w)
                    (storageKeyPrefix (options (client w))) @
              emit_effects (listeners (client w) E_response) (Ev_response payload) @
              cleanup_effects (client w)) \<and>
         socket (client w') = None \<and> channel (client w') = None \<and>
         heartbeatTimer (client w') = None \<and> connectionState (client w') = CS_disconnected \<and>
         (heartbeatTimer (client w) \<noteq> None \<longrightarrow>
            happens_before (Emitted (Ev_response payload)) ClearInterval (new_effects w w')) \<and>
         (channel (client w) \<noteq> None \<longrightarrow>
            happens_before (Emitted (Ev_response payload)) ChannelLeave (new_effects w w') \<and>
            (\<forall>l \<in> set (listeners (client w) E_response).
               happens_before (Called (lid l) (Ev_response payload)) ChannelLeave (new_effects w w'))) \<and>
         (socket (client w) \<noteq> None \<longrightarrow>
            happens_before (Emitted (Ev_response payload)) SocketDisconnect (new_effects w w') \<and>
            (\<forall>l \<in> set (listeners (client w) E_response).
               happens_before (Called (lid l) (Ev_response payload)) SocketDisconnect (new_effects w w'))) \<and>
         jwt_error (client wj') = Some msg \<and>
         (\<forall>s \<in> set (jwt_steps (client wj')).
            step_id s = ''process'' \<or> step_id s = ''receive'' \<or> step_id s = ''complete'' \<longrightarrow>
            step_status s = Error) \<and>
         jwt_response (client wj') = jwt_response (client wj) \<and>
         (persist (jwt_options (client wj)) \<and> writable (localStorage wj) \<longrightarrow>
            items (localStorage wj') keyj = None \<and>
            (\<forall>l \<in> set (jwt_listeners (client wj) E_response).
               happens_before (RemoveItem keyj) (Called (lid l) (Ev_response payload)) (new_effects wj wj'))) \<and>
         (\<not> writable (localStorage wj) \<longrightarrow> localStorage wj' = localStorage wj) \<and>
         Emitted (Ev_response payload) \<in> set (new_effects wj wj') \<and>
         calls_of (Ev_response payload) (new_effects wj wj') = map lid (jwt_listeners (client wj) E_response) \<and>
         (\<exists>S. (\<forall>e \<in> set S. is_step_effect e) \<and>
            new_effects wj wj' =
              S @ clear_effects (persist (jwt_options (client wj))) (localStorage wj)
                    (storageKeyPrefix (jwt_options (client wj))) @
              emit_effects (jwt_listeners (client wj) E_response) (Ev_response payload) @
              [SetTimeout 1000 CleanupCallback]) \<and>
         jwt_socket (client wj') = jwt_socket (client wj) \<and>
         jwt_channel (client wj') = jwt_channel (client wj) \<and>
         jwt_heartbeatTimer (client wj') = jwt_heartbeatTimer (client wj) \<and>
         jwt_connectionState (client wj') = jwt_connectionState (client wj) \<and>
         ChannelLeave \<notin> set (new_effects wj wj') \<and>
         SocketDisconnect \<notin> set (new_effects wj wj') \<and>
         ClearInterval \<notin> set (new_effects wj wj') \<and>
         last (new_effects wj wj') = SetTimeout 1000 CleanupCallback \<and>
         new_effects wj' wj'' =
           (if jwt_heartbeatTimer (client wj) \<noteq> None then [ClearInterval] else []) @
           (if jwt_channel (client wj) \<noteq> None then [ChannelLeave] else []) @
           (if jwt_socket (client wj) \<noteq> None then [SocketDisconnect] else []) \<and>
         client wj'' =
           (client wj')\<lparr>jwt_heartbeatTimer := None, jwt_channel := None, jwt_socket := None,
                         jwt_connectionState := CS_disconnected\<rparr> \<and>
         localStorage wj'' = localStorage wj'"
proof -
  let ?ev = "Ev_response payload"
  have m: "error_message_of payload = msg"
    by (simp add: error_message_of_def or_else_def msg_def split: option.splits)
  have ty: "event_type ?ev \<noteq> E_step" by simp
  note cl = handleResponse_failure_client [OF assms(1-3), of w, folded w'_def, unfolded m]
  note st = handleResponse_failure_storage [OF assms(1-3), of w, folded w'_def]
  from handleResponse_failure_effects [OF assms(1-3), of w, folded w'_def]
  obtain S where S: "\<forall>e \<in> set S. is_step_effect e"
    and ne: "new_effects w w' =
       S @ clear_effects (persist (options (client w))) (localStorage w) (storageKeyPrefix (options (client w))) @
       emit_effects (listeners (client w) E_response) ?ev @ cleanup_effects (client w)"
    by blast
  note clj = handleResponse_jwt_failure_client [OF assms(3), of wj, folded wj'_def, unfolded m]
  note stj = handleResponse_jwt_failure_storage [OF assms(3), of wj, folded wj'_def]
  from handleResponse_jwt_failure_effects [OF assms(3), of wj, folded wj'_def]
  obtain Sj where Sj: "\<forall>e \<in> set Sj. is_step_effect e"
    and nej: "new_effects wj wj' =
       Sj @ clear_effects (persist (jwt_options (client wj))) (localStorage wj)
              (storageKeyPrefix (jwt_options (client wj))) @
       emit_effects (jwt_listeners (client wj) E_response) ?ev @ [SetTimeout 1000 CleanupCallback]"
    by blast
  have a1: "error (client w') = Some msg" by (simp add: cl)
  have a2: "\<forall>s \<in> set (steps (client w')).
            step_id s = ''process'' \<or> step_id s = ''receive'' \<or> step_id s = ''complete'' \<longrightarrow>
            step_status s = Error"
    using failure_steps_error by (auto simp add: cl)
  have a3: "response (client w') = response (client w)" by (simp add: cl)
  have a4: "persist (options (client w)) \<and> writable (localStorage w) \<longrightarrow>
            items (localStorage w') key = None \<and>
            (\<forall>l \<in> set (listeners (client w) E_response).
               happens_before (RemoveItem key) (Called (lid l) ?ev) (new_effects w w'))"
    using clearing_before_listeners [OF S ty ne, THEN conjunct2]
    by (simp add: st clearActiveRequest_storage key_def)
  have a4': "\<not> writable (localStorage w) \<longrightarrow> localStorage w' = localStorage w"
    by (simp add: st clearActiveRequest_storage)
  have a5: "Emitted ?ev \<in> set (new_effects w w')"
    by (simp add: ne)
  have a5': "calls_of ?ev (new_effects w w') = map lid (listeners (client w) E_response)"
    by (simp add: ne calls_of_step_free [OF S ty])
  have a5'': "\<exists>S. (\<forall>e \<in> set S. is_step_effect e) \<and>
            new_effects w w' =
              S @ clear_effects (persist (options (client w))) (localStorage w)
                    (storageKeyPrefix (options (client w))) @
              emit_effects (listeners (client w) E_response) ?ev @ cleanup_effects (client w)"
    using S ne by blast
  have a6: "socket (client w') = None" "channel (client w') = None"
      "heartbeatTimer (client w') = None" "connectionState (client w') = CS_disconnected"
    by (simp_all add: cl)
  have a7: "heartbeatTimer (client w) \<noteq> None \<longrightarrow>
            happens_before (Emitted ?ev) ClearInterval (new_effects w w')"
    using teardown_after_listeners [OF S ne, of ClearInterval, THEN conjunct1]
    by (simp add: cleanup_effects_def)
  have a8: "channel (client w) \<noteq> None \<longrightarrow>
            happens_before (Emitted ?ev) ChannelLeave (new_effects w w') \<and>
            (\<forall>l \<in> set (listeners (client w) E_response).
               happens_before (Called (lid l) ?ev) ChannelLeave (new_effects w w'))"
    using teardown_after_listeners [OF S ne, of ChannelLeave]
    by (simp add: cleanup_effects_def)
  have a9: "socket (client w) \<noteq> None \<longrightarrow>
            happens_before (Emitted ?ev) SocketDisconnect (new_effects w w') \<and>
            (\<forall>l \<in> set (listeners (client w) E_response).
               happens_before (Called (lid l) ?ev) SocketDisconnect (new_effects w w'))"
    using teardown_after_listeners [OF S ne, of SocketDisconnect]
    by (simp add: cleanup_effects_def)
  have b1: "jwt_error (client wj') = Some msg" by (simp add: clj)
  have b2: "\<forall>s \<in> set (jwt_steps (client wj')).
            step_id s = ''process'' \<or> step_id s = ''receive'' \<or> step_id s = ''complete'' \<longrightarrow>
            step_status s = Error"
    using failure_steps_error by (auto simp add: clj)
  have b3: "jwt_response (client wj') = jwt_response (client wj)" by (simp add: clj)
  have b4: "persist (jwt_options (client wj)) \<and> writable (localStorage wj) \<longrightarrow>
            items (localStorage wj') keyj = None \<and>
            (\<forall>l \<in> set (jwt_listeners (client wj) E_response).
               happens_before (RemoveItem keyj) (Called (lid l) ?ev) (new_effects wj wj'))"
    using clearing_before_listeners [OF Sj ty nej, THEN conjunct2]
    by (simp add: stj clearActiveRequest_storage keyj_def)
  have b4': "\<not> writable (localStorage wj) \<longrightarrow> localStorage wj' = localStorage wj"
    by (simp add: stj clearActiveRequest_storage)
  have b5: "Emitted ?ev \<in> set (new_effects wj wj')"
    by (simp add: nej)
  have b5': "calls_of ?ev (new_effects wj wj') = map lid (jwt_listeners (client wj) E_response)"
    by (simp add: nej calls_of_step_free [OF Sj ty])
  have b5'': "\<exists>S. (\<forall>e \<in> set S. is_step_effect e) \<and>
            new_effects wj wj' =
              S @ clear_effects (persist (jwt_options (client wj))) (localStorage wj)
                    (storageKeyPrefix (jwt_options (client wj))) @
              emit_effects (jwt_listeners (client wj) E_response) ?ev @
              [SetTimeout 1000 CleanupCallback]"
    using Sj nej by blast
  have b6: "jwt_socket (client wj') = jwt_socket (client wj)"
      "jwt_channel (client wj') = jwt_channel (client wj)"
      "jwt_heartbeatTimer (client wj') = jwt_heartbeatTimer (client wj)"
      "jwt_connectionState (client wj') = jwt_connectionState (client wj)"
    by (simp_all add: clj)
  have b7: "ChannelLeave \<notin> set (new_effects wj wj')" "SocketDisconnect \<notin> set (new_effects wj wj')"
      "ClearInterval \<notin> set (new_effects wj wj')"
    using step_free_not_storage [OF Sj, of undefined]
    by (simp_all add: nej clear_effects_def probe_effects_def)
  have b8: "last (new_effects wj wj') = SetTimeout 1000 CleanupCallback"
    by (simp add: nej)
  have tj: "trace wj'' = trace wj' @ cleanup_effects_jwt (client wj')"
    by (simp add: wj''_def wj'_def cleanupConnection_jwt_trace)
  have b9: "new_effects wj' wj'' =
           (if jwt_heartbeatTimer (client wj) \<noteq> None then [ClearInterval] else []) @
           (if jwt_channel (client wj) \<noteq> None then [ChannelLeave] else []) @
           (if jwt_socket (client wj) \<noteq> None then [SocketDisconnect] else [])"
    by (simp add: new_effects_append [OF tj] cleanup_effects_jwt_def b6)
  have b10: "client wj'' =
           (client wj')\<lparr>jwt_heartbeatTimer := None, jwt_channel := None, jwt_socket := None,
                         jwt_connectionState := CS_disconnected\<rparr>"
    by (simp add: wj''_def wj'_def cleanupConnection_jwt_client)
  have b11: "localStorage wj'' = localStorage wj'"
    by (simp add: wj''_def wj'_def cleanupConnection_jwt_storage)
  show ?thesis
    by (intro conjI a1 a2 a3 a4 a4' a5 a5' a5'' a6 a7 a8 a9 b1 b2 b3 b4 b4' b5 b5' b5'' b6 b7 b8 b9 b10 b11)
qed

definition sample_client_jwt :: ModelRiverClientJWT where
  "sample_client_jwt =
     (new_ModelRiverClient_jwt \<lparr>in_baseUrl = None, in_debug = None, in_persist = None,
        in_storageKeyPrefix = Some ''t_'', in_heartbeatInterval = None,
        in_requestTimeout = None, in_apiBaseUrl = None\<rparr>)
     \<lparr>jwt_socket := Some (Socket ''wss://api.modelriver.com/socket'' sample_token),
      jwt_channel := Some (Channel ''ai_response:proj-123:chan-456''),
      jwt_heartbeatTimer := Some 30000,
      jwt_connectionState := CS_connected,
      jwt_steps := createInitialSteps,
      jwt_currentToken := Some sample_token_payload,
      jwt_currentWsToken := Some sample_token,
      jwt_listeners := sample_listeners\<rparr>"

definition sample_world_jwt :: "ModelRiverClientJWT world" where
  "sample_world_jwt = \<lparr>client = sample_client_jwt, localStorage = sample_storage, trace = []\<rparr>"

definition failed_payload :: AIResponse where
  "failed_payload = \<lparr>resp_status = ''failed'', resp_channel_id = Some ''chan-1'',
     resp_meta = None, resp_error = Some \<lparr>err_message = ''model overloaded''\<rparr>\<rparr>"

lemma failed_payload_is_failure:
  "resp_status failed_payload \<noteq> ''ai_generated''" "resp_status failed_payload \<noteq> ''completed''"
  "\<not> isSuccess failed_payload"
  by (simp_all add: failed_payload_def isSuccess_def)

theorem failure_response_is_terminal_witness:
  "resp_status failed_payload \<noteq> ''ai_generated'' \<and> resp_status failed_payload \<noteq> ''completed'' \<and>
   \<not> isSuccess failed_payload \<and>
   persist (options (client sample_world)) \<and> writable (localStorage sample_world) \<and>
   channel (client sample_world) \<noteq> None \<and> socket (client sample_world) \<noteq> None \<and>
   heartbeatTimer (client sample_world) \<noteq> None \<and>
   error (client (handleResponse failed_payload sample_world)) = Some ''model overloaded'' \<and>
   items (localStorage (handleResponse failed_payload sample_world)) ''t_active_request'' = None \<and>
   calls_of (Ev_response failed_payload)
     (new_effects sample_world (handleResponse failed_payload sample_world)) = [1, 2] \<and>
   happens_before (RemoveItem ''t_active_request'') (Called 1 (Ev_response failed_payload))
     (new_effects sample_world (handleResponse failed_payload sample_world)) \<and>
   happens_before (Called 2 (Ev_response failed_payload)) ChannelLeave
     (new_effects sample_world (handleResponse failed_payload sample_world)) \<and>
   happens_before (Called 2 (Ev_response failed_payload)) SocketDisconnect
     (new_effects sample_world (handleResponse failed_payload sample_world)) \<and>
   socket (client (handleResponse failed_payload sample_world)) = None \<and>
   persist (jwt_options (client sample_world_jwt)) \<and> writable (localStorage sample_world_jwt) \<and>
   jwt_error (client (handleResponse_jwt failed_payload sample_world_jwt)) = Some ''model overloaded'' \<and>
   items (localStorage (handleResponse_jwt failed_payload sample_world_jwt)) ''t_active_request'' = None \<and>
   calls_of (Ev_response failed_payload)
     (new_effects sample_world_jwt (handleResponse_jwt failed_payload sample_world_jwt)) = [1, 2] \<and>
   jwt_socket (client (handleResponse_jwt failed_payload sample_world_jwt)) =
     Some (Socket ''wss://api.modelriver.com/socket'' sample_token) \<and>
   last (new_effects sample_world_jwt (handleResponse_jwt failed_payload sample_world_jwt)) =
     SetTimeout 1000 CleanupCallback \<and>
   new_effects (handleResponse_jwt failed_payload sample_world_jwt)
     (run_timer_jwt CleanupCallback (handleResponse_jwt failed_payload sample_world_jwt)) =
     [ClearInterval, ChannelLeave, SocketDisconnect] \<and>
   jwt_socket (client (run_timer_jwt CleanupCallback (handleResponse_jwt failed_payload sample_world_jwt))) = None"
  using failure_response_is_terminal [OF failed_payload_is_failure, of sample_world sample_world_jwt]
    failed_payload_is_failure
  by (simp add: failed_payload_def sample_world_def sample_client_def sample_storage_def
      sample_listeners_def
      sample_world_jwt_def sample_client_jwt_def new_ModelRiverClient_def new_ModelRiverClient_jwt_def
      nullish_def ACTIVE_REQUEST_KEY_def)

text \<open>
  The claim as stated fails on the sample session, which has received no response
  yet: after the failure payload the latest-response field is still empty, in both
  versions of the client.
\<close>

theorem failure_response_not_stored_counterexample:
  "resp_status failed_payload \<noteq> ''ai_generated'' \<and> resp_status failed_payload \<noteq> ''completed'' \<and>
   \<not> isSuccess failed_payload \<and>
   response (client sample_world) = None \<and>
   response (client (handleResponse failed_payload sample_world)) = None \<and>
   jwt_response (client sample_world_jwt) = None \<and>
   jwt_response (client (handleResponse_jwt failed_payload sample_world_jwt)) = None"
  using failed_payload_is_failure
  by (simp add: handleResponse_failure_client handleResponse_jwt_failure_client
      sample_world_def sample_client_def sample_world_jwt_def sample_client_jwt_def
      new_ModelRiverClient_def new_ModelRiverClient_jwt_def)

section \<open>The age of the stored request (claim C5)\<close>

lemma request_key_not_test_key: "prefix @ ACTIVE_REQUEST_KEY \<noteq> TEST_KEY"
proof
  assume "prefix @ ACTIVE_REQUEST_KEY = TEST_KEY"
  then have "last (prefix @ ACTIVE_REQUEST_KEY) = last TEST_KEY" by simp
  then show False by (simp add: ACTIVE_REQUEST_KEY_def TEST_KEY_def)
qed

text \<open>
  Claim C5, as amended. With a usable storage holding a request record under the
  namespace, \<open>getActiveRequest\<close> returns null and removes the record when the
  record is older than the constant \<open>DEFAULT_REQUEST_TIMEOUT\<close> (300000 ms), and
  returns the record, leaving it stored, when it is not older; \<open>hasPendingRequest\<close>
  of a persisting client answers accordingly. The window is this constant whatever
  \<open>requestTimeout\<close> the client was constructed with: \<open>getActiveRequest\<close> takes the
  namespace only.
\<close>

theorem stale_request_is_cleared:
  fixes w :: "ModelRiverClient world"
  assumes "writable (localStorage w)"
    and "items (localStorage w) (prefix @ ACTIVE_REQUEST_KEY) = Some (Request r)"
  shows "(now - ar_timestamp r > 300000 \<longrightarrow>
            fst (getActiveRequest now prefix w) = None \<and>
            items (localStorage (snd (getActiveRequest now prefix w))) (prefix @ ACTIVE_REQUEST_KEY) = None \<and>
            (persist (options (client w)) \<and> storageKeyPrefix (options (client w)) = prefix \<longrightarrow>
               fst (hasPendingRequest now w) = False)) \<and>
         (now - ar_timestamp r \<le> 300000 \<longrightarrow>
            fst (getActiveRequest now prefix w) = Some r \<and>
            items (localStorage (snd (getActiveRequest now prefix w))) (prefix @ ACTIVE_REQUEST_KEY) =
              Some (Request r) \<and>
            (persist (options (client w)) \<and> storageKeyPrefix (options (client w)) = prefix \<longrightarrow>
               fst (hasPendingRequest now w) = True))"
  using assms request_key_not_test_key [of prefix]
  by (auto simp add: getActiveRequest_def hasPendingRequest_def isStorageAvailable_def
      clearActiveRequest_def DEFAULT_REQUEST_TIMEOUT_def Let_def split_beta)

definition short_timeout_world :: "ModelRiverClient world" where
  "short_timeout_world =
     \<lparr>client = new_ModelRiverClient \<lparr>in_baseUrl = None, in_debug = None, in_persist = None,
         in_storageKeyPrefix = Some ''t_'', in_heartbeatInterval = None,
         in_requestTimeout = Some 1000, in_apiBaseUrl = None\<rparr>,
      localStorage = sample_storage, trace = []\<rparr>"

theorem stale_request_is_cleared_witness:
  "writable (localStorage short_timeout_world) \<and>
   items (localStorage short_timeout_world) (''t_'' @ ACTIVE_REQUEST_KEY) = Some (Request sample_request) \<and>
   persist (options (client short_timeout_world)) \<and>
   400000 - ar_timestamp sample_request > 300000 \<and>
   fst (getActiveRequest 400000 ''t_'' short_timeout_world) = None \<and>
   items (localStorage (snd (getActiveRequest 400000 ''t_'' short_timeout_world))) (''t_'' @ ACTIVE_REQUEST_KEY) = None \<and>
   fst (hasPendingRequest 400000 short_timeout_world) = False"
  using stale_request_is_cleared [of short_timeout_world "''t_''" sample_request 400000]
  by (simp add: short_timeout_world_def sample_storage_def sample_request_def new_ModelRiverClient_def
      nullish_def ACTIVE_REQUEST_KEY_def)

text \<open>
  The claim as stated fails on a client constructed with \<open>requestTimeout: 1000\<close>: a
  record 2000 ms old exceeds the configured window, and is still returned and kept.
\<close>

theorem configured_timeout_ignored_counterexample:
  "requestTimeout (options (client short_timeout_world)) = 1000 \<and>
   3000 - ar_timestamp sample_request > requestTimeout (options (client short_timeout_world)) \<and>
   fst (getActiveRequest 3000 (storageKeyPrefix (options (client short_timeout_world))) short_timeout_world) =
     Some sample_request \<and>
   items (localStorage (snd (getActiveRequest 3000 (storageKeyPrefix (options (client short_timeout_world)))
       short_timeout_world))) ''t_active_request'' = Some (Request sample_request) \<and>
   fst (hasPendingRequest 3000 short_timeout_world) = True"
  by (simp add: short_timeout_world_def sample_storage_def sample_request_def new_ModelRiverClient_def
      nullish_def ACTIVE_REQUEST_KEY_def TEST_KEY_def getActiveRequest_def hasPendingRequest_def
      isStorageAvailable_def DEFAULT_REQUEST_TIMEOUT_def Let_def split_beta)

section \<open>Reachable states\<close>

text \<open>
  The states a client can be in: it is constructed, over any storage, and then any
  public method is called, any callback the client registered on the socket, the
  channel or a timer fires, or other code changes the storage. The callbacks are
  allowed at any time, which covers every order the transport can produce.
\<close>

inductive reachable :: "ModelRiverClientOptions \<Rightarrow> ModelRiverClient world \<Rightarrow> bool"
  for opts :: ModelRiverClientOptions where
  r_new: "reachable opts \<lparr>client = new_ModelRiverClient opts, localStorage = st, trace = []\<rparr>"
| r_connect: "reachable opts w \<Longrightarrow> reachable opts (connect now copts w)"
| r_disconnect: "reachable opts w \<Longrightarrow> reachable opts (disconnect w)"
| r_reset: "reachable opts w \<Longrightarrow> reachable opts (reset w)"
| r_destroy: "reachable opts w \<Longrightarrow> reachable opts (destroy w)"
| r_reconnect: "reachable opts w \<Longrightarrow> reachable opts (snd (reconnect now w))"
| r_reconnectWithBackend:
    "reachable opts w \<Longrightarrow> reachable opts (snd (reconnectWithBackend now later answer w))"
| r_getState: "reachable opts w \<Longrightarrow> reachable opts (snd (getState now w))"
| r_hasPendingRequest: "reachable opts w \<Longrightarrow> reachable opts (snd (hasPendingRequest now w))"
| r_on: "reachable opts w \<Longrightarrow> reachable opts (on ty cb w)"
| r_off: "reachable opts w \<Longrightarrow> reachable opts (off ty cb w)"
| r_socket_onOpen: "reachable opts w \<Longrightarrow> reachable opts (socket_onOpen w)"
| r_socket_onError: "reachable opts w \<Longrightarrow> reachable opts (socket_onError w)"
| r_socket_onClose: "reachable opts w \<Longrightarrow> reachable opts (socket_onClose w)"
| r_join_ok: "reachable opts w \<Longrightarrow> reachable opts (join_ok w)"
| r_join_error: "reachable opts w \<Longrightarrow> reachable opts (join_error reason w)"
| r_handleResponse: "reachable opts w \<Longrightarrow> reachable opts (handleResponse payload w)"
| r_channel_on_error: "reachable opts w \<Longrightarrow> reachable opts (channel_on_error msg w)"
| r_heartbeat_tick: "reachable opts w \<Longrightarrow> reachable opts (heartbeat_tick w)"
| r_storage: "reachable opts w \<Longrightarrow> reachable opts (w\<lparr>localStorage := st\<rparr>)"

inductive reachable_jwt :: "ModelRiverClientOptions \<Rightarrow> ModelRiverClientJWT world \<Rightarrow> bool"
  for opts :: ModelRiverClientOptions where
  j_new: "reachable_jwt opts \<lparr>client = new_ModelRiverClient_jwt opts, localStorage = st, trace = []\<rparr>"
| j_connect: "reachable_jwt opts w \<Longrightarrow> connect_jwt now tok w = Some w' \<Longrightarrow> reachable_jwt opts w'"
| j_disconnect: "reachable_jwt opts w \<Longrightarrow> reachable_jwt opts (disconnect_jwt w)"
| j_reset: "reachable_jwt opts w \<Longrightarrow> reachable_jwt opts (reset_jwt w)"
| j_destroy: "reachable_jwt opts w \<Longrightarrow> reachable_jwt opts (destroy_jwt w)"
| j_reconnect: "reachable_jwt opts w \<Longrightarrow> reconnect_jwt now w = Some (b, w') \<Longrightarrow> reachable_jwt opts w'"
| j_getState: "reachable_jwt opts w \<Longrightarrow> reachable_jwt opts (snd (getState_jwt now w))"
| j_hasPendingRequest: "reachable_jwt opts w \<Longrightarrow> reachable_jwt opts (snd (hasPendingRequest_jwt now w))"
| j_on: "reachable_jwt opts w \<Longrightarrow> reachable_jwt opts (on_jwt ty cb w)"
| j_off: "reachable_jwt opts w \<Longrightarrow> reachable_jwt opts (off_jwt ty cb w)"
| j_socket_onOpen: "reachable_jwt opts w \<Longrightarrow> reachable_jwt opts (socket_onOpen_jwt tp w)"
| j_socket_onError: "reachable_jwt opts w \<Longrightarrow> reachable_jwt opts (socket_onError_jwt w)"
| j_socket_onClose: "reachable_jwt opts w \<Longrightarrow> reachable_jwt opts (socket_onClose_jwt w)"
| j_join_ok: "reachable_jwt opts w \<Longrightarrow> reachable_jwt opts (join_ok_jwt w)"
| j_join_error: "reachable_jwt opts w \<Longrightarrow> reachable_jwt opts (join_error_jwt reason w)"
| j_handleResponse: "reachable_jwt opts w \<Longrightarrow> reachable_jwt opts (handleResponse_jwt payload w)"
| j_timer: "reachable_jwt opts w \<Longrightarrow> reachable_jwt opts (run_timer_jwt cb w)"
| j_channel_on_error: "reachable_jwt opts w \<Longrightarrow> reachable_jwt opts (channel_on_error_jwt msg w)"
| j_storage: "reachable_jwt opts w \<Longrightarrow> reachable_jwt opts (w\<lparr>localStorage := st\<rparr>)"

text \<open>
  What every step preserves: the options, and the fact that the phase is not
  \<open>connecting\<close> (no method assigns that value to \<open>connectionState\<close>).
\<close>

definition keeps :: "ModelRiverClient \<Rightarrow> ModelRiverClient \<Rightarrow> bool" where
  "keeps c c' = (options c' = options c \<and>
     (connectionState c' = connectionState c \<or> connectionState c' = CS_disconnected \<or>
      connectionState c' = CS_connected \<or> connectionState c' = CS_error))"

definition keeps_jwt :: "ModelRiverClientJWT \<Rightarrow> ModelRiverClientJWT \<Rightarrow> bool" where
  "keeps_jwt c c' = (jwt_options c' = jwt_options c \<and>
     (jwt_connectionState c' = jwt_connectionState c \<or> jwt_connectionState c' = CS_disconnected \<or>
      jwt_connectionState c' = CS_connected \<or> jwt_connectionState c' = CS_error))"

lemma getActiveRequest_client_eq [simp]: "client (snd (getActiveRequest now prefix w)) = client w"
  by (rule getActiveRequest_client)

lemma connect_keeps: "keeps (client w) (client (connect now copts w))"
  by (simp add: keeps_def connect_def Let_def prim)

lemma disconnect_keeps: "keeps (client w) (client (disconnect w))"
  by (simp add: keeps_def disconnect_def Let_def prim)

lemma reset_keeps: "keeps (client w) (client (reset w))"
  using disconnect_keeps [of w] by (simp add: keeps_def reset_def Let_def)

lemma destroy_keeps: "keeps (client w) (client (destroy w))"
  using reset_keeps [of w] by (simp add: keeps_def destroy_def Let_def)

lemma getActiveRequest_clientD: "getActiveRequest now prefix w = (r, w1) \<Longrightarrow> client w1 = client w"
  using getActiveRequest_client [of now prefix w] by simp

lemma keeps_refl [simp]: "keeps c c"
  by (simp add: keeps_def)

lemma reconnect_keeps: "keeps (client w) (client (snd (reconnect now w)))"
proof (cases "getActiveRequest now (storageKeyPrefix (options (client w))) w")
  case (Pair r w1)
  then have c: "client w1 = client w" by (rule getActiveRequest_clientD)
  have k: "\<And>copts. keeps (client w) (client (connect now copts w1))"
    using connect_keeps [of w1 now] by (simp add: c)
  show ?thesis
    using k by (auto simp add: reconnect_def Pair c prim keeps_def split: option.splits)
qed

lemma reconnectWithBackend_keeps: "keeps (client w) (client (snd (reconnectWithBackend now later answer w)))"
proof (cases "getActiveRequest now (storageKeyPrefix (options (client w))) w")
  case (Pair r w1)
  then have c: "client w1 = client w" by (rule getActiveRequest_clientD)
  have k: "\<And>copts w2. client w2 = client w \<Longrightarrow> keeps (client w) (client (connect later copts w2))"
    using connect_keeps [of _ later] by metis
  show ?thesis
    by (auto simp add: reconnectWithBackend_def Pair c prim Let_def k
        split: option.splits fetch_result.splits)
qed

lemma getState_keeps: "keeps (client w) (client (snd (getState now w)))"
  by (simp add: getState_def hasPendingRequest_def split_beta)

lemma hasPendingRequest_keeps: "keeps (client w) (client (snd (hasPendingRequest now w)))"
  by (simp add: hasPendingRequest_def split_beta)

lemma on_keeps: "keeps (client w) (client (on ty cb w))"
  by (simp add: on_def Let_def keeps_def)

lemma off_keeps: "keeps (client w) (client (off ty cb w))"
  by (simp add: off_def keeps_def)

lemma joinChannel_client:
  "client (joinChannel tp w) =
     (if socket (client w) = None then client w else (client w)\<lparr>channel := Some (Channel tp)\<rparr>)"
  by (simp add: joinChannel_def split: option.splits)

lemma startHeartbeat_client:
  "client (startHeartbeat w) = (client w)\<lparr>heartbeatTimer := Some (heartbeatInterval (options (client w)))\<rparr>"
  by (simp add: startHeartbeat_def Let_def prim)

lemma socket_onOpen_keeps: "keeps (client w) (client (socket_onOpen w))"
  by (simp add: socket_onOpen_def Let_def prim joinChannel_client keeps_def)

lemma socket_onError_keeps: "keeps (client w) (client (socket_onError w))"
  by (simp add: socket_onError_def Let_def prim keeps_def)

lemma socket_onClose_keeps: "keeps (client w) (client (socket_onClose w))"
  by (simp add: socket_onClose_def Let_def prim keeps_def)

lemma join_ok_keeps: "keeps (client w) (client (join_ok w))"
  by (simp add: join_ok_def Let_def prim startHeartbeat_client keeps_def)

lemma join_error_keeps: "keeps (client w) (client (join_error reason w))"
  by (simp add: join_error_def Let_def prim keeps_def)

lemma handleResponse_keeps: "keeps (client w) (client (handleResponse payload w))"
  by (simp add: handleResponse_def Let_def prim keeps_def)

lemma handleError_keeps: "keeps (client w) (client (handleError msg w))"
  by (simp add: handleError_def Let_def prim keeps_def)

lemma channel_on_error_keeps: "keeps (client w) (client (channel_on_error msg w))"
  using handleError_keeps
    [of "w\<lparr>trace := trace w @ [ConsoleError ''Channel error:'' (or_else msg ''An error occurred'')]\<rparr>"
        "or_else msg ''An error occurred''"]
  by (simp add: channel_on_error_def Let_def)

lemma heartbeat_tick_keeps: "keeps (client w) (client (heartbeat_tick w))"
  by (simp add: heartbeat_tick_def split: option.splits)

lemma reachable_invariant:
  "reachable opts w \<Longrightarrow>
   options (client w) = options (new_ModelRiverClient opts) \<and> connectionState (client w) \<noteq> CS_connecting"
proof (induction rule: reachable.induct)
  case (r_new st)
  show ?case by (simp add: new_ModelRiverClient_def)
next
  case (r_connect w now copts)
  then show ?case using connect_keeps [of w now copts] by (auto simp: keeps_def)
next
  case (r_disconnect w)
  then show ?case using disconnect_keeps [of w] by (auto simp: keeps_def)
next
  case (r_reset w)
  then show ?case using reset_keeps [of w] by (auto simp: keeps_def)
next
  case (r_destroy w)
  then show ?case using destroy_keeps [of w] by (auto simp: keeps_def)
next
  case (r_reconnect w now)
  then show ?case using reconnect_keeps [of w now] by (auto simp: keeps_def)
next
  case (r_reconnectWithBackend w now later answer)
  then show ?case using reconnectWithBackend_keeps [of w now later answer] by (auto simp: keeps_def)
next
  case (r_getState w now)
  then show ?case using getState_keeps [of w now] by (auto simp: keeps_def)
next
  case (r_hasPendingRequest w now)
  then show ?case using hasPendingRequest_keeps [of w now] by (auto simp: keeps_def)
next
  case (r_on w ty cb)
  then show ?case using on_keeps [of w ty cb] by (auto simp: keeps_def)
next
  case (r_off w ty cb)
  then show ?case using off_keeps [of w ty cb] by (auto simp: keeps_def)
next
  case (r_socket_onOpen w)
  then show ?case using socket_onOpen_keeps [of w] by (auto simp: keeps_def)
next
  case (r_socket_onError w)
  then show ?case using socket_onError_keeps [of w] by (auto simp: keeps_def)
next
  case (r_socket_onClose w)
  then show ?case using socket_onClose_keeps [of w] by (auto simp: keeps_def)
next
  case (r_join_ok w)
  then show ?case using join_ok_keeps [of w] by (auto simp: keeps_def)
next
  case (r_join_error w reason)
  then show ?case using join_error_keeps [of w reason] by (auto simp: keeps_def)
next
  case (r_handleResponse w payload)
  then show ?case using handleResponse_keeps [of w payload] by (auto simp: keeps_def)
next
  case (r_channel_on_error w msg)
  then show ?case using channel_on_error_keeps [of w msg] by (auto simp: keeps_def)
next
  case (r_heartbeat_tick w)
  then show ?case using heartbeat_tick_keeps [of w] by (auto simp: keeps_def)
next
  case (r_storage w st)
  then show ?case by simp
qed

lemma keeps_jwt_refl [simp]: "keeps_jwt c c"
  by (simp add: keeps_jwt_def)

lemma connect_jwt_keeps: "connect_jwt now tok w = Some w' \<Longrightarrow> keeps_jwt (client w) (client w')"
  by (auto simp add: connect_jwt_def Let_def prim keeps_jwt_def
      split: if_splits decoded.splits option.splits bool.splits)

lemma disconnect_jwt_keeps: "keeps_jwt (client w) (client (disconnect_jwt w))"
  by (simp add: keeps_jwt_def disconnect_jwt_def Let_def prim)

lemma reset_jwt_keeps: "keeps_jwt (client w) (client (reset_jwt w))"
  using disconnect_jwt_keeps [of w] by (simp add: keeps_jwt_def reset_jwt_def Let_def)

lemma destroy_jwt_keeps: "keeps_jwt (client w) (client (destroy_jwt w))"
  using reset_jwt_keeps [of w] by (simp add: keeps_jwt_def destroy_jwt_def Let_def)

lemma reconnect_jwt_keeps: "reconnect_jwt now w = Some (b, w') \<Longrightarrow> keeps_jwt (client w) (client w')"
proof (cases "getActiveRequest now (storageKeyPrefix (jwt_options (client w))) w")
  case (Pair r w1)
  assume a: "reconnect_jwt now w = Some (b, w')"
  from Pair have c: "client w1 = client w" by (rule getActiveRequest_clientD)
  show ?thesis
  proof (cases "persist (jwt_options (client w))")
    case False
    with a show ?thesis by (simp add: reconnect_jwt_def)
  next
    case True
    show ?thesis
    proof (cases r)
      case None
      with a True Pair c show ?thesis by (simp add: reconnect_jwt_def)
    next
      case (Some ar)
      with a True Pair have "connect_jwt now (ar_wsToken ar) w1 = Some w'"
        by (simp add: reconnect_jwt_def split: option.splits)
      from connect_jwt_keeps [OF this] c show ?thesis by simp
    qed
  qed
qed

lemma getState_jwt_keeps: "keeps_jwt (client w) (client (snd (getState_jwt now w)))"
  by (simp add: getState_jwt_def hasPendingRequest_jwt_def split_beta)

lemma hasPendingRequest_jwt_keeps: "keeps_jwt (client w) (client (snd (hasPendingRequest_jwt now w)))"
  by (simp add: hasPendingRequest_jwt_def split_beta)

lemma on_jwt_keeps: "keeps_jwt (client w) (client (on_jwt ty cb w))"
  by (simp add: on_jwt_def Let_def keeps_jwt_def)

lemma off_jwt_keeps: "keeps_jwt (client w) (client (off_jwt ty cb w))"
  by (simp add: off_jwt_def keeps_jwt_def)

lemma joinChannel_jwt_client:
  "client (joinChannel_jwt tp w) =
     (if jwt_socket (client w) = None then client w else (client w)\<lparr>jwt_channel := Some (Channel tp)\<rparr>)"
  by (simp add: joinChannel_jwt_def split: option.splits)

lemma startHeartbeat_jwt_client:
  "client (startHeartbeat_jwt w) =
     (client w)\<lparr>jwt_heartbeatTimer := Some (heartbeatInterval (jwt_options (client w)))\<rparr>"
  by (simp add: startHeartbeat_jwt_def Let_def prim)

lemma socket_onOpen_jwt_keeps: "keeps_jwt (client w) (client (socket_onOpen_jwt tp w))"
  by (simp add: socket_onOpen_jwt_def Let_def prim joinChannel_jwt_client keeps_jwt_def)

lemma socket_onError_jwt_keeps: "keeps_jwt (client w) (client (socket_onError_jwt w))"
  by (simp add: socket_onError_jwt_def Let_def prim keeps_jwt_def)

lemma socket_onClose_jwt_keeps: "keeps_jwt (client w) (client (socket_onClose_jwt w))"
  by (simp add: socket_onClose_jwt_def Let_def prim keeps_jwt_def)

lemma join_ok_jwt_keeps: "keeps_jwt (client w) (client (join_ok_jwt w))"
  by (simp add: join_ok_jwt_def Let_def prim startHeartbeat_jwt_client keeps_jwt_def)

lemma join_error_jwt_keeps: "keeps_jwt (client w) (client (join_error_jwt reason w))"
  by (simp add: join_error_jwt_def Let_def prim keeps_jwt_def)

lemma handleResponse_jwt_keeps: "keeps_jwt (client w) (client (handleResponse_jwt payload w))"
  by (simp add: handleResponse_jwt_def Let_def prim keeps_jwt_def)

lemma cleanupConnection_jwt_keeps: "keeps_jwt (client w) (client (cleanupConnection_jwt w))"
  by (simp add: prim keeps_jwt_def)

lemma handleError_jwt_keeps: "keeps_jwt (client w) (client (handleError_jwt msg w))"
  by (simp add: handleError_jwt_def Let_def prim keeps_jwt_def)

lemma channel_on_error_jwt_keeps: "keeps_jwt (client w) (client (channel_on_error_jwt msg w))"
  using handleError_jwt_keeps
    [of "w\<lparr>trace := trace w @ [ConsoleError ''Channel error:'' (or_else msg ''An error occurred'')]\<rparr>"
        "or_else msg ''An error occurred''"]
  by (simp add: channel_on_error_jwt_def Let_def)

lemma heartbeat_tick_jwt_keeps: "keeps_jwt (client w) (client (heartbeat_tick_jwt w))"
  by (simp add: heartbeat_tick_jwt_def split: option.splits)

lemma reachable_jwt_invariant:
  "reachable_jwt opts w \<Longrightarrow>
   persist (jwt_options (client w)) = persist (jwt_options (new_ModelRiverClient_jwt opts)) \<and>
   jwt_connectionState (client w) \<noteq> CS_connecting"
proof (induction rule: reachable_jwt.induct)
  case (j_new st)
  show ?case by (simp add: new_ModelRiverClient_jwt_def)
next
  case (j_connect w now tok w')
  then show ?case using connect_jwt_keeps [of now tok w w'] by (auto simp: keeps_jwt_def)
next
  case (j_disconnect w)
  then show ?case using disconnect_jwt_keeps [of w] by (auto simp: keeps_jwt_def)
next
  case (j_reset w)
  then show ?case using reset_jwt_keeps [of w] by (auto simp: keeps_jwt_def)
next
  case (j_destroy w)
  then show ?case using destroy_jwt_keeps [of w] by (auto simp: keeps_jwt_def)
next
  case (j_reconnect w now b w')
  then show ?case using reconnect_jwt_keeps [of now w b w'] by (auto simp: keeps_jwt_def)
next
  case (j_getState w now)
  then show ?case using getState_jwt_keeps [of w now] by (auto simp: keeps_jwt_def)
next
  case (j_hasPendingRequest w now)
  then show ?case using hasPendingRequest_jwt_keeps [of w now] by (auto simp: keeps_jwt_def)
next
  case (j_on w ty cb)
  then show ?case using on_jwt_keeps [of w ty cb] by (auto simp: keeps_jwt_def)
next
  case (j_off w ty cb)
  then show ?case using off_jwt_keeps [of w ty cb] by (auto simp: keeps_jwt_def)
next
  case (j_socket_onOpen w tp)
  then show ?case using socket_onOpen_jwt_keeps [of w tp] by (auto simp: keeps_jwt_def)
next
  case (j_socket_onError w)
  then show ?case using socket_onError_jwt_keeps [of w] by (auto simp: keeps_jwt_def)
next
  case (j_socket_onClose w)
  then show ?case using socket_onClose_jwt_keeps [of w] by (auto simp: keeps_jwt_def)
next
  case (j_join_ok w)
  then show ?case using join_ok_jwt_keeps [of w] by (auto simp: keeps_jwt_def)
next
  case (j_join_error w reason)
  then show ?case using join_error_jwt_keeps [of w reason] by (auto simp: keeps_jwt_def)
next
  case (j_handleResponse w payload)
  then show ?case using handleResponse_jwt_keeps [of w payload] by (auto simp: keeps_jwt_def)
next
  case (j_timer w cb)
  then show ?case using cleanupConnection_jwt_keeps [of w] heartbeat_tick_jwt_keeps [of w]
    by (cases cb) (auto simp: keeps_jwt_def)
next
  case (j_channel_on_error w msg)
  then show ?case using channel_on_error_jwt_keeps [of w msg] by (auto simp: keeps_jwt_def)
next
  case (j_storage w st)
  then show ?case by simp
qed

subsection \<open>The connecting flag and the phase\<close>

text \<open>
  While the connecting flag is set the phase is \<open>disconnected\<close>: \<open>connect\<close> sets the
  flag and then runs \<open>cleanupConnection\<close>, and every assignment of another phase
  clears the flag.
\<close>

definition flag_ok :: "ModelRiverClient \<Rightarrow> bool" where
  "flag_ok c = (isConnecting c \<longrightarrow> connectionState c = CS_disconnected)"

definition flag_ok_jwt :: "ModelRiverClientJWT \<Rightarrow> bool" where
  "flag_ok_jwt c = (jwt_isConnecting c \<longrightarrow> jwt_connectionState c = CS_disconnected)"

lemma connect_flag_ok: "flag_ok (client w) \<Longrightarrow> flag_ok (client (connect now copts w))"
  by (simp add: flag_ok_def connect_def Let_def prim)

lemma disconnect_flag_ok: "flag_ok (client (disconnect w))"
  by (simp add: flag_ok_def disconnect_def Let_def prim)

lemma reset_flag_ok: "flag_ok (client (reset w))"
  using disconnect_flag_ok [of w] by (simp add: flag_ok_def reset_def Let_def)

lemma destroy_flag_ok: "flag_ok (client (destroy w))"
  using reset_flag_ok [of w] by (simp add: flag_ok_def destroy_def Let_def)

lemma reconnect_flag_ok: "flag_ok (client w) \<Longrightarrow> flag_ok (client (snd (reconnect now w)))"
proof (cases "getActiveRequest now (storageKeyPrefix (options (client w))) w")
  case (Pair r w1)
  assume f: "flag_ok (client w)"
  from Pair have c: "client w1 = client w" by (rule getActiveRequest_clientD)
  have k: "\<And>copts. flag_ok (client (connect now copts w1))"
    using connect_flag_ok [of w1 now] f by (simp add: c)
  show ?thesis
    using k f by (auto simp add: reconnect_def Pair c prim flag_ok_def split: option.splits)
qed

lemma reconnectWithBackend_flag_ok:
  "flag_ok (client w) \<Longrightarrow> flag_ok (client (snd (reconnectWithBackend now later answer w)))"
proof (cases "getActiveRequest now (storageKeyPrefix (options (client w))) w")
  case (Pair r w1)
  assume f: "flag_ok (client w)"
  from Pair have c: "client w1 = client w" by (rule getActiveRequest_clientD)
  have k: "\<And>copts w2. client w2 = client w \<Longrightarrow> flag_ok (client (connect later copts w2))"
    using connect_flag_ok [of _ later] f by metis
  show ?thesis
    using f by (auto simp add: reconnectWithBackend_def Pair c prim Let_def k
        split: option.splits fetch_result.splits)
qed

lemma getState_client: "client (snd (getState now w)) = client w"
  by (simp add: getState_def hasPendingRequest_def split_beta)

lemma hasPendingRequest_client: "client (snd (hasPendingRequest now w)) = client w"
  by (simp add: hasPendingRequest_def split_beta)

lemma on_flag_ok: "flag_ok (client w) \<Longrightarrow> flag_ok (client (on ty cb w))"
  by (simp add: on_def Let_def flag_ok_def)

lemma off_flag_ok: "flag_ok (client w) \<Longrightarrow> flag_ok (client (off ty cb w))"
  by (simp add: off_def flag_ok_def)

lemma socket_onOpen_flag_ok: "flag_ok (client (socket_onOpen w))"
  by (simp add: socket_onOpen_def Let_def prim joinChannel_client flag_ok_def)

lemma socket_onError_flag_ok: "flag_ok (client (socket_onError w))"
  by (simp add: socket_onError_def Let_def prim flag_ok_def)

lemma socket_onClose_flag_ok: "flag_ok (client (socket_onClose w))"
  by (simp add: socket_onClose_def Let_def prim flag_ok_def)

lemma join_ok_flag_ok: "flag_ok (client w) \<Longrightarrow> flag_ok (client (join_ok w))"
  by (simp add: join_ok_def Let_def prim startHeartbeat_client flag_ok_def)

lemma join_error_flag_ok: "flag_ok (client w) \<Longrightarrow> flag_ok (client (join_error reason w))"
  by (simp add: join_error_def Let_def prim flag_ok_def)

lemma handleResponse_flag_ok: "flag_ok (client w) \<Longrightarrow> flag_ok (client (handleResponse payload w))"
  by (simp add: handleResponse_def Let_def prim flag_ok_def)

lemma handleError_flag_ok: "flag_ok (client w) \<Longrightarrow> flag_ok (client (handleError msg w))"
  by (simp add: handleError_def Let_def prim flag_ok_def)

lemma channel_on_error_flag_ok: "flag_ok (client w) \<Longrightarrow> flag_ok (client (channel_on_error msg w))"
  using handleError_flag_ok
    [of "w\<lparr>trace := trace w @ [ConsoleError ''Channel error:'' (or_else msg ''An error occurred'')]\<rparr>"
        "or_else msg ''An error occurred''"]
  by (simp add: channel_on_error_def Let_def)

lemma heartbeat_tick_client: "client (heartbeat_tick w) = client w"
  by (simp add: heartbeat_tick_def split: option.splits)

lemma reachable_flag_ok: "reachable opts w \<Longrightarrow> flag_ok (client w)"
proof (induction rule: reachable.induct)
  case (r_new st)
  show ?case by (simp add: new_ModelRiverClient_def flag_ok_def)
next
  case (r_connect w now copts)
  then show ?case by (simp add: connect_flag_ok)
next
  case (r_disconnect w)
  show ?case by (rule disconnect_flag_ok)
next
  case (r_reset w)
  show ?case by (rule reset_flag_ok)
next
  case (r_destroy w)
  show ?case by (rule destroy_flag_ok)
next
  case (r_reconnect w now)
  then show ?case by (simp add: reconnect_flag_ok)
next
  case (r_reconnectWithBackend w now later answer)
  then show ?case by (simp add: reconnectWithBackend_flag_ok)
next
  case (r_getState w now)
  then show ?case by (simp add: getState_client)
next
  case (r_hasPendingRequest w now)
  then show ?case by (simp add: hasPendingRequest_client)
next
  case (r_on w ty cb)
  then show ?case by (simp add: on_flag_ok)
next
  case (r_off w ty cb)
  then show ?case by (simp add: off_flag_ok)
next
  case (r_socket_onOpen w)
  show ?case by (rule socket_onOpen_flag_ok)
next
  case (r_socket_onError w)
  show ?case by (rule socket_onError_flag_ok)
next
  case (r_socket_onClose w)
  show ?case by (rule socket_onClose_flag_ok)
next
  case (r_join_ok w)
  then show ?case by (simp add: join_ok_flag_ok)
next
  case (r_join_error w reason)
  then show ?case by (simp add: join_error_flag_ok)
next
  case (r_handleResponse w payload)
  then show ?case by (simp add: handleResponse_flag_ok)
next
  case (r_channel_on_error w msg)
  then show ?case by (simp add: channel_on_error_flag_ok)
next
  case (r_heartbeat_tick w)
  then show ?case by (simp add: heartbeat_tick_client)
next
  case (r_storage w st)
  then show ?case by simp
qed

lemma connect_jwt_flag_ok:
  "connect_jwt now tok w = Some w' \<Longrightarrow> flag_ok_jwt (client w) \<Longrightarrow> flag_ok_jwt (client w')"
  by (auto simp add: connect_jwt_def Let_def prim flag_ok_jwt_def
      split: if_splits decoded.splits option.splits bool.splits)

lemma disconnect_jwt_flag_ok: "flag_ok_jwt (client (disconnect_jwt w))"
  by (simp add: flag_ok_jwt_def disconnect_jwt_def Let_def prim)

lemma reset_jwt_flag_ok: "flag_ok_jwt (client (reset_jwt w))"
  using disconnect_jwt_flag_ok [of w] by (simp add: flag_ok_jwt_def reset_jwt_def Let_def)

lemma destroy_jwt_flag_ok: "flag_ok_jwt (client (destroy_jwt w))"
  using reset_jwt_flag_ok [of w] by (simp add: flag_ok_jwt_def destroy_jwt_def Let_def)

lemma reconnect_jwt_flag_ok:
  "reconnect_jwt now w = Some (b, w') \<Longrightarrow> flag_ok_jwt (client w) \<Longrightarrow> flag_ok_jwt (client w')"
proof (cases "getActiveRequest now (storageKeyPrefix (jwt_options (client w))) w")
  case (Pair r w1)
  assume a: "reconnect_jwt now w = Some (b, w')" and f: "flag_ok_jwt (client w)"
  from Pair have c: "client w1 = client w" by (rule getActiveRequest_clientD)
  show ?thesis
  proof (cases "persist (jwt_options (client w))")
    case False
    with a f show ?thesis by (simp add: reconnect_jwt_def)
  next
    case True
    show ?thesis
    proof (cases r)
      case None
      with a True Pair c f show ?thesis by (simp add: reconnect_jwt_def)
    next
      case (Some ar)
      with a True Pair have "connect_jwt now (ar_wsToken ar) w1 = Some w'"
        by (simp add: reconnect_jwt_def split: option.splits)
      from connect_jwt_flag_ok [OF this] c f show ?thesis by simp
    qed
  qed
qed

lemma getState_jwt_client: "client (snd (getState_jwt now w)) = client w"
  by (simp add: getState_jwt_def hasPendingRequest_jwt_def split_beta)

lemma hasPendingRequest_jwt_client: "client (snd (hasPendingRequest_jwt now w)) = client w"
  by (simp add: hasPendingRequest_jwt_def split_beta)

lemma on_jwt_flag_ok: "flag_ok_jwt (client w) \<Longrightarrow> flag_ok_jwt (client (on_jwt ty cb w))"
  by (simp add: on_jwt_def Let_def flag_ok_jwt_def)

lemma off_jwt_flag_ok: "flag_ok_jwt (client w) \<Longrightarrow> flag_ok_jwt (client (off_jwt ty cb w))"
  by (simp add: off_jwt_def flag_ok_jwt_def)

lemma socket_onOpen_jwt_flag_ok: "flag_ok_jwt (client (socket_onOpen_jwt tp w))"
  by (simp add: socket_onOpen_jwt_def Let_def prim joinChannel_jwt_client flag_ok_jwt_def)

lemma socket_onError_jwt_flag_ok: "flag_ok_jwt (client (socket_onError_jwt w))"
  by (simp add: socket_onError_jwt_def Let_def prim flag_ok_jwt_def)

lemma socket_onClose_jwt_flag_ok: "flag_ok_jwt (client (socket_onClose_jwt w))"
  by (simp add: socket_onClose_jwt_def Let_def prim flag_ok_jwt_def)

lemma join_ok_jwt_flag_ok: "flag_ok_jwt (client w) \<Longrightarrow> flag_ok_jwt (client (join_ok_jwt w))"
  by (simp add: join_ok_jwt_def Let_def prim startHeartbeat_jwt_client flag_ok_jwt_def)

lemma join_error_jwt_flag_ok: "flag_ok_jwt (client w) \<Longrightarrow> flag_ok_jwt (client (join_error_jwt reason w))"
  by (simp add: join_error_jwt_def Let_def prim flag_ok_jwt_def)

lemma handleResponse_jwt_flag_ok:
  "flag_ok_jwt (client w) \<Longrightarrow> flag_ok_jwt (client (handleResponse_jwt payload w))"
  by (simp add: handleResponse_jwt_def Let_def prim flag_ok_jwt_def)

lemma handleError_jwt_flag_ok: "flag_ok_jwt (client w) \<Longrightarrow> flag_ok_jwt (client (handleError_jwt msg w))"
  by (simp add: handleError_jwt_def Let_def prim flag_ok_jwt_def)

lemma channel_on_error_jwt_flag_ok:
  "flag_ok_jwt (client w) \<Longrightarrow> flag_ok_jwt (client (channel_on_error_jwt msg w))"
  using handleError_jwt_flag_ok
    [of "w\<lparr>trace := trace w @ [ConsoleError ''Channel error:'' (or_else msg ''An error occurred'')]\<rparr>"
        "or_else msg ''An error occurred''"]
  by (simp add: channel_on_error_jwt_def Let_def)

lemma run_timer_jwt_flag_ok: "flag_ok_jwt (client w) \<Longrightarrow> flag_ok_jwt (client (run_timer_jwt cb w))"
  by (cases cb) (simp_all add: heartbeat_tick_jwt_def prim flag_ok_jwt_def split: option.splits)

lemma reachable_jwt_flag_ok: "reachable_jwt opts w \<Longrightarrow> flag_ok_jwt (client w)"
proof (induction rule: reachable_jwt.induct)
  case (j_new st)
  show ?case by (simp add: new_ModelRiverClient_jwt_def flag_ok_jwt_def)
next
  case (j_connect w now tok w')
  then show ?case using connect_jwt_flag_ok by blast
next
  case (j_disconnect w)
  show ?case by (rule disconnect_jwt_flag_ok)
next
  case (j_reset w)
  show ?case by (rule reset_jwt_flag_ok)
next
  case (j_destroy w)
  show ?case by (rule destroy_jwt_flag_ok)
next
  case (j_reconnect w now b w')
  then show ?case using reconnect_jwt_flag_ok by blast
next
  case (j_getState w now)
  then show ?case by (simp add: getState_jwt_client)
next
  case (j_hasPendingRequest w now)
  then show ?case by (simp add: hasPendingRequest_jwt_client)
next
  case (j_on w ty cb)
  then show ?case by (simp add: on_jwt_flag_ok)
next
  case (j_off w ty cb)
  then show ?case by (simp add: off_jwt_flag_ok)
next
  case (j_socket_onOpen w tp)
  show ?case by (rule socket_onOpen_jwt_flag_ok)
next
  case (j_socket_onError w)
  show ?case by (rule socket_onError_jwt_flag_ok)
next
  case (j_socket_onClose w)
  show ?case by (rule socket_onClose_jwt_flag_ok)
next
  case (j_join_ok w)
  then show ?case by (simp add: join_ok_jwt_flag_ok)
next
  case (j_join_error w reason)
  then show ?case by (simp add: join_error_jwt_flag_ok)
next
  case (j_handleResponse w payload)
  then show ?case by (simp add: handleResponse_jwt_flag_ok)
next
  case (j_timer w cb)
  then show ?case by (simp add: run_timer_jwt_flag_ok)
next
  case (j_channel_on_error w msg)
  then show ?case by (simp add: channel_on_error_jwt_flag_ok)
next
  case (j_storage w st)
  then show ?case by simp
qed

section \<open>The snapshot flags (claim C7)\<close>

lemma getState_fst:
  "st_connectionState (fst (getState now w)) = connectionState (client w)"
  "st_isConnected (fst (getState now w)) = (connectionState (client w) = CS_connected)"
  "st_isConnecting (fst (getState now w)) = isConnecting (client w)"
  by (simp_all add: getState_def split_beta)

lemma getState_jwt_fst:
  "jst_connectionState (fst (getState_jwt now w)) = jwt_connectionState (client w)"
  "jst_isConnected (fst (getState_jwt now w)) = (jwt_connectionState (client w) = CS_connected)"
  "jst_isConnecting (fst (getState_jwt now w)) = jwt_isConnecting (client w)"
  by (simp_all add: getState_jwt_def split_beta)

lemma connect_invalid_client:
  "channelId copts = [] \<or> wsToken copts = [] \<Longrightarrow>
   isConnecting (client (connect now copts w)) = isConnecting (client w) \<and>
   connectionState (client (connect now copts w)) = connectionState (client w)"
  by (auto simp add: connect_def prim)

lemma connect_jwt_throws_client:
  "decodeToken tok = Throws e \<Longrightarrow>
   \<exists>w1. connect_jwt now tok w = Some w1 \<and>
     jwt_isConnecting (client w1) = jwt_isConnecting (client w) \<and>
     jwt_connectionState (client w1) = jwt_connectionState (client w)"
  by (simp add: connect_jwt_def prim)

text \<open>
  Claim C7, as amended. In every reachable state of either version of the client,
  the snapshot of \<open>getState\<close> has \<open>isConnected\<close> true exactly when the phase is
  \<open>connected\<close>, and the phase is never \<open>connecting\<close>. \<open>isConnecting\<close> is the client's own
  connecting flag, and while it is true the phase is \<open>disconnected\<close>. The flag is set
  by a valid \<open>connect\<close> made while it is clear (the phase is \<open>disconnected\<close> then);
  it is cleared by the socket callbacks \<open>onOpen\<close> (phase \<open>connected\<close>), \<open>onError\<close> (phase
  \<open>error\<close>) and \<open>onClose\<close> (phase \<open>disconnected\<close>) and by \<open>disconnect\<close>; it is left as it
  is by a \<open>connect\<close> that fails validation, by \<open>handleResponse\<close>, by the channel
  callbacks and by the timers.
\<close>

theorem getState_flags:
  "(reachable opts w \<longrightarrow>
      (st_isConnected (fst (getState now w)) \<longleftrightarrow> st_connectionState (fst (getState now w)) = CS_connected) \<and>
      st_connectionState (fst (getState now w)) \<noteq> CS_connecting \<and>
      st_isConnecting (fst (getState now w)) = isConnecting (client w) \<and>
      (st_isConnecting (fst (getState now w)) \<longrightarrow>
         st_connectionState (fst (getState now w)) = CS_disconnected) \<and>
      (\<not> isConnecting (client w) \<and> channelId copts \<noteq> [] \<and> wsToken copts \<noteq> [] \<longrightarrow>
         st_isConnecting (fst (getState now (connect now' copts w))) \<and>
         st_connectionState (fst (getState now (connect now' copts w))) = CS_disconnected) \<and>
      (channelId copts = [] \<or> wsToken copts = [] \<longrightarrow>
         st_isConnecting (fst (getState now (connect now' copts w))) = isConnecting (client w)) \<and>
      \<not> st_isConnecting (fst (getState now (socket_onOpen w))) \<and>
      st_isConnected (fst (getState now (socket_onOpen w))) \<and>
      \<not> st_isConnecting (fst (getState now (socket_onError w))) \<and>
      st_connectionState (fst (getState now (socket_onError w))) = CS_error \<and>
      \<not> st_isConnecting (fst (getState now (socket_onClose w))) \<and>
      st_connectionState (fst (getState now (socket_onClose w))) = CS_disconnected \<and>
      \<not> st_isConnecting (fst (getState now (disconnect w))) \<and>
      st_connectionState (fst (getState now (disconnect w))) = CS_disconnected \<and>
      st_isConnecting (fst (getState now (handleResponse payload w))) = isConnecting (client w) \<and>
      st_isConnecting (fst (getState now (join_ok w))) = isConnecting (client w) \<and>
      st_isConnecting (fst (getState now (join_error reason w))) = isConnecting (client w) \<and>
      st_isConnecting (fst (getState now (channel_on_error msg w))) = isConnecting (client w) \<and>
      st_isConnecting (fst (getState now (heartbeat_tick w))) = isConnecting (client w)) \<and>
   (reachable_jwt opts wj \<longrightarrow>
      (jst_isConnected (fst (getState_jwt now wj)) \<longleftrightarrow>
         jst_connectionState (fst (getState_jwt now wj)) = CS_connected) \<and>
      jst_connectionState (fst (getState_jwt now wj)) \<noteq> CS_connecting \<and>
      jst_isConnecting (fst (getState_jwt now wj)) = jwt_isConnecting (client wj) \<and>
      (jst_isConnecting (fst (getState_jwt now wj)) \<longrightarrow>
         jst_connectionState (fst (getState_jwt now wj)) = CS_disconnected) \<and>
      (\<not> jwt_isConnecting (client wj) \<and> decodeToken tok = Returns tp \<and>
         isTokenExpired now' tp = Some False \<longrightarrow>
         (\<exists>w1. connect_jwt now' tok wj = Some w1 \<and>
            jst_isConnecting (fst (getState_jwt now w1)) \<and>
            jst_connectionState (fst (getState_jwt now w1)) = CS_disconnected)) \<and>
      (decodeToken tok = Throws e \<longrightarrow>
         (\<exists>w1. connect_jwt now' tok wj = Some w1 \<and>
            jst_isConnecting (fst (getState_jwt now w1)) = jwt_isConnecting (client wj))) \<and>
      \<not> jst_isConnecting (fst (getState_jwt now (socket_onOpen_jwt tpc wj))) \<and>
      jst_isConnected (fst (getState_jwt now (socket_onOpen_jwt tpc wj))) \<and>
      \<not> jst_isConnecting (fst (getState_jwt now (socket_onError_jwt wj))) \<and>
      jst_connectionState (fst (getState_jwt now (socket_onError_jwt wj))) = CS_error \<and>
      \<not> jst_isConnecting (fst (getState_jwt now (socket_onClose_jwt wj))) \<and>
      jst_connectionState (fst (getState_jwt now (socket_onClose_jwt wj))) = CS_disconnected \<and>
      \<not> jst_isConnecting (fst (getState_jwt now (disconnect_jwt wj))) \<and>
      jst_connectionState (fst (getState_jwt now (disconnect_jwt wj))) = CS_disconnected \<and>
      jst_isConnecting (fst (getState_jwt now (handleResponse_jwt payload wj))) = jwt_isConnecting (client wj) \<and>
      jst_isConnecting (fst (getState_jwt now (join_ok_jwt wj))) = jwt_isConnecting (client wj) \<and>
      jst_isConnecting (fst (getState_jwt now (join_error_jwt reason wj))) = jwt_isConnecting (client wj) \<and>
      jst_isConnecting (fst (getState_jwt now (channel_on_error_jwt msg wj))) = jwt_isConnecting (client wj) \<and>
      jst_isConnecting (fst (getState_jwt now (run_timer_jwt cb wj))) = jwt_isConnecting (client wj))"
proof (intro conjI impI)
  assume r: "reachable opts w"
  from reachable_invariant [OF r]
  show "st_connectionState (fst (getState now w)) \<noteq> CS_connecting"
    by (simp add: getState_fst)
  from reachable_flag_ok [OF r]
  show "st_connectionState (fst (getState now w)) = CS_disconnected"
    if "st_isConnecting (fst (getState now w))"
    using that by (simp add: getState_fst flag_ok_def)
next
  assume r: "reachable_jwt opts wj"
  from reachable_jwt_invariant [OF r]
  show "jst_connectionState (fst (getState_jwt now wj)) \<noteq> CS_connecting"
    by (simp add: getState_jwt_fst)
  from reachable_jwt_flag_ok [OF r]
  show "jst_connectionState (fst (getState_jwt now wj)) = CS_disconnected"
    if "jst_isConnecting (fst (getState_jwt now wj))"
    using that by (simp add: getState_jwt_fst flag_ok_jwt_def)
next
  assume "\<not> isConnecting (client w) \<and> channelId copts \<noteq> [] \<and> wsToken copts \<noteq> []"
  then show "st_isConnecting (fst (getState now (connect now' copts w)))"
    and "st_connectionState (fst (getState now (connect now' copts w))) = CS_disconnected"
    by (simp_all add: getState_fst connect_valid_client)
next
  assume "channelId copts = [] \<or> wsToken copts = []"
  then show "st_isConnecting (fst (getState now (connect now' copts w))) = isConnecting (client w)"
    using connect_invalid_client [of copts now' w] by (simp add: getState_fst)
next
  assume a: "\<not> jwt_isConnecting (client wj) \<and> decodeToken tok = Returns tp \<and>
         isTokenExpired now' tp = Some False"
  with connect_jwt_valid_client [of wj tok tp now'] obtain w1 where
    w1: "connect_jwt now' tok wj = Some w1" and
    f: "jwt_isConnecting (client w1)" "jwt_connectionState (client w1) = CS_disconnected"
    by auto
  show "\<exists>w1. connect_jwt now' tok wj = Some w1 \<and>
            jst_isConnecting (fst (getState_jwt now w1)) \<and>
            jst_connectionState (fst (getState_jwt now w1)) = CS_disconnected"
    using w1 f by (simp add: getState_jwt_fst)
next
  assume "decodeToken tok = Throws e"
  from connect_jwt_throws_client [OF this, of now' wj]
  show "\<exists>w1. connect_jwt now' tok wj = Some w1 \<and>
            jst_isConnecting (fst (getState_jwt now w1)) = jwt_isConnecting (client wj)"
    by (auto simp add: getState_jwt_fst)
next
  show "st_isConnecting (fst (getState now (channel_on_error msg w))) = isConnecting (client w)"
    by (simp add: getState_fst channel_on_error_def handleError_def Let_def prim)
next
  show "jst_isConnecting (fst (getState_jwt now (channel_on_error_jwt msg wj))) = jwt_isConnecting (client wj)"
    by (simp add: getState_jwt_fst channel_on_error_jwt_def handleError_jwt_def Let_def prim)
next
  show "jst_isConnecting (fst (getState_jwt now (run_timer_jwt cb wj))) = jwt_isConnecting (client wj)"
    by (cases cb) (simp_all add: getState_jwt_fst heartbeat_tick_jwt_def prim split: option.splits)
qed (simp_all add: getState_fst getState_jwt_fst socket_onOpen_def socket_onError_def socket_onClose_def
      disconnect_def handleResponse_def join_ok_def join_error_def heartbeat_tick_client
      socket_onOpen_jwt_def socket_onError_jwt_def socket_onClose_jwt_def disconnect_jwt_def
      handleResponse_jwt_def join_ok_jwt_def join_error_jwt_def
      joinChannel_client joinChannel_jwt_client startHeartbeat_client startHeartbeat_jwt_client
      Let_def prim)

lemma connected_fresh_reachable: "reachable default_options (connect 0 sample_connect fresh_world)"
  unfolding fresh_world_def by (rule r_connect) (rule r_new)

lemma fresh_jwt_reachable: "reachable_jwt default_options fresh_world_jwt"
  unfolding fresh_world_jwt_def by (rule j_new)

definition sample_topic :: string where
  "sample_topic = ''ai_response:proj-123:chan-456''"

lemma opened_fresh_reachable:
  "reachable default_options (socket_onOpen (connect 0 sample_connect fresh_world))"
  by (rule r_socket_onOpen) (rule connected_fresh_reachable)

theorem getState_flags_witness:
  "reachable default_options (connect 0 sample_connect fresh_world) \<and>
   st_isConnecting (fst (getState 0 (connect 0 sample_connect fresh_world))) \<and>
   st_connectionState (fst (getState 0 (connect 0 sample_connect fresh_world))) = CS_disconnected \<and>
   \<not> st_isConnected (fst (getState 0 (connect 0 sample_connect fresh_world))) \<and>
   reachable default_options (socket_onOpen (connect 0 sample_connect fresh_world)) \<and>
   st_connectionState (fst (getState 0 (socket_onOpen (connect 0 sample_connect fresh_world)))) = CS_connected \<and>
   st_isConnected (fst (getState 0 (socket_onOpen (connect 0 sample_connect fresh_world)))) \<and>
   \<not> st_isConnecting (fst (getState 0 (socket_onOpen (connect 0 sample_connect fresh_world)))) \<and>
   (\<exists>wj. connect_jwt 0 sample_token fresh_world_jwt = Some wj \<and>
      reachable_jwt default_options wj \<and>
      jst_isConnecting (fst (getState_jwt 0 wj)) \<and>
      jst_connectionState (fst (getState_jwt 0 wj)) = CS_disconnected \<and>
      \<not> jst_isConnected (fst (getState_jwt 0 wj)) \<and>
      reachable_jwt default_options (socket_onOpen_jwt sample_topic wj) \<and>
      jst_connectionState (fst (getState_jwt 0 (socket_onOpen_jwt sample_topic wj))) = CS_connected \<and>
      jst_isConnected (fst (getState_jwt 0 (socket_onOpen_jwt sample_topic wj))) \<and>
      \<not> jst_isConnecting (fst (getState_jwt 0 (socket_onOpen_jwt sample_topic wj))))"
proof -
  let ?w0 = "connect 0 sample_connect fresh_world"
  let ?w1 = "socket_onOpen ?w0"
  have rf: "reachable default_options fresh_world"
    unfolding fresh_world_def by (rule r_new)
  note r0 = connected_fresh_reachable
  note r1 = opened_fresh_reachable
  note rjf = fresh_jwt_reachable
  note tf = getState_flags [where opts = default_options and w = fresh_world and now = 0
      and copts = sample_connect and now' = 0 and wj = fresh_world_jwt and tok = sample_token
      and tp = sample_token_payload]
  have valid: "\<not> isConnecting (client fresh_world) \<and> channelId sample_connect \<noteq> [] \<and>
      wsToken sample_connect \<noteq> []"
    using fresh_world_idle sample_connect_valid by simp
  have validj: "\<not> jwt_isConnecting (client fresh_world_jwt) \<and>
      decodeToken sample_token = Returns sample_token_payload \<and>
      isTokenExpired 0 sample_token_payload = Some False"
    using fresh_world_jwt_idle sample_token_decodes sample_token_not_expired [of 0] by simp
  from tf rf valid have a: "st_isConnecting (fst (getState 0 ?w0))"
      "st_connectionState (fst (getState 0 ?w0)) = CS_disconnected"
    by simp_all
  note t0 = getState_flags [where opts = default_options and w = ?w0 and now = 0
      and wj = fresh_world_jwt]
  from t0 r0 a have b: "\<not> st_isConnected (fst (getState 0 ?w0))"
      "st_isConnected (fst (getState 0 ?w1))" "\<not> st_isConnecting (fst (getState 0 ?w1))"
    by simp_all
  note t1 = getState_flags [where opts = default_options and w = ?w1 and now = 0
      and wj = fresh_world_jwt]
  from t1 r1 b have c: "st_connectionState (fst (getState 0 ?w1)) = CS_connected"
    by simp
  note tfj = tf [THEN conjunct2, THEN mp, OF rjf]
  note tfc = tfj [THEN conjunct2, THEN conjunct2, THEN conjunct2, THEN conjunct2, THEN conjunct1,
      THEN mp, OF validj]
  from tfc obtain wj where
    j: "connect_jwt 0 sample_token fresh_world_jwt = Some wj"
      "jst_isConnecting (fst (getState_jwt 0 wj))"
      "jst_connectionState (fst (getState_jwt 0 wj)) = CS_disconnected"
    by (elim exE conjE)
  have rj0: "reachable_jwt default_options wj"
    using rjf j(1) by (rule j_connect)
  have rj1: "reachable_jwt default_options (socket_onOpen_jwt sample_topic wj)"
    using rj0 by (rule j_socket_onOpen)
  note tj0 = getState_flags [where opts = default_options and w = fresh_world and now = 0
      and wj = wj and tpc = sample_topic]
  from tj0 rj0 j have k: "\<not> jst_isConnected (fst (getState_jwt 0 wj))"
      "jst_isConnected (fst (getState_jwt 0 (socket_onOpen_jwt sample_topic wj)))"
      "\<not> jst_isConnecting (fst (getState_jwt 0 (socket_onOpen_jwt sample_topic wj)))"
    by simp_all
  note tj1 = getState_flags [where opts = default_options and w = fresh_world and now = 0
      and wj = "socket_onOpen_jwt sample_topic wj"]
  from tj1 rj1 k have l: "jst_connectionState (fst (getState_jwt 0 (socket_onOpen_jwt sample_topic wj))) =
      CS_connected"
    by simp
  from j rj0 k rj1 l have e: "\<exists>wj. connect_jwt 0 sample_token fresh_world_jwt = Some wj \<and>
      reachable_jwt default_options wj \<and>
      jst_isConnecting (fst (getState_jwt 0 wj)) \<and>
      jst_connectionState (fst (getState_jwt 0 wj)) = CS_disconnected \<and>
      \<not> jst_isConnected (fst (getState_jwt 0 wj)) \<and>
      reachable_jwt default_options (socket_onOpen_jwt sample_topic wj) \<and>
      jst_connectionState (fst (getState_jwt 0 (socket_onOpen_jwt sample_topic wj))) = CS_connected \<and>
      jst_isConnected (fst (getState_jwt 0 (socket_onOpen_jwt sample_topic wj))) \<and>
      \<not> jst_isConnecting (fst (getState_jwt 0 (socket_onOpen_jwt sample_topic wj)))"
    by - (rule exI [of _ wj], intro conjI, assumption+)
  show ?thesis
    by (intro conjI r0 a b r1 c e)
qed

text \<open>
  The claim as stated fails in the state right after a valid \<open>connect\<close> on a fresh
  client: \<open>isConnecting\<close> is true and the phase is \<open>disconnected\<close>.
\<close>

theorem isConnecting_without_phase_counterexample:
  "reachable default_options (connect 0 sample_connect fresh_world) \<and>
   st_isConnecting (fst (getState 0 (connect 0 sample_connect fresh_world))) = True \<and>
   st_connectionState (fst (getState 0 (connect 0 sample_connect fresh_world))) = CS_disconnected"
  using connected_fresh_reachable fresh_world_idle sample_connect_valid
  by (simp add: getState_def split_beta connect_valid_client)

section \<open>Persistence disabled (claim C10)\<close>

text \<open>
  Claim C10. A client constructed with \<open>persist: false\<close> answers false to
  \<open>hasPendingRequest()\<close>, and \<open>getState().hasPendingRequest\<close> is false, in every
  reachable state and over any content of the storage (the storage of a reachable
  state is arbitrary), in both versions of the client.
\<close>

theorem no_pending_request_without_persistence:
  "(reachable opts w \<and> in_persist opts = Some False \<longrightarrow>
      fst (hasPendingRequest now w) = False \<and> st_hasPendingRequest (fst (getState now w)) = False) \<and>
   (reachable_jwt opts wj \<and> in_persist opts = Some False \<longrightarrow>
      fst (hasPendingRequest_jwt now wj) = False \<and>
      jst_hasPendingRequest (fst (getState_jwt now wj)) = False)"
proof (intro conjI impI)
  assume a: "reachable opts w \<and> in_persist opts = Some False"
  with reachable_invariant [of opts w] have "\<not> persist (options (client w))"
    by (simp add: new_ModelRiverClient_def nullish_def)
  then show "fst (hasPendingRequest now w) = False"
    and "st_hasPendingRequest (fst (getState now w)) = False"
    by (simp_all add: hasPendingRequest_def getState_def)
next
  assume a: "reachable_jwt opts wj \<and> in_persist opts = Some False"
  with reachable_jwt_invariant [of opts wj] have "\<not> persist (jwt_options (client wj))"
    by (simp add: new_ModelRiverClient_jwt_def nullish_def)
  then show "fst (hasPendingRequest_jwt now wj) = False"
    and "jst_hasPendingRequest (fst (getState_jwt now wj)) = False"
    by (simp_all add: hasPendingRequest_jwt_def getState_jwt_def)
qed

definition no_persist_options :: ModelRiverClientOptions where
  "no_persist_options = \<lparr>in_baseUrl = None, in_debug = None, in_persist = Some False,
     in_storageKeyPrefix = Some ''t_'', in_heartbeatInterval = None, in_requestTimeout = None,
     in_apiBaseUrl = None\<rparr>"

definition no_persist_world :: "ModelRiverClient world" where
  "no_persist_world =
     \<lparr>client = new_ModelRiverClient no_persist_options, localStorage = sample_storage, trace = []\<rparr>"

definition no_persist_world_jwt :: "ModelRiverClientJWT world" where
  "no_persist_world_jwt =
     \<lparr>client = new_ModelRiverClient_jwt no_persist_options, localStorage = sample_storage, trace = []\<rparr>"

theorem no_pending_request_without_persistence_witness:
  "reachable no_persist_options (connect 2000 sample_connect no_persist_world) \<and>
   in_persist no_persist_options = Some False \<and>
   items (localStorage (connect 2000 sample_connect no_persist_world)) ''t_active_request'' =
     Some (Request sample_request) \<and>
   fst (hasPendingRequest 2000 (connect 2000 sample_connect no_persist_world)) = False \<and>
   st_hasPendingRequest (fst (getState 2000 (connect 2000 sample_connect no_persist_world))) = False \<and>
   reachable_jwt no_persist_options no_persist_world_jwt \<and>
   fst (hasPendingRequest_jwt 2000 no_persist_world_jwt) = False"
proof -
  have r: "reachable no_persist_options (connect 2000 sample_connect no_persist_world)"
    unfolding no_persist_world_def by (rule r_connect) (rule r_new)
  have rj: "reachable_jwt no_persist_options no_persist_world_jwt"
    unfolding no_persist_world_jwt_def by (rule j_new)
  have p: "in_persist no_persist_options = Some False"
    by (simp add: no_persist_options_def)
  have s: "items (localStorage (connect 2000 sample_connect no_persist_world)) ''t_active_request'' =
     Some (Request sample_request)"
    by (simp add: connect_def Let_def prim no_persist_world_def no_persist_options_def
        new_ModelRiverClient_def nullish_def sample_connect_def sample_storage_def)
  note t = no_pending_request_without_persistence
    [of no_persist_options "connect 2000 sample_connect no_persist_world" 2000 no_persist_world_jwt]
  note a = t [THEN conjunct1, THEN mp, OF conjI [OF r p]]
  note b = t [THEN conjunct2, THEN mp, OF conjI [OF rj p]]
  show ?thesis
    by (intro conjI r p s a [THEN conjunct1] a [THEN conjunct2] rj b [THEN conjunct1])
qed

end
